theory Spec2Isabelle
  imports Complex_Main "HOL-Library.Log_Nat" "HOL-Library.Word"
begin

section \<open>Python floats\<close>

text \<open>
  A Python \<open>float\<close> is an IEEE-754 binary64 number. A finite one is a rational, so the
  model keeps floats as \<^typ>\<open>rat\<close> and rounds the exact result of every operation to the
  nearest representable value, ties to the even significand (\<open>fl\<close>). A decimal literal
  such as \<open>0.23\<close> denotes \<open>fl (23/100)\<close>. All magnitudes that occur in the program are far
  below the overflow threshold, so infinities are not modelled.
\<close>

definition rne :: "rat \<Rightarrow> int" where
  "rne x = (let f = \<lfloor>x\<rfloor>; r = x - of_int f in
     if r < 1/2 then f else if 1/2 < r then f + 1 else if even f then f else f + 1)"

definition ilog2 :: "rat \<Rightarrow> int" where
  "ilog2 x = (if 1 \<le> x then bitlen \<lfloor>x\<rfloor> - 1 else - bitlen (\<lceil>1 / x\<rceil> - 1))"

definition quantum :: "rat \<Rightarrow> rat" where
  "quantum x = 2 powi (max (ilog2 x) (- 1022) - 52)"

definition flp :: "rat \<Rightarrow> rat" where
  "flp x = of_int (rne (x / quantum x)) * quantum x"

definition fl :: "rat \<Rightarrow> rat" where
  "fl x = (if x = 0 then 0 else if 0 < x then flp x else - flp (- x))"

definition fadd :: "rat \<Rightarrow> rat \<Rightarrow> rat" where
  "fadd a b = fl (a + b)"

definition fsub :: "rat \<Rightarrow> rat \<Rightarrow> rat" where
  "fsub a b = fl (a - b)"

definition fmul :: "rat \<Rightarrow> rat \<Rightarrow> rat" where
  "fmul a b = fl (a * b)"

text \<open>True division; the program only divides by the non-zero constants 1024 and 16.\<close>

definition fdiv :: "rat \<Rightarrow> rat \<Rightarrow> rat" where
  "fdiv a b = fl (a / b)"

text \<open>
  \<open>round(x, n)\<close> on a float: the exact binary value is rounded to \<open>n\<close> decimals (ties to
  even) and the decimal is converted back to the nearest float.
\<close>

definition py_round :: "rat \<Rightarrow> nat \<Rightarrow> rat" where
  "py_round x n = fl (of_int (rne (x * 10 ^ n)) / 10 ^ n)"

section \<open>Bytes and strings\<close>

type_synonym bytes = "8 word list"

definition startswith :: "'a list \<Rightarrow> 'a list \<Rightarrow> bool" where
  "startswith xs p = (take (length p) xs = p)"

definition hex_val :: "char \<Rightarrow> int option" where
  "hex_val c = (let n = (of_char c :: int) in
     if 48 \<le> n \<and> n \<le> 57 then Some (n - 48)
     else if 97 \<le> n \<and> n \<le> 102 then Some (n - 87)
     else if 65 \<le> n \<and> n \<le> 70 then Some (n - 55)
     else None)"

fun int16_digits :: "string \<Rightarrow> int \<Rightarrow> int option" where
  "int16_digits [] acc = Some acc"
| "int16_digits (c # cs) acc =
     (case hex_val c of None \<Rightarrow> None | Some v \<Rightarrow> int16_digits cs (16 * acc + v))"

datatype py_error =
    ValueError string
  | HTTPException nat string
  | ValidationError string

text \<open>
  \<open>int(s, 16)\<close> on a string of hexadecimal digits. Any other string is a \<open>ValueError\<close>
  here; Python also reads a sign, a \<open>0x\<close> prefix, blanks and underscores, none of which a
  hexadecimal digest contains.
\<close>

definition py_int16 :: "string \<Rightarrow> py_error + int" where
  "py_int16 s =
     (if s = [] then Inl (ValueError ''invalid literal for int() with base 16'')
      else case int16_digits s 0 of
             None \<Rightarrow> Inl (ValueError ''invalid literal for int() with base 16'')
           | Some n \<Rightarrow> Inr n)"

definition upper_char :: "char \<Rightarrow> char" where
  "upper_char c = (let n = (of_char c :: nat) in
     if 97 \<le> n \<and> n \<le> 122 then char_of (n - 32) else c)"

definition lower_char :: "char \<Rightarrow> char" where
  "lower_char c = (let n = (of_char c :: nat) in
     if 65 \<le> n \<and> n \<le> 90 then char_of (n + 32) else c)"

text \<open>\<open>str.capitalize()\<close> on ASCII text: first character upper case, the rest lower case.\<close>

fun capitalize :: "string \<Rightarrow> string" where
  "capitalize [] = []"
| "capitalize (c # cs) = upper_char c # map lower_char cs"

section \<open>The library the program calls\<close>

text \<open>
  \<open>hashlib\<close>, \<open>base64\<close> and \<open>random\<close> are not part of the repository. They are a
  parameter of the model: a record of the calls the program makes, over an abstract
  generator state \<open>'g\<close> (the state of the module-level generator of \<open>random\<close>).
  \<open>b64decode\<close> returns the message of the exception it raises, or the decoded bytes.
\<close>

record 'g pylib =
  b64decode :: "string \<Rightarrow> string + bytes"
  sha256_hexdigest :: "bytes \<Rightarrow> string"
  random_seed :: "int \<Rightarrow> 'g \<Rightarrow> 'g"
  random_random :: "'g \<Rightarrow> rat \<times> 'g"
  random_randint :: "int \<Rightarrow> int \<Rightarrow> 'g \<Rightarrow> py_error + int \<times> 'g"
  random_sample :: "string list \<Rightarrow> int \<Rightarrow> 'g \<Rightarrow> py_error + string list \<times> 'g"

text \<open>\<open>random.uniform(a, b)\<close> is \<open>a + (b - a) * random()\<close>.\<close>

definition random_uniform :: "'g pylib \<Rightarrow> rat \<Rightarrow> rat \<Rightarrow> 'g \<Rightarrow> rat \<times> 'g" where
  "random_uniform L a b g =
     (let (d, g') = random_random L g in (fadd a (fmul (fsub b a) d), g'))"

definition is_hexdigit :: "char \<Rightarrow> bool" where
  "is_hexdigit c = (c \<in> set ''0123456789abcdef'')"

text \<open>
  What the documentation of the library promises: a SHA-256 digest prints as 64 lower-case
  hexadecimal digits; \<open>random()\<close> lies in \<open>[0, 1)\<close>; \<open>randint(a, b)\<close> with \<open>a \<le> b\<close> returns
  an integer between them; \<open>sample(population, k)\<close> with \<open>0 \<le> k \<le> len(population)\<close> returns
  the elements at \<open>k\<close> distinct positions of the population.
\<close>

definition lib_ok :: "'g pylib \<Rightarrow> bool" where
  "lib_ok L \<longleftrightarrow>
     (\<forall>bs. length (sha256_hexdigest L bs) = 64 \<and>
           (\<forall>c \<in> set (sha256_hexdigest L bs). is_hexdigit c)) \<and>
     (\<forall>g. 0 \<le> fst (random_random L g) \<and> fst (random_random L g) < 1) \<and>
     (\<forall>a b g. a \<le> b \<longrightarrow>
        (\<exists>n g'. random_randint L a b g = Inr (n, g') \<and> a \<le> n \<and> n \<le> b)) \<and>
     (\<forall>pop k g. 0 \<le> k \<and> k \<le> int (length pop) \<longrightarrow>
        (\<exists>ps g'. random_sample L pop k g = Inr (map (\<lambda>i. pop ! i) ps, g') \<and>
                 int (length ps) = k \<and> distinct ps \<and> (\<forall>i \<in> set ps. i < length pop)))"

text \<open>\<open>random.seed(a)\<close> replaces the generator state by one that depends on \<open>a\<close> alone.\<close>

definition seed_resets :: "'g pylib \<Rightarrow> bool" where
  "seed_resets L \<longleftrightarrow> (\<forall>a g g'. random_seed L a g = random_seed L a g')"

section \<open>The detection pipeline\<close>

datatype label = AI_GENERATED | HUMAN

record confidence_factors_dict =
  spectral_analysis :: rat
  prosodic_features :: rat
  artifact_detection :: rat

record explanation_dict =
  primary_indicators :: "string list"
  language_specific_analysis :: string
  confidence_factors :: confidence_factors_dict

definition ai_indicators :: "string list" where
  "ai_indicators =
     [''Unnatural pitch consistency detected'',
      ''Spectral anomalies in high-frequency range'',
      ''Irregular breathing pattern intervals'',
      ''Phase coherence artifacts present'',
      ''Prosody smoothness exceeds human baseline'']"

definition human_indicators :: "string list" where
  "human_indicators =
     [''Natural voice tremor patterns detected'',
      ''Organic breathing sounds present'',
      ''Micro-variations in pitch consistent with human speech'',
      ''Formant transitions show natural articulatory movement'',
      ''Background noise characteristics indicate real recording'']"

text \<open>\<open>int(hashlib.sha256(audio_bytes).hexdigest()[:16], 16)\<close>\<close>

definition hash_value :: "'g pylib \<Rightarrow> bytes \<Rightarrow> py_error + int" where
  "hash_value L audio_bytes = py_int16 (take 16 (sha256_hexdigest L audio_bytes))"

text \<open>\<open>mock_ai_detection\<close> of \<open>main.py\<close>: the sample size is the constant 3.\<close>

definition mock_ai_detection_main ::
  "'g pylib \<Rightarrow> bytes \<Rightarrow> string \<Rightarrow> 'g \<Rightarrow> py_error + (label \<times> rat \<times> explanation_dict) \<times> 'g" where
  "mock_ai_detection_main L audio_bytes language g0 =
     (case hash_value L audio_bytes of
        Inl e \<Rightarrow> Inl e
      | Inr hv \<Rightarrow>
          let g1 = random_seed L hv g0;
              (d1, g2) = random_random L g1;
              is_ai = (d1 < fl (6/10));
              classification = (if is_ai then AI_GENERATED else HUMAN);
              (confidence, g3) =
                (if is_ai
                 then (let (d2, g) = random_random L g2
                       in (fadd (fl (75/100)) (fmul d2 (fl (23/100))), g))
                 else (let (d2, g) = random_random L g2
                       in (fadd (fl (70/100)) (fmul d2 (fl (25/100))), g)));
              indicators = (if is_ai then ai_indicators else human_indicators)
          in (case random_sample L indicators 3 g3 of
                Inl e \<Rightarrow> Inl e
              | Inr (picked, g4) \<Rightarrow>
                  let (s1, g5) = random_uniform L (fl (7/10)) (fl (95/100)) g4;
                      (s2, g6) = random_uniform L (fl (65/100)) (fl (92/100)) g5;
                      (s3, g7) = random_uniform L (fl (70/100)) (fl (98/100)) g6
                  in Inr ((classification, py_round confidence 4,
                           \<lparr>primary_indicators = picked,
                            language_specific_analysis =
                              capitalize language @ '' phonetic patterns analyzed'',
                            confidence_factors =
                              \<lparr>spectral_analysis = py_round s1 3,
                               prosodic_features = py_round s2 3,
                               artifact_detection = py_round s3 3\<rparr>\<rparr>), g7)))"

text \<open>\<open>mock_ai_detection\<close> of \<open>m.py\<close>: the sample size is \<open>random.randint(2, 3)\<close>.\<close>

definition mock_ai_detection_m ::
  "'g pylib \<Rightarrow> bytes \<Rightarrow> string \<Rightarrow> 'g \<Rightarrow> py_error + (label \<times> rat \<times> explanation_dict) \<times> 'g" where
  "mock_ai_detection_m L audio_bytes language g0 =
     (case hash_value L audio_bytes of
        Inl e \<Rightarrow> Inl e
      | Inr hv \<Rightarrow>
          let g1 = random_seed L hv g0;
              (d1, g2) = random_random L g1;
              is_ai = (d1 < fl (6/10));
              classification = (if is_ai then AI_GENERATED else HUMAN);
              (confidence, g3) =
                (if is_ai
                 then (let (d2, g) = random_random L g2
                       in (fadd (fl (75/100)) (fmul d2 (fl (23/100))), g))
                 else (let (d2, g) = random_random L g2
                       in (fadd (fl (70/100)) (fmul d2 (fl (25/100))), g)))
          in (case (if is_ai
                    then (case random_randint L 2 3 g3 of
                            Inl e \<Rightarrow> Inl e
                          | Inr (k, g4) \<Rightarrow> random_sample L ai_indicators k g4)
                    else (case random_randint L 2 3 g3 of
                            Inl e \<Rightarrow> Inl e
                          | Inr (k, g4) \<Rightarrow> random_sample L human_indicators k g4)) of
                Inl e \<Rightarrow> Inl e
              | Inr (features_detected, g5) \<Rightarrow>
                  let (s1, g6) = random_uniform L (fl (7/10)) (fl (95/100)) g5;
                      (s2, g7) = random_uniform L (fl (65/100)) (fl (92/100)) g6;
                      (s3, g8) = random_uniform L (fl (70/100)) (fl (98/100)) g7
                  in Inr ((classification, py_round confidence 4,
                           \<lparr>primary_indicators = features_detected,
                            language_specific_analysis =
                              capitalize language @ '' phonetic patterns analyzed'',
                            confidence_factors =
                              \<lparr>spectral_analysis = py_round s1 3,
                               prosodic_features = py_round s2 3,
                               artifact_detection = py_round s3 3\<rparr>\<rparr>), g8)))"

section \<open>The request handler of main.py\<close>

definition SUPPORTED_LANGUAGES :: "string list" where
  "SUPPORTED_LANGUAGES = [''tamil'', ''english'', ''hindi'', ''malayalam'', ''telugu'']"

definition verify_api_key :: "string \<Rightarrow> string \<Rightarrow> py_error + unit" where
  "verify_api_key VALID_API_KEY api_key =
     (if api_key \<noteq> VALID_API_KEY then Inl (HTTPException 401 ''Invalid API Key'')
      else Inr ())"

text \<open>
  \<open>decode_audio\<close>: every exception raised inside the \<open>try\<close> block, the \<open>ValueError\<close> of the
  signature check included, is turned into an \<open>HTTPException\<close> with status 400.
\<close>

definition decode_audio :: "'g pylib \<Rightarrow> string \<Rightarrow> py_error + bytes \<times> rat" where
  "decode_audio L audio_base64 =
     (case b64decode L audio_base64 of
        Inl msg \<Rightarrow> Inl (HTTPException 400 (''Invalid audio data: '' @ msg))
      | Inr audio_bytes \<Rightarrow>
          if \<not> startswith audio_bytes [0xFF, 0xFB] \<and>
             \<not> startswith audio_bytes [0x49, 0x44, 0x33]
          then Inl (HTTPException 400 (''Invalid audio data: '' @ ''Invalid MP3 format''))
          else let file_size_kb = fdiv (of_nat (length audio_bytes)) 1024;
                   estimated_duration = fdiv file_size_kb 16
               in Inr (audio_bytes, estimated_duration))"

record audio_request =
  audio_base64 :: string
  language :: string

record detection_response =
  classification :: label
  confidence :: rat
  language :: string
  processing_time_ms :: rat
  audio_duration_seconds :: rat
  explanation :: explanation_dict

text \<open>The response model validates \<open>confidence\<close> against \<open>ge=0.0, le=1.0\<close>.\<close>

definition DetectionResponse ::
  "label \<Rightarrow> rat \<Rightarrow> string \<Rightarrow> rat \<Rightarrow> rat \<Rightarrow> explanation_dict \<Rightarrow> py_error + detection_response" where
  "DetectionResponse c conf lang ms dur ex =
     (if 0 \<le> conf \<and> conf \<le> 1
      then Inr \<lparr>classification = c, confidence = conf, language = lang,
                processing_time_ms = ms, audio_duration_seconds = dur, explanation = ex\<rparr>
      else Inl (ValidationError ''confidence''))"

text \<open>
  \<open>detect_voice\<close>: \<open>elapsed\<close> is the float \<open>(datetime.utcnow() - start_time).total_seconds()\<close>,
  an observation of the clock.
\<close>

definition detect_voice ::
  "'g pylib \<Rightarrow> string \<Rightarrow> audio_request \<Rightarrow> string \<Rightarrow> rat \<Rightarrow> 'g \<Rightarrow> py_error + detection_response \<times> 'g" where
  "detect_voice L VALID_API_KEY request api_key elapsed g =
     (case verify_api_key VALID_API_KEY api_key of
        Inl e \<Rightarrow> Inl e
      | Inr _ \<Rightarrow>
          if audio_request.language request \<notin> set SUPPORTED_LANGUAGES
          then Inl (HTTPException 400 ''Unsupported language'')
          else (case decode_audio L (audio_base64 request) of
                  Inl e \<Rightarrow> Inl e
                | Inr (audio_bytes, duration) \<Rightarrow>
                    (case mock_ai_detection_main L audio_bytes (audio_request.language request) g of
                       Inl e \<Rightarrow> Inl e
                     | Inr ((c, conf, ex), g') \<Rightarrow>
                         let processing_time = fmul elapsed 1000
                         in (case DetectionResponse c conf (audio_request.language request)
                                    (py_round processing_time 2) (py_round duration 2) ex of
                               Inl e \<Rightarrow> Inl e
                             | Inr r \<Rightarrow> Inr (r, g')))))"

section \<open>Observing the library calls\<close>

text \<open>
  The order in which the pipeline draws from the generator is observed by running it on a
  library that appends every generator call to a log kept beside the generator state.
\<close>

datatype call = Seed int | Random | Randint int int | Sample "string list" int

definition traced :: "'g pylib \<Rightarrow> ('g \<times> call list) pylib" where
  "traced L =
     \<lparr>b64decode = b64decode L,
      sha256_hexdigest = sha256_hexdigest L,
      random_seed = (\<lambda>a (g, t). (random_seed L a g, t @ [Seed a])),
      random_random = (\<lambda>(g, t). case random_random L g of (d, g') \<Rightarrow> (d, (g', t @ [Random]))),
      random_randint = (\<lambda>a b (g, t).
         case random_randint L a b g of
           Inl e \<Rightarrow> Inl e
         | Inr (n, g') \<Rightarrow> Inr (n, (g', t @ [Randint a b]))),
      random_sample = (\<lambda>pop k (g, t).
         case random_sample L pop k g of
           Inl e \<Rightarrow> Inl e
         | Inr (xs, g') \<Rightarrow> Inr (xs, (g', t @ [Sample pop k])))\<rparr>"

text \<open>The log of calls after a run on a traced library.\<close>

definition trace_of :: "py_error + 'a \<times> 'g \<times> call list \<Rightarrow> call list option" where
  "trace_of r = (case r of Inl e \<Rightarrow> None | Inr (x, g, t) \<Rightarrow> Some t)"

text \<open>The result of a run without the final generator state.\<close>

definition result_of :: "py_error + 'a \<times> 'g \<Rightarrow> 'a option" where
  "result_of r = (case r of Inl e \<Rightarrow> None | Inr (x, g) \<Rightarrow> Some x)"

section \<open>A concrete library\<close>

text \<open>
  An instance of the library for concrete runs: the algorithms of CPython 3.11's
  \<open>random\<close> module over a given sequence of 32-bit outputs of its Mersenne Twister, with
  Base64 decodings, digests and the output sequence of each seed supplied as tables. A
  generator state is the list of outputs not yet consumed; an exhausted list yields zeros.
\<close>

definition genrand_uint32 :: "int list \<Rightarrow> int \<times> int list" where
  "genrand_uint32 ws = (case ws of [] \<Rightarrow> (0, []) | w # ws' \<Rightarrow> (w mod 2 ^ 32, ws'))"

text \<open>\<open>random()\<close>: \<open>a = genrand >> 5\<close>, \<open>b = genrand >> 6\<close>, \<open>(a * 2^26 + b) / 2^53\<close>.\<close>

definition cpy_random :: "int list \<Rightarrow> rat \<times> int list" where
  "cpy_random ws =
     (let (w1, ws1) = genrand_uint32 ws;
          (w2, ws2) = genrand_uint32 ws1;
          a = w1 div 32;
          b = w2 div 64
      in (of_int (a * 67108864 + b) / 9007199254740992, ws2))"

text \<open>
  \<open>_randbelow(n)\<close>: \<open>k = n.bit_length()\<close>, draw \<open>getrandbits(k)\<close> (the top \<open>k\<close> bits of one
  output) until the value is below \<open>n\<close>. Ranges wider than 32 bits, which the pipeline never
  asks for, reduce one output modulo \<open>n\<close>.
\<close>

fun cpy_randbelow :: "int \<Rightarrow> int list \<Rightarrow> int \<times> int list" where
  "cpy_randbelow n [] = (0, [])"
| "cpy_randbelow n (w # ws) =
     (let k = bitlen n;
          r = (if k \<le> 32 then (w mod 2 ^ 32) div 2 ^ nat (32 - k) else w mod n)
      in if r < n then (r, ws) else cpy_randbelow n ws)"

text \<open>\<open>randint(a, b)\<close> is \<open>randrange(a, b + 1)\<close>, that is \<open>a + _randbelow(b + 1 - a)\<close>.\<close>

definition cpy_randint :: "int \<Rightarrow> int \<Rightarrow> int list \<Rightarrow> py_error + int \<times> int list" where
  "cpy_randint a b ws =
     (if b + 1 - a \<le> 0 then Inl (ValueError ''empty range for randrange()'')
      else let (r, ws') = cpy_randbelow (b + 1 - a) ws in Inr (a + r, ws'))"

text \<open>
  \<open>sample(population, k)\<close> on a small population: \<open>j = _randbelow(n - i)\<close>,
  \<open>result[i] = pool[j]\<close>, \<open>pool[j] = pool[n - i - 1]\<close>. The pool of the model drops its last
  entry where the loop of the library stops looking at it.
\<close>

fun cpy_pool :: "'a list \<Rightarrow> nat \<Rightarrow> int list \<Rightarrow> 'a list \<times> int list" where
  "cpy_pool pool 0 ws = ([], ws)"
| "cpy_pool pool (Suc k) ws =
     (let (j, ws1) = cpy_randbelow (int (length pool)) ws;
          (rest, ws2) = cpy_pool (butlast (pool[nat j := last pool])) k ws1
      in (pool ! nat j # rest, ws2))"

definition cpy_sample :: "string list \<Rightarrow> int \<Rightarrow> int list \<Rightarrow> py_error + string list \<times> int list" where
  "cpy_sample population k ws =
     (if \<not> (0 \<le> k \<and> k \<le> int (length population))
      then Inl (ValueError ''Sample larger than population or is negative'')
      else Inr (cpy_pool population (nat k) ws))"

definition cpython_lib ::
  "(string \<times> bytes) list \<Rightarrow> (bytes \<times> string) list \<Rightarrow> (int \<times> int list) list \<Rightarrow> (int list) pylib" where
  "cpython_lib decodings digests streams =
     \<lparr>b64decode = (\<lambda>s. case map_of decodings s of
                           None \<Rightarrow> Inl ''Incorrect padding''
                         | Some bs \<Rightarrow> Inr bs),
      sha256_hexdigest = (\<lambda>bs. case map_of digests bs of
                           None \<Rightarrow> replicate 64 (CHR ''0'')
                         | Some d \<Rightarrow> if length d = 64 \<and> list_all is_hexdigit d then d
                                     else replicate 64 (CHR ''0'')),
      random_seed = (\<lambda>a g. case map_of streams a of None \<Rightarrow> [] | Some ws \<Rightarrow> ws),
      random_random = cpy_random,
      random_randint = cpy_randint,
      random_sample = cpy_sample\<rparr>"

text \<open>
  The reference payload (the signature \<open>FF FB\<close> followed by 1600 zero bytes), its SHA-256
  digest, and the first outputs of the generator seeded with the first 16 digits of it.
\<close>

definition reference_payload :: bytes where
  "reference_payload = [0xFF, 0xFB] @ replicate 1600 0"

definition reference_lib :: "(int list) pylib" where
  "reference_lib = cpython_lib []
     [(reference_payload, ''05e9d6a9c9eacd8a87836945b1d324197baf51974a4d45ae1f2c84a7d87f88b3'')]
     [(426107664488648074,
       [1850941373, 3298132111, 3575175973, 441653490, 1498251348, 396195960, 4005594672,
        3193296369, 3118524387, 2082235112, 809889000, 790078486, 3364098284, 2110671109,
        2384623792, 2953864923, 105315422, 3165581411, 2996104880, 3557755241])]"

text \<open>
  Two short payloads with a valid signature, their SHA-256 digests and the first generator
  outputs for their seeds (CPython 3.11).
\<close>

definition band_top_payload :: bytes where
  "band_top_payload = [0xFF, 0xFB, 0x00, 0x3C, 0xFA]"

definition band_top_payload_human :: bytes where
  "band_top_payload_human = [0xFF, 0xFB, 0x00, 0x9C, 0x89]"

definition band_top_lib :: "(int list) pylib" where
  "band_top_lib = cpython_lib []
     [(band_top_payload, ''4042e2d23f1c217f1f2a4a7048a2788ba01372b3b74f74c54e35635ebd5869cd''),
      (band_top_payload_human, ''a988a0dbfd11b39c0c5f3e0e6c503968ce9e87e8d392853d01b101d5df12a563'')]
     [(4630512759520108927,
       [1984335745, 3419839580, 4294387018, 4896564, 1415647901, 3044868860, 1041775742,
        220082970, 3921222558, 1096243377, 3515223108, 2876989069, 2661704133, 1316030055,
        3822865342, 3947522711, 706520583, 3430881086, 3168104331, 2789857145]),
      (12216190855946548124,
       [2938978074, 1909541119, 4294204478, 1842858164, 326808717, 922737972, 1309473334,
        2993786365, 3306852385, 243153540, 4206768866, 3211635339, 415185824, 1818404940,
        628128989, 3192520297, 3097523428, 669050745, 2770238030, 386351645])]"

text \<open>
  A library for requests through the handler: the Base64 text of a payload of 16384 bytes
  (the signature \<open>FF FB\<close> followed by zeros) with its digest and generator outputs, and the
  Base64 text of the four bytes \<open>RIFF\<close>, which carry no MP3 signature.
\<close>

definition duration_payload :: bytes where
  "duration_payload = [0xFF, 0xFB] @ replicate 16382 0"

definition duration_base64 :: string where
  "duration_base64 = ''//sA'' @ concat (replicate 5460 ''AAAA'') @ ''AA==''"

definition rejected_payload :: bytes where
  "rejected_payload = [0x52, 0x49, 0x46, 0x46]"

definition rejected_base64 :: string where
  "rejected_base64 = ''UklGRg==''"

definition transport_lib :: "(int list) pylib" where
  "transport_lib = cpython_lib
     [(duration_base64, duration_payload), (rejected_base64, rejected_payload)]
     [(duration_payload, ''010b84da67b875da55b5795f1da0576adb4089ba583aa64d6dbdc43f78635945'')]
     [(75299892359624154,
       [3434667054, 3098825284, 1545634273, 3408592978, 1357717029, 848626157, 606006897,
        2133803530, 2685796035, 2757863398, 2559082400, 3375205786, 822537860, 3659579758,
        3196861582, 3941385850, 1751246910, 3398167085, 1952272353, 1034156406])]"

text \<open>The empty Base64 text decodes to the empty payload.\<close>

definition empty_payload_lib :: "(int list) pylib" where
  "empty_payload_lib = cpython_lib [([], [])] [] []"

text \<open>What a run detects: everything but the caption.\<close>

definition detection_of :: "label \<times> rat \<times> explanation_dict \<Rightarrow> label \<times> rat \<times> string list \<times> confidence_factors_dict" where
  "detection_of r = (fst r, fst (snd r), primary_indicators (snd (snd r)), confidence_factors (snd (snd r)))"

section \<open>Rounding: monotonicity and evaluation\<close>

text \<open>
  Rounding to the nearest float is monotone, and so is \<open>round(x, n)\<close>. The value of \<open>fl\<close> at
  a concrete rational is fixed by its binade and the nearest significand (\<open>fl_small\<close> for
  \<open>x < 2\<close>, \<open>fl_big\<close> above).
\<close>

lemma rne_of_int: "rne (of_int n) = n"
  by (simp add: rne_def)

lemma rne_bounds: "\<lfloor>x\<rfloor> \<le> rne x \<and> rne x \<le> \<lfloor>x\<rfloor> + 1"
  by (simp add: rne_def Let_def)

lemma rne_mono: 
  assumes xy: "x \<le> y" shows "rne x \<le> rne y"
proof (cases "\<lfloor>x\<rfloor> = \<lfloor>y\<rfloor>")
  case True
  then show ?thesis using xy by (auto simp: rne_def Let_def)
next
  case False
  then have "\<lfloor>x\<rfloor> + 1 \<le> \<lfloor>y\<rfloor>" using floor_mono[OF xy] by simp
  then show ?thesis using rne_bounds[of x] rne_bounds[of y] by linarith
qed

lemma rne_ge: "of_int a \<le> x \<Longrightarrow> a \<le> rne x"
  using rne_mono[of "of_int a" x] by (simp add: rne_of_int)

lemma rne_le: "x \<le> of_int b \<Longrightarrow> rne x \<le> b"
  using rne_mono[of x "of_int b"] by (simp add: rne_of_int)

lemma powi_nat: "0 \<le> k \<Longrightarrow> (2::rat) powi k = 2 ^ nat k"
  by (simp add: power_int_def)

lemma ilog2_lower: 
  assumes "0 < x" shows "2 powi ilog2 x \<le> x"
proof (cases "1 \<le> x")
  case True
  define n where "n = \<lfloor>x\<rfloor>"
  have n1: "1 \<le> n" using True by (simp add: n_def le_floor_iff)
  then have b: "2 ^ nat (bitlen n - 1) \<le> n" using bitlen_bounds[of n] by simp
  have bl: "1 \<le> bitlen n" using n1 by (simp add: bitlen_ge_iff_power)
  have "(2::rat) powi (bitlen n - 1) = of_int (2 ^ nat (bitlen n - 1))"
    using bl by (simp add: powi_nat)
  also have "\<dots> \<le> of_int n" using b by (simp only: of_int_le_iff)
  also have "\<dots> \<le> x" by (simp add: n_def)
  finally show ?thesis using True by (simp add: ilog2_def n_def)
next
  case False
  define m where "m = \<lceil>1 / x\<rceil> - 1"
  have y1: "1 < 1 / x" using False assms by simp
  then have m1: "1 \<le> m" unfolding m_def by (simp add: less_ceiling_iff)
  have bl: "1 \<le> bitlen m" using m1 by (simp add: bitlen_ge_iff_power)
  have "m < 2 ^ nat (bitlen m)" using bitlen_bounds[of m] m1 by simp
  then have "m + 1 \<le> 2 ^ nat (bitlen m)" by simp
  then have "(of_int (m + 1) :: rat) \<le> of_int (2 ^ nat (bitlen m))" by (simp only: of_int_le_iff)
  moreover have "1 / x \<le> of_int (m + 1)" by (simp add: m_def)
  ultimately have "1 / x \<le> 2 ^ nat (bitlen m)" by simp
  then have "1 / 2 ^ nat (bitlen m) \<le> x" using assms
    by (simp add: field_simps)
  moreover have "(2::rat) powi (- bitlen m) = 1 / 2 ^ nat (bitlen m)"
    using bl by (simp add: power_int_minus powi_nat field_simps)
  ultimately show ?thesis using False by (simp add: ilog2_def m_def)
qed

lemma ilog2_upper: 
  assumes "0 < x" shows "x < 2 powi (ilog2 x + 1)"
proof (cases "1 \<le> x")
  case True
  define n where "n = \<lfloor>x\<rfloor>"
  have n1: "1 \<le> n" using True by (simp add: n_def le_floor_iff)
  then have b: "n < 2 ^ nat (bitlen n)" using bitlen_bounds[of n] by simp
  then have "n + 1 \<le> 2 ^ nat (bitlen n)" by simp
  then have "(of_int (n + 1) :: rat) \<le> of_int (2 ^ nat (bitlen n))" by (simp only: of_int_le_iff)
  moreover have "x < of_int (n + 1)" using floor_correct[of x] by (simp add: n_def)
  ultimately have "x < 2 ^ nat (bitlen n)" by simp
  moreover have "(2::rat) powi (bitlen n) = 2 ^ nat (bitlen n)"
    by (simp add: powi_nat bitlen_nonneg)
  ultimately show ?thesis using True by (simp add: ilog2_def n_def)
next
  case False
  define m where "m = \<lceil>1 / x\<rceil> - 1"
  have y1: "1 < 1 / x" using False assms by simp
  then have m1: "1 \<le> m" unfolding m_def by (simp add: less_ceiling_iff)
  have bl: "1 \<le> bitlen m" using m1 by (simp add: bitlen_ge_iff_power)
  have "2 ^ nat (bitlen m - 1) \<le> m" using bitlen_bounds[of m] m1 by simp
  then have "(of_int (2 ^ nat (bitlen m - 1)) :: rat) \<le> of_int m" by (simp only: of_int_le_iff)
  then have "(2::rat) ^ nat (bitlen m - 1) \<le> of_int m" by simp
  moreover have "of_int m < 1 / x" unfolding m_def using ceiling_correct[of "1 / x"] by simp
  ultimately have "2 ^ nat (bitlen m - 1) < 1 / x" by linarith
  then have "x < 1 / 2 ^ nat (bitlen m - 1)" using assms
    by (simp add: field_simps)
  moreover have "(2::rat) powi (- bitlen m + 1) = 1 / 2 ^ nat (bitlen m - 1)"
  proof -
    have "- bitlen m + 1 = - (bitlen m - 1)" by simp
    then show ?thesis using bl by (simp only: power_int_minus_divide powi_nat)
  qed
  ultimately show ?thesis using False by (simp add: ilog2_def m_def)
qed

lemma ilog2_mono:
  assumes "0 < x" "x \<le> y" shows "ilog2 x \<le> ilog2 y"
proof (rule ccontr)
  assume "\<not> ilog2 x \<le> ilog2 y"
  then have "ilog2 y + 1 \<le> ilog2 x" by simp
  then have "(2::rat) powi (ilog2 y + 1) \<le> 2 powi ilog2 x"
    by (intro power_int_increasing) simp_all
  moreover have "y < 2 powi (ilog2 y + 1)" using assms by (intro ilog2_upper) simp
  moreover have "2 powi ilog2 x \<le> x" using assms by (intro ilog2_lower)
  ultimately show False using assms by linarith
qed

lemma quantum_pos: "0 < quantum x"
  by (simp add: quantum_def zero_less_power_int)

lemma quantum_times: "quantum x * 4503599627370496 = 2 powi (max (ilog2 x) (- 1022))"
proof -
  have "(2::rat) powi (max (ilog2 x) (- 1022) - 52 + 52) = 2 powi (max (ilog2 x) (- 1022) - 52) * 2 powi 52"
    by (rule power_int_add) simp
  then show ?thesis by (simp add: quantum_def)
qed

lemma flp_nonneg: "0 \<le> x \<Longrightarrow> 0 \<le> flp x"
  unfolding flp_def using quantum_pos[of x] rne_ge[of 0 "x / quantum x"] by simp

lemma flp_lower:
  assumes "0 < x" "- 1022 \<le> ilog2 x" shows "2 powi ilog2 x \<le> flp x"
proof -
  have e: "max (ilog2 x) (- 1022) = ilog2 x" using assms by simp
  have "quantum x * 4503599627370496 \<le> x" using ilog2_lower[OF assms(1)] by (simp add: quantum_times e)
  then have "of_int 4503599627370496 \<le> x / quantum x" using quantum_pos[of x] by (simp add: field_simps)
  then have "4503599627370496 \<le> rne (x / quantum x)" by (rule rne_ge)
  then have "(of_int 4503599627370496 :: rat) \<le> of_int (rne (x / quantum x))" by (simp only: of_int_le_iff)
  then have "of_int 4503599627370496 * quantum x \<le> flp x" unfolding flp_def 
    using quantum_pos[of x] by (intro mult_right_mono) simp_all
  then show ?thesis using quantum_times[of x] by (simp add: e mult.commute)
qed

lemma flp_upper:
  assumes "0 < x" shows "flp x \<le> 2 powi (max (ilog2 x) (- 1022) + 1)"
proof -
  let ?e = "max (ilog2 x) (- 1022)"
  have "x < 2 powi (ilog2 x + 1)" using assms by (rule ilog2_upper)
  also have "\<dots> \<le> 2 powi (?e + 1)" by (intro power_int_increasing) simp_all
  also have "\<dots> = 2 powi ?e * 2" by (rule power_int_add_1) simp
  finally have "x \<le> quantum x * 9007199254740992" using quantum_times[of x] by simp
  then have "x / quantum x \<le> of_int 9007199254740992" using quantum_pos[of x] by (simp add: field_simps)
  then have "rne (x / quantum x) \<le> 9007199254740992" by (rule rne_le)
  then have "(of_int (rne (x / quantum x)) :: rat) \<le> of_int 9007199254740992" by (simp only: of_int_le_iff)
  then have "flp x \<le> of_int 9007199254740992 * quantum x" unfolding flp_def 
    using quantum_pos[of x] by (intro mult_right_mono) simp_all
  also have "\<dots> = 2 powi ?e * 2" using quantum_times[of x] by simp
  also have "\<dots> = 2 powi (?e + 1)" by (rule power_int_add_1[symmetric]) simp
  finally show ?thesis .
qed

lemma flp_mono:
  assumes "0 < x" "x \<le> y" shows "flp x \<le> flp y"
proof (cases "max (ilog2 x) (- 1022) = max (ilog2 y) (- 1022)")
  case True
  then have q: "quantum x = quantum y" by (simp add: quantum_def)
  have "x / quantum y \<le> y / quantum y" using assms quantum_pos[of y] by (simp add: divide_right_mono)
  then have "rne (x / quantum y) \<le> rne (y / quantum y)" by (rule rne_mono)
  then have "(of_int (rne (x / quantum y)) :: rat) \<le> of_int (rne (y / quantum y))" by (simp only: of_int_le_iff)
  then show ?thesis unfolding flp_def q using quantum_pos[of y] by (intro mult_right_mono) simp_all
next
  case False
  have m: "ilog2 x \<le> ilog2 y" using assms by (rule ilog2_mono)
  with False have lt: "max (ilog2 x) (- 1022) + 1 \<le> ilog2 y" and big: "- 1022 \<le> ilog2 y" by auto
  have "flp x \<le> 2 powi (max (ilog2 x) (- 1022) + 1)" using assms(1) by (rule flp_upper)
  also have "\<dots> \<le> 2 powi ilog2 y" using lt by (intro power_int_increasing) simp_all
  also have "\<dots> \<le> flp y" using assms big by (intro flp_lower) simp_all
  finally show ?thesis .
qed

lemma fl_mono: 
  assumes "x \<le> y" shows "fl x \<le> fl y"
proof -
  consider "0 < x" | "x = 0" | "x < 0" "0 \<le> y" | "x < 0" "y < 0" by linarith
  then show ?thesis
  proof cases
    case 1 then show ?thesis using assms flp_mono[of x y] by (simp add: fl_def)
  next
    case 2 then show ?thesis using assms flp_nonneg[of y] by (simp add: fl_def)
  next
    case 3 then show ?thesis using flp_nonneg[of y] flp_nonneg[of "- x"] by (simp add: fl_def)
  next
    case 4 then show ?thesis using assms flp_mono[of "- y" "- x"] by (simp add: fl_def)
  qed
qed

lemma py_round_mono: "x \<le> y \<Longrightarrow> py_round x n \<le> py_round y n"
  unfolding py_round_def
  by (intro fl_mono divide_right_mono) (simp_all add: rne_mono mult_right_mono)


lemma ilog2_eqI:
  assumes lo: "2 powi e \<le> x" and hi: "x < 2 powi (e + 1)"
  shows "ilog2 x = e"
proof -
  have pos: "0 < x" using lo zero_less_power_int[of "2::rat" e] by linarith
  have a: "ilog2 x < e + 1"
  proof (rule ccontr)
    assume "\<not> ilog2 x < e + 1"
    then have "(2::rat) powi (e + 1) \<le> 2 powi ilog2 x"
      by (intro power_int_increasing) simp_all
    then show False using ilog2_lower[OF pos] hi by linarith
  qed
  have b: "e < ilog2 x + 1"
  proof (rule ccontr)
    assume "\<not> e < ilog2 x + 1"
    then have "(2::rat) powi (ilog2 x + 1) \<le> 2 powi e"
      by (intro power_int_increasing) simp_all
    then show False using ilog2_upper[OF pos] lo by linarith
  qed
  from a b show ?thesis by simp
qed

lemma rne_eqI:
  assumes "of_int m - 1/2 < y" "y < of_int m + 1/2"
  shows "rne y = m"
proof (cases "of_int m \<le> y")
  case True
  then have "\<lfloor>y\<rfloor> = m" using assms by (intro floor_unique) simp_all
  then show ?thesis using assms by (simp add: rne_def Let_def)
next
  case False
  then have "\<lfloor>y\<rfloor> = m - 1" using assms by (intro floor_unique) simp_all
  then show ?thesis using assms by (simp add: rne_def Let_def)
qed

lemma fl_small:
  assumes "1 \<le> x * 2 ^ k" "x * 2 ^ k < 2" "k \<le> 1022"
    and "of_int m - 1/2 < x * 2 ^ (k + 52)" "x * 2 ^ (k + 52) < of_int m + 1/2"
  shows "fl x = of_int m / 2 ^ (k + 52)"
proof -
  have p: "(2::rat) powi (- int k) = 1 / 2 ^ k"
    by (simp add: power_int_minus_divide)
  have p1: "(2::rat) powi (- int k + 1) = 2 / 2 ^ k"
    using power_int_add_1[of "2::rat" "- int k"] p by simp
  have "0 < x * 2 ^ k" using assms(1) by linarith
  then have pos: "0 < x" by (simp add: zero_less_mult_iff)
  have "2 powi (- int k) \<le> x" using assms(1) by (simp add: p field_simps)
  moreover have "x < 2 powi (- int k + 1)"
  proof -
    have "x < 2 / 2 ^ k" using assms(2) by (simp add: field_simps)
    then show ?thesis by (simp only: p1)
  qed
  ultimately have e: "ilog2 x = - int k" by (rule ilog2_eqI)
  have "max (- int k) (- 1022) - 52 = - int (k + 52)" using assms(3) by simp
  then have q: "quantum x = 1 / 2 ^ (k + 52)"
    unfolding quantum_def e by (simp only: power_int_minus_divide power_int_of_nat)
  have "rne (x / quantum x) = m" using assms(4,5) by (intro rne_eqI) (simp_all add: q)
  then show ?thesis using pos by (simp add: fl_def flp_def q)
qed

lemma fl_big:
  assumes "1 \<le> x / 2 ^ k" "x / 2 ^ k < 2"
    and "of_int m - 1/2 < x * 2 ^ 52 / 2 ^ k" "x * 2 ^ 52 / 2 ^ k < of_int m + 1/2"
  shows "fl x = of_int m * 2 ^ k / 2 ^ 52"
proof -
  have p: "(2::rat) powi (int k) = 2 ^ k" by simp
  have p1: "(2::rat) powi (int k + 1) = 2 * 2 ^ k"
    using power_int_add_1[of "2::rat" "int k"] by simp
  have "0 < x / 2 ^ k" using assms(1) by linarith
  then have pos: "0 < x" by (simp add: zero_less_divide_iff)
  have "2 powi (int k) \<le> x" using assms(1) by (simp add: field_simps)
  moreover have "x < 2 powi (int k + 1)"
  proof -
    have "x < 2 * 2 ^ k" using assms(2) by (simp add: field_simps)
    then show ?thesis by (simp only: p1)
  qed
  ultimately have e: "ilog2 x = int k" by (rule ilog2_eqI)
  have "(2::rat) powi (int k - 52) = 2 powi (int k) / 2 powi 52"
    by (rule power_int_diff) simp
  then have q: "quantum x = 2 ^ k / 2 ^ 52"
    unfolding quantum_def e by simp
  have "rne (x / quantum x) = m" using assms(3,4) by (intro rne_eqI) (simp_all add: q)
  then show ?thesis using pos by (simp add: fl_def flp_def q)
qed

section \<open>The concrete library meets the contract\<close>

lemma hex_val_hexdigit: "is_hexdigit c \<Longrightarrow> \<exists>v. hex_val c = Some v"
  by (auto simp: is_hexdigit_def hex_val_def)

lemma int16_digits_total:
  "\<forall>c \<in> set s. is_hexdigit c \<Longrightarrow> \<exists>n. int16_digits s acc = Some n"
proof (induction s arbitrary: acc)
  case Nil
  then show ?case by simp
next
  case (Cons c cs)
  then obtain v where "hex_val c = Some v" using hex_val_hexdigit[of c] by auto
  then show ?case using Cons by simp
qed

lemma hash_value_total:
  assumes "lib_ok L"
  shows "\<exists>hv. hash_value L bs = Inr hv"
proof -
  let ?d = "sha256_hexdigest L bs"
  have len: "length ?d = 64" and hex: "\<forall>c \<in> set ?d. is_hexdigit c"
    using assms by (simp_all add: lib_ok_def)
  have ne: "take 16 ?d \<noteq> []" using len by auto
  have "\<forall>c \<in> set (take 16 ?d). is_hexdigit c" using hex by (auto dest: in_set_takeD)
  then obtain n where "int16_digits (take 16 ?d) 0 = Some n"
    using int16_digits_total by blast
  then show ?thesis using ne by (simp add: hash_value_def py_int16_def)
qed

lemma genrand_uint32_range: "0 \<le> fst (genrand_uint32 ws) \<and> fst (genrand_uint32 ws) < 4294967296"
  by (cases ws) (simp_all add: genrand_uint32_def)

lemma cpy_random_range: "0 \<le> fst (cpy_random ws) \<and> fst (cpy_random ws) < 1"
proof -
  obtain w1 ws1 where g1: "genrand_uint32 ws = (w1, ws1)" by (cases "genrand_uint32 ws")
  obtain w2 ws2 where g2: "genrand_uint32 ws1 = (w2, ws2)" by (cases "genrand_uint32 ws1")
  have r1: "0 \<le> w1" "w1 < 4294967296" using genrand_uint32_range[of ws] g1 by simp_all
  have r2: "0 \<le> w2" "w2 < 4294967296" using genrand_uint32_range[of ws1] g2 by simp_all
  have a: "0 \<le> w1 div 32" "w1 div 32 < 134217728" using r1 by simp_all
  have b: "0 \<le> w2 div 64" "w2 div 64 < 67108864" using r2 by simp_all
  have n: "0 \<le> w1 div 32 * 67108864 + w2 div 64" "w1 div 32 * 67108864 + w2 div 64 < 9007199254740992"
    using a b by simp_all
  have v: "fst (cpy_random ws) = of_int (w1 div 32 * 67108864 + w2 div 64) / 9007199254740992"
    by (simp add: cpy_random_def g1 g2)
  have "(of_int (w1 div 32 * 67108864 + w2 div 64) :: rat) < of_int 9007199254740992"
    using n(2) by (simp only: of_int_less_iff)
  moreover have "(0::rat) \<le> of_int (w1 div 32 * 67108864 + w2 div 64)"
    using n(1) by (simp only: of_int_0_le_iff)
  ultimately show ?thesis unfolding v by simp
qed

lemma cpy_randbelow_range:
  "0 < n \<Longrightarrow> 0 \<le> fst (cpy_randbelow n ws) \<and> fst (cpy_randbelow n ws) < n"
proof (induction ws)
  case Nil
  then show ?case by simp
next
  case (Cons w ws)
  have "0 \<le> (w mod 2 ^ 32) div 2 ^ nat (32 - bitlen n)"
    by (simp add: pos_imp_zdiv_nonneg_iff)
  moreover have "0 \<le> w mod n" using Cons.prems by simp
  ultimately show ?case using Cons by (simp add: Let_def)
qed

lemma cpy_randint_ok:
  assumes "a \<le> b"
  shows "\<exists>n g'. cpy_randint a b ws = Inr (n, g') \<and> a \<le> n \<and> n \<le> b"
proof -
  have pos: "0 < b + 1 - a" using assms by simp
  obtain r ws' where r: "cpy_randbelow (b + 1 - a) ws = (r, ws')" by (cases "cpy_randbelow (b + 1 - a) ws")
  have "0 \<le> r \<and> r < b + 1 - a" using cpy_randbelow_range[OF pos, of ws] r by simp
  then show ?thesis using pos r by (simp add: cpy_randint_def)
qed

lemma pool_step:
  assumes d: "distinct pool" and j: "j < length pool"
  shows "distinct (butlast (pool[j := last pool])) \<and>
         set (butlast (pool[j := last pool])) = set pool - {pool ! j} \<and>
         length (butlast (pool[j := last pool])) = length pool - 1"
proof -
  from j have "pool \<noteq> []" by auto
  then obtain xs l where p: "pool = xs @ [l]" by (cases pool rule: rev_cases) auto
  have dx: "distinct xs" and lx: "l \<notin> set xs" using d p by auto
  show ?thesis
  proof (cases "j = length xs")
    case True
    then show ?thesis using p dx lx by auto
  next
    case False
    then have jx: "j < length xs" using j p by simp
    have upd: "butlast (pool[j := last pool]) = xs[j := l]"
      using jx p by (simp add: list_update_append)
    have nth: "pool ! j = xs ! j" using jx p by (simp add: nth_append)
    have ne: "xs ! j \<noteq> l" using jx lx by (metis nth_mem)
    have "distinct (xs[j := l])" using dx lx by (simp add: distinct_list_update)
    moreover have "set (xs[j := l]) = insert l (set xs - {xs ! j})"
      using dx jx by (rule set_update_distinct)
    ultimately show ?thesis using upd nth ne p by auto
  qed
qed

lemma cpy_pool_distinct:
  "distinct pool \<Longrightarrow> k \<le> length pool \<Longrightarrow>
   distinct (fst (cpy_pool pool k ws)) \<and> set (fst (cpy_pool pool k ws)) \<subseteq> set pool \<and>
   length (fst (cpy_pool pool k ws)) = k"
proof (induction k arbitrary: pool ws)
  case 0
  then show ?case by simp
next
  case (Suc k)
  obtain j ws1 where r: "cpy_randbelow (int (length pool)) ws = (j, ws1)"
    by (cases "cpy_randbelow (int (length pool)) ws")
  have pos: "0 < int (length pool)" using Suc.prems by (cases pool) simp_all
  have jr: "0 \<le> j" "j < int (length pool)"
    using cpy_randbelow_range[OF pos, of ws] r by simp_all
  then have jn: "nat j < length pool" by simp
  let ?pool' = "butlast (pool[nat j := last pool])"
  have st: "distinct ?pool'" "set ?pool' = set pool - {pool ! nat j}" "length ?pool' = length pool - 1"
    using pool_step[OF Suc.prems(1) jn] by simp_all
  have k: "k \<le> length ?pool'" using st(3) Suc.prems by simp
  obtain rest ws2 where c: "cpy_pool ?pool' k ws1 = (rest, ws2)" by (cases "cpy_pool ?pool' k ws1")
  have ih: "distinct rest" "set rest \<subseteq> set ?pool'" "length rest = k"
    using Suc.IH[OF st(1) k, of ws1] c by simp_all
  have "pool ! nat j \<notin> set rest" using ih(2) st(2) by auto
  moreover have "pool ! nat j \<in> set pool" using jn by simp
  ultimately show ?case using ih st(2) r c by auto
qed

lemma cpy_pool_map:
  "k \<le> length pool \<Longrightarrow>
   cpy_pool (map f pool) k ws = (map f (fst (cpy_pool pool k ws)), snd (cpy_pool pool k ws))"
proof (induction k arbitrary: pool ws)
  case 0
  then show ?case by simp
next
  case (Suc k)
  obtain j ws1 where r: "cpy_randbelow (int (length pool)) ws = (j, ws1)"
    by (cases "cpy_randbelow (int (length pool)) ws")
  have pos: "0 < int (length pool)" using Suc.prems by (cases pool) simp_all
  have jr: "0 \<le> j" "j < int (length pool)"
    using cpy_randbelow_range[OF pos, of ws] r by simp_all
  then have jn: "nat j < length pool" by simp
  have ne: "pool \<noteq> []" using jn by auto
  let ?pool' = "butlast (pool[nat j := last pool])"
  have m: "butlast ((map f pool)[nat j := last (map f pool)]) = map f ?pool'"
    using ne by (simp add: last_map map_update map_butlast)
  have k: "k \<le> length ?pool'" using Suc.prems by simp
  show ?case
    using r jn m Suc.IH[OF k, of ws1]
    by (simp add: split: prod.splits)
qed

lemma cpy_sample_ok:
  assumes "0 \<le> k" "k \<le> int (length pop)"
  shows "\<exists>ps g'. cpy_sample pop k ws = Inr (map (\<lambda>i. pop ! i) ps, g') \<and>
           int (length ps) = k \<and> distinct ps \<and> (\<forall>i \<in> set ps. i < length pop)"
proof -
  let ?idx = "[0..<length pop]"
  have kl: "nat k \<le> length ?idx" using assms by simp
  have d: "distinct (fst (cpy_pool ?idx (nat k) ws))"
    "set (fst (cpy_pool ?idx (nat k) ws)) \<subseteq> set ?idx"
    "length (fst (cpy_pool ?idx (nat k) ws)) = nat k"
    using cpy_pool_distinct[of ?idx "nat k" ws] kl by simp_all
  have "cpy_pool (map (\<lambda>i. pop ! i) ?idx) (nat k) ws =
        (map (\<lambda>i. pop ! i) (fst (cpy_pool ?idx (nat k) ws)), snd (cpy_pool ?idx (nat k) ws))"
    using kl by (rule cpy_pool_map)
  then have "cpy_pool pop (nat k) ws =
        (map (\<lambda>i. pop ! i) (fst (cpy_pool ?idx (nat k) ws)), snd (cpy_pool ?idx (nat k) ws))"
    by (simp add: map_nth)
  then have run: "cpy_sample pop k ws =
        Inr (map (\<lambda>i. pop ! i) (fst (cpy_pool ?idx (nat k) ws)), snd (cpy_pool ?idx (nat k) ws))"
    using assms by (simp add: cpy_sample_def)
  have len: "int (length (fst (cpy_pool ?idx (nat k) ws))) = k" using d(3) assms by simp
  have rng: "\<forall>i \<in> set (fst (cpy_pool ?idx (nat k) ws)). i < length pop" using d(2) by auto
  from run len d(1) rng show ?thesis by blast
qed

lemma cpython_lib_ok: "lib_ok (cpython_lib decodings digests streams)"
  unfolding lib_ok_def
proof (intro conjI allI impI)
  fix bs
  show "length (sha256_hexdigest (cpython_lib decodings digests streams) bs) = 64"
    by (simp add: cpython_lib_def split: option.splits)
  show "\<forall>c \<in> set (sha256_hexdigest (cpython_lib decodings digests streams) bs). is_hexdigit c"
    by (auto simp: cpython_lib_def is_hexdigit_def list_all_iff split: option.splits)
next
  fix g :: "int list"
  show "0 \<le> fst (random_random (cpython_lib decodings digests streams) g)"
    "fst (random_random (cpython_lib decodings digests streams) g) < 1"
    using cpy_random_range[of g] by (simp_all add: cpython_lib_def)
next
  fix a b :: int and g :: "int list"
  assume "a \<le> b"
  then show "\<exists>n g'. random_randint (cpython_lib decodings digests streams) a b g = Inr (n, g') \<and> a \<le> n \<and> n \<le> b"
    using cpy_randint_ok[of a b g] by (simp add: cpython_lib_def)
next
  fix pop :: "string list" and k :: int and g :: "int list"
  assume "0 \<le> k \<and> k \<le> int (length pop)"
  then show "\<exists>ps g'. random_sample (cpython_lib decodings digests streams) pop k g = Inr (map (\<lambda>i. pop ! i) ps, g') \<and>
      int (length ps) = k \<and> distinct ps \<and> (\<forall>i \<in> set ps. i < length pop)"
    using cpy_sample_ok[of k pop g] by (simp add: cpython_lib_def)
qed

lemma cpython_lib_seed_resets: "seed_resets (cpython_lib decodings digests streams)"
  by (simp add: seed_resets_def cpython_lib_def)

section \<open>What a successful run computes\<close>

lemma uniform_split:
  "random_uniform L a b g = (fadd a (fmul (fsub b a) (fst (random_random L g))), snd (random_random L g))"
  by (simp add: random_uniform_def split: prod.splits)

lemma mock_main_run:
  assumes "mock_ai_detection_main L bs lang g0 = Inr ((lab, conf, ex), g')"
  obtains hv d1 g2 d2 g3 picked g4 where
    "hash_value L bs = Inr hv"
    "random_random L (random_seed L hv g0) = (d1, g2)"
    "random_random L g2 = (d2, g3)"
    "random_sample L (if d1 < fl (6/10) then ai_indicators else human_indicators) 3 g3 = Inr (picked, g4)"
    "lab = (if d1 < fl (6/10) then AI_GENERATED else HUMAN)"
    "conf = py_round (if d1 < fl (6/10) then fadd (fl (75/100)) (fmul d2 (fl (23/100)))
                      else fadd (fl (70/100)) (fmul d2 (fl (25/100)))) 4"
    "primary_indicators ex = picked"
    "language_specific_analysis ex = capitalize lang @ '' phonetic patterns analyzed''"
    "spectral_analysis (confidence_factors ex) =
       py_round (fst (random_uniform L (fl (7/10)) (fl (95/100)) g4)) 3"
    "prosodic_features (confidence_factors ex) =
       py_round (fst (random_uniform L (fl (65/100)) (fl (92/100))
         (snd (random_uniform L (fl (7/10)) (fl (95/100)) g4)))) 3"
    "artifact_detection (confidence_factors ex) =
       py_round (fst (random_uniform L (fl (70/100)) (fl (98/100))
         (snd (random_uniform L (fl (65/100)) (fl (92/100))
           (snd (random_uniform L (fl (7/10)) (fl (95/100)) g4)))))) 3"
  using assms unfolding mock_ai_detection_main_def
  by (auto simp: Let_def split: sum.splits prod.splits if_splits)

lemma mock_m_run:
  assumes "mock_ai_detection_m L bs lang g0 = Inr ((lab, conf, ex), g')"
  obtains hv d1 g2 d2 g3 k g4 picked g5 where
    "hash_value L bs = Inr hv"
    "random_random L (random_seed L hv g0) = (d1, g2)"
    "random_random L g2 = (d2, g3)"
    "random_randint L 2 3 g3 = Inr (k, g4)"
    "random_sample L (if d1 < fl (6/10) then ai_indicators else human_indicators) k g4 = Inr (picked, g5)"
    "lab = (if d1 < fl (6/10) then AI_GENERATED else HUMAN)"
    "conf = py_round (if d1 < fl (6/10) then fadd (fl (75/100)) (fmul d2 (fl (23/100)))
                      else fadd (fl (70/100)) (fmul d2 (fl (25/100)))) 4"
    "primary_indicators ex = picked"
    "language_specific_analysis ex = capitalize lang @ '' phonetic patterns analyzed''"
    "spectral_analysis (confidence_factors ex) =
       py_round (fst (random_uniform L (fl (7/10)) (fl (95/100)) g5)) 3"
    "prosodic_features (confidence_factors ex) =
       py_round (fst (random_uniform L (fl (65/100)) (fl (92/100))
         (snd (random_uniform L (fl (7/10)) (fl (95/100)) g5)))) 3"
    "artifact_detection (confidence_factors ex) =
       py_round (fst (random_uniform L (fl (70/100)) (fl (98/100))
         (snd (random_uniform L (fl (65/100)) (fl (92/100))
           (snd (random_uniform L (fl (7/10)) (fl (95/100)) g5)))))) 3"
  using assms unfolding mock_ai_detection_m_def
  by (auto simp: Let_def split: sum.splits prod.splits if_splits)

section \<open>Concrete runs\<close>

text \<open>
  A run is evaluated from the values of its library calls; the two runs below are the runs
  of both pipelines on the reference payload, with the digest and the generator outputs of
  CPython 3.11.
\<close>

lemma rne_tie:
  assumes "y = of_int f + 1/2"
  shows "rne y = (if even f then f else f + 1)"
proof -
  have "\<lfloor>y\<rfloor> = f" unfolding assms by (intro floor_unique) simp_all
  then show ?thesis using assms by (simp add: rne_def Let_def)
qed

lemma fl_small_tie:
  assumes "1 \<le> x * 2 ^ k" "x * 2 ^ k < 2" "k \<le> 1022"
    and "x * 2 ^ (k + 52) = of_int f + 1/2" "m = (if even f then f else f + 1)"
  shows "fl x = of_int m / 2 ^ (k + 52)"
proof -
  have p: "(2::rat) powi (- int k) = 1 / 2 ^ k"
    by (simp add: power_int_minus_divide)
  have p1: "(2::rat) powi (- int k + 1) = 2 / 2 ^ k"
    using power_int_add_1[of "2::rat" "- int k"] p by simp
  have "0 < x * 2 ^ k" using assms(1) by linarith
  then have pos: "0 < x" by (simp add: zero_less_mult_iff)
  have "2 powi (- int k) \<le> x" using assms(1) by (simp add: p field_simps)
  moreover have "x < 2 powi (- int k + 1)"
  proof -
    have "x < 2 / 2 ^ k" using assms(2) by (simp add: field_simps)
    then show ?thesis by (simp only: p1)
  qed
  ultimately have e: "ilog2 x = - int k" by (rule ilog2_eqI)
  have "max (- int k) (- 1022) - 52 = - int (k + 52)" using assms(3) by simp
  then have q: "quantum x = 1 / 2 ^ (k + 52)"
    unfolding quantum_def e by (simp only: power_int_minus_divide power_int_of_nat)
  have "x / quantum x = of_int f + 1/2" using assms(4) by (simp add: q)
  then have "rne (x / quantum x) = m" using assms(5) by (simp only: rne_tie)
  then show ?thesis using pos by (simp add: fl_def flp_def q)
qed

lemma mock_main_eval:
  assumes "hash_value L bs = Inr hv"
    and "random_random L (random_seed L hv g0) = (d1, g2)"
    and "random_random L g2 = (d2, g3)"
    and "random_sample L (if d1 < fl (6 / 10) then ai_indicators else human_indicators) 3 g3 = Inr (picked, g4)"
    and "random_random L g4 = (u1, g5)"
    and "random_random L g5 = (u2, g6)"
    and "random_random L g6 = (u3, g7)"
  shows "mock_ai_detection_main L bs lang g0 =
     Inr ((if d1 < fl (6 / 10) then AI_GENERATED else HUMAN,
           py_round (if d1 < fl (6 / 10) then fadd (fl (75 / 100)) (fmul d2 (fl (23 / 100)))
                     else fadd (fl (70 / 100)) (fmul d2 (fl (25 / 100)))) 4,
           \<lparr>primary_indicators = picked,
            language_specific_analysis = capitalize lang @ '' phonetic patterns analyzed'',
            confidence_factors =
              \<lparr>spectral_analysis =
                 py_round (fadd (fl (7 / 10)) (fmul (fsub (fl (95 / 100)) (fl (7 / 10))) u1)) 3,
               prosodic_features =
                 py_round (fadd (fl (65 / 100)) (fmul (fsub (fl (92 / 100)) (fl (65 / 100))) u2)) 3,
               artifact_detection =
                 py_round (fadd (fl (70 / 100)) (fmul (fsub (fl (98 / 100)) (fl (70 / 100))) u3)) 3\<rparr>\<rparr>),
          g7)"
proof (cases "d1 < fl (6 / 10)")
  case True
  have s: "random_sample L ai_indicators 3 g3 = Inr (picked, g4)"
    using assms(4) True by (simp only: if_True)
  show ?thesis
    by (simp only: mock_ai_detection_main_def random_uniform_def Let_def assms(1,2,3,5,6,7) s True
        sum.case prod.case if_True)
next
  case False
  have s: "random_sample L human_indicators 3 g3 = Inr (picked, g4)"
    using assms(4) False by (simp only: if_False)
  show ?thesis
    by (simp only: mock_ai_detection_main_def random_uniform_def Let_def assms(1,2,3,5,6,7) s False
        sum.case prod.case if_False)
qed

lemma mock_m_eval:
  assumes "hash_value L bs = Inr hv"
    and "random_random L (random_seed L hv g0) = (d1, g2)"
    and "random_random L g2 = (d2, g3)"
    and "random_randint L 2 3 g3 = Inr (k, g4)"
    and "random_sample L (if d1 < fl (6 / 10) then ai_indicators else human_indicators) k g4 = Inr (picked, g5)"
    and "random_random L g5 = (u1, g6)"
    and "random_random L g6 = (u2, g7)"
    and "random_random L g7 = (u3, g8)"
  shows "mock_ai_detection_m L bs lang g0 =
     Inr ((if d1 < fl (6 / 10) then AI_GENERATED else HUMAN,
           py_round (if d1 < fl (6 / 10) then fadd (fl (75 / 100)) (fmul d2 (fl (23 / 100)))
                     else fadd (fl (70 / 100)) (fmul d2 (fl (25 / 100)))) 4,
           \<lparr>primary_indicators = picked,
            language_specific_analysis = capitalize lang @ '' phonetic patterns analyzed'',
            confidence_factors =
              \<lparr>spectral_analysis =
                 py_round (fadd (fl (7 / 10)) (fmul (fsub (fl (95 / 100)) (fl (7 / 10))) u1)) 3,
               prosodic_features =
                 py_round (fadd (fl (65 / 100)) (fmul (fsub (fl (92 / 100)) (fl (65 / 100))) u2)) 3,
               artifact_detection =
                 py_round (fadd (fl (70 / 100)) (fmul (fsub (fl (98 / 100)) (fl (70 / 100))) u3)) 3\<rparr>\<rparr>),
          g8)"
proof (cases "d1 < fl (6 / 10)")
  case True
  have s: "random_sample L ai_indicators k g4 = Inr (picked, g5)"
    using assms(5) True by (simp only: if_True)
  show ?thesis
    by (simp only: mock_ai_detection_m_def random_uniform_def Let_def assms(1,2,3,4,6,7,8) s True
        sum.case prod.case if_True)
next
  case False
  have s: "random_sample L human_indicators k g4 = Inr (picked, g5)"
    using assms(5) False by (simp only: if_False)
  show ?thesis
    by (simp only: mock_ai_detection_m_def random_uniform_def Let_def assms(1,2,3,4,6,7,8) s False
        sum.case prod.case if_False)
qed

lemma reference_lib_ok: "lib_ok reference_lib"
  unfolding reference_lib_def by (rule cpython_lib_ok)

lemma reference_lib_seed_resets: "seed_resets reference_lib"
  unfolding reference_lib_def by (rule cpython_lib_seed_resets)

lemma reference_run_main:
  "mock_ai_detection_main reference_lib reference_payload ''english'' [] =
     Inr ((AI_GENERATED, fl (9415 / 10000),
           \<lparr>primary_indicators =
              [''Irregular breathing pattern intervals'',
               ''Unnatural pitch consistency detected'',
               ''Prosody smoothness exceeds human baseline''],
            language_specific_analysis = ''English phonetic patterns analyzed'',
            confidence_factors =
              \<lparr>spectral_analysis = fl (882 / 1000),
               prosodic_features = fl (701 / 1000),
               artifact_detection = fl (919 / 1000)\<rparr>\<rparr>),
          [2384623792, 2953864923, 105315422, 3165581411, 2996104880, 3557755241])"
proof -
  have h: "hash_value reference_lib reference_payload = Inr 426107664488648074"
    by (simp add: hash_value_def reference_lib_def cpython_lib_def is_hexdigit_def py_int16_def hex_val_def)
  have r1: "random_random reference_lib (random_seed reference_lib 426107664488648074 []) = (1940852696492801 / 4503599627370496, [3575175973, 441653490, 1498251348, 396195960, 4005594672, 3193296369, 3118524387, 2082235112, 809889000, 790078486, 3364098284, 2110671109, 2384623792, 2953864923, 105315422, 3165581411, 2996104880, 3557755241])"
    by (simp add: reference_lib_def cpython_lib_def cpy_random_def genrand_uint32_def)
  have r2: "random_random reference_lib [3575175973, 441653490, 1498251348, 396195960, 4005594672, 3193296369, 3118524387, 2082235112, 809889000, 790078486, 3364098284, 2110671109, 2384623792, 2953864923, 105315422, 3165581411, 2996104880, 3557755241] = (7497687438543971 / 9007199254740992, [1498251348, 396195960, 4005594672, 3193296369, 3118524387, 2082235112, 809889000, 790078486, 3364098284, 2110671109, 2384623792, 2953864923, 105315422, 3165581411, 2996104880, 3557755241])"
    by (simp add: reference_lib_def cpython_lib_def cpy_random_def genrand_uint32_def)
  have c06: "fl (6 / 10) = 5404319552844595 / 9007199254740992" using fl_small[of "6 / 10" 1 5404319552844595] by simp
  have lt: "(1940852696492801 / 4503599627370496 < fl (6 / 10)) = True" unfolding c06 by simp
  have bl: "bitlen 2 = 2" "bitlen 3 = 2" "bitlen 4 = 3" "bitlen 5 = 3" by code_simp+
  have smp: "random_sample reference_lib (if 1940852696492801 / 4503599627370496 < fl (6 / 10) then ai_indicators else human_indicators) 3 [1498251348, 396195960, 4005594672, 3193296369, 3118524387, 2082235112, 809889000, 790078486, 3364098284, 2110671109, 2384623792, 2953864923, 105315422, 3165581411, 2996104880, 3557755241] =
      Inr ([''Irregular breathing pattern intervals'', ''Unnatural pitch consistency detected'', ''Prosody smoothness exceeds human baseline''], [3118524387, 2082235112, 809889000, 790078486, 3364098284, 2110671109, 2384623792, 2953864923, 105315422, 3165581411, 2996104880, 3557755241])"
    unfolding lt if_True
    by (simp add: reference_lib_def cpython_lib_def cpy_sample_def ai_indicators_def bl eval_nat_numeral)
  have u1: "random_random reference_lib [3118524387, 2082235112, 809889000, 790078486, 3364098284, 2110671109, 2384623792, 2953864923, 105315422, 3165581411, 2996104880, 3557755241] = (6540019681489291 / 9007199254740992, [809889000, 790078486, 3364098284, 2110671109, 2384623792, 2953864923, 105315422, 3165581411, 2996104880, 3557755241])"
    by (simp add: reference_lib_def cpython_lib_def cpy_random_def genrand_uint32_def)
  have u2: "random_random reference_lib [809889000, 790078486, 3364098284, 2110671109, 2384623792, 2953864923, 105315422, 3165581411, 2996104880, 3557755241] = (106153770730985 / 562949953421312, [3364098284, 2110671109, 2384623792, 2953864923, 105315422, 3165581411, 2996104880, 3557755241])"
    by (simp add: reference_lib_def cpython_lib_def cpy_random_def genrand_uint32_def)
  have u3: "random_random reference_lib [3364098284, 2110671109, 2384623792, 2953864923, 105315422, 3165581411, 2996104880, 3557755241] = (1763756363075145 / 2251799813685248, [2384623792, 2953864923, 105315422, 3165581411, 2996104880, 3557755241])"
    by (simp add: reference_lib_def cpython_lib_def cpy_random_def genrand_uint32_def)
  have cb: "fl (75 / 100) = 3 / 4" using fl_small[of "75 / 100" 1 6755399441055744] by simp
  have cs: "fl (23 / 100) = 8286623314361713 / 36028797018963968" using fl_small[of "23 / 100" 3 8286623314361713] by simp
  have cm: "fmul (7497687438543971 / 9007199254740992) (fl (23 / 100)) = 3448936221730227 / 18014398509481984"
    unfolding fmul_def cs using fl_small[of "7497687438543971 / 9007199254740992 * (8286623314361713 / 36028797018963968)" 3 6897872443460454] by simp
  have ca: "fadd (fl (75 / 100)) (fmul (7497687438543971 / 9007199254740992) (fl (23 / 100))) = 4239933775960429 / 4503599627370496"
    unfolding fadd_def cm cb using fl_small_tie[of "3 / 4 + 3448936221730227 / 18014398509481984" 1 8479867551920857 8479867551920858] by simp
  have cr: "rne ((4239933775960429 / 4503599627370496) * 10 ^ 4) = 9415" by (rule rne_eqI) simp_all
  have ct: "fl (9415 / 10000) = 2120069524584661 / 2251799813685248" using fl_small[of "9415 / 10000" 1 8480278098338644] by simp
  have conf: "py_round (fadd (fl (75 / 100)) (fmul (7497687438543971 / 9007199254740992) (fl (23 / 100)))) 4 = fl (9415 / 10000)"
    unfolding ca py_round_def cr ct using fl_small[of "9415 / 10000" 1 8480278098338644] by simp
  have s1lo: "fl (7 / 10) = 3152519739159347 / 4503599627370496" using fl_small[of "7 / 10" 1 6305039478318694] by simp
  have s1hi: "fl (95 / 100) = 4278419646001971 / 4503599627370496" using fl_small[of "95 / 100" 1 8556839292003942] by simp
  have s1w: "fsub (fl (95 / 100)) (fl (7 / 10)) = 1 / 4"
    unfolding fsub_def s1lo s1hi using fl_small[of "4278419646001971 / 4503599627370496 - 3152519739159347 / 4503599627370496" 2 4503599627370496] by simp
  have s1m: "fmul (fsub (fl (95 / 100)) (fl (7 / 10))) (6540019681489291 / 9007199254740992) = 6540019681489291 / 36028797018963968"
    unfolding fmul_def s1w using fl_small[of "1 / 4 * (6540019681489291 / 9007199254740992)" 3 6540019681489291] by simp
  have s1a: "fadd (fl (7 / 10)) (fmul (fsub (fl (95 / 100)) (fl (7 / 10))) (6540019681489291 / 9007199254740992)) = 7940044398691017 / 9007199254740992"
    unfolding fadd_def s1m unfolding s1lo using fl_small[of "3152519739159347 / 4503599627370496 + 6540019681489291 / 36028797018963968" 1 7940044398691017] by simp
  have s1r: "rne ((7940044398691017 / 9007199254740992) * 10 ^ 3) = 882" by (rule rne_eqI) simp_all
  have s1: "py_round (fadd (fl (7 / 10)) (fmul (fsub (fl (95 / 100)) (fl (7 / 10))) (6540019681489291 / 9007199254740992))) 3 = fl (882 / 1000)"
    unfolding s1a py_round_def s1r
  proof -
    have "fl (882 / 1000) = 7944349742681555 / 9007199254740992" using fl_small[of "882 / 1000" 1 7944349742681555] by simp
    then show "fl (rat_of_int 882 / 10 ^ 3) = fl (882 / 1000)" by simp
  qed
  have s2lo: "fl (65 / 100) = 5854679515581645 / 9007199254740992" using fl_small[of "65 / 100" 1 5854679515581645] by simp
  have s2hi: "fl (92 / 100) = 8286623314361713 / 9007199254740992" using fl_small[of "92 / 100" 1 8286623314361713] by simp
  have s2w: "fsub (fl (92 / 100)) (fl (65 / 100)) = 607985949695017 / 2251799813685248"
    unfolding fsub_def s2lo s2hi using fl_small[of "8286623314361713 / 9007199254740992 - 5854679515581645 / 9007199254740992" 2 4863887597560136] by simp
  have s2m: "fmul (fsub (fl (92 / 100)) (fl (65 / 100))) (106153770730985 / 562949953421312) = 1834337158231421 / 36028797018963968"
    unfolding fmul_def s2w using fl_small[of "607985949695017 / 2251799813685248 * (106153770730985 / 562949953421312)" 5 7337348632925684] by simp
  have s2a: "fadd (fl (65 / 100)) (fmul (fsub (fl (92 / 100)) (fl (65 / 100))) (106153770730985 / 562949953421312)) = 1578315951284875 / 2251799813685248"
    unfolding fadd_def s2m unfolding s2lo using fl_small[of "5854679515581645 / 9007199254740992 + 1834337158231421 / 36028797018963968" 1 6313263805139500] by simp
  have s2r: "rne ((1578315951284875 / 2251799813685248) * 10 ^ 3) = 701" by (rule rne_eqI) simp_all
  have s2: "py_round (fadd (fl (65 / 100)) (fmul (fsub (fl (92 / 100)) (fl (65 / 100))) (106153770730985 / 562949953421312))) 3 = fl (701 / 1000)"
    unfolding s2a py_round_def s2r
  proof -
    have "fl (701 / 1000) = 6314046677573435 / 9007199254740992" using fl_small[of "701 / 1000" 1 6314046677573435] by simp
    then show "fl (rat_of_int 701 / 10 ^ 3) = fl (701 / 1000)" by simp
  qed
  have s3lo: "fl (70 / 100) = 3152519739159347 / 4503599627370496" using fl_small[of "70 / 100" 1 6305039478318694] by simp
  have s3hi: "fl (98 / 100) = 2206763817411543 / 2251799813685248" using fl_small[of "98 / 100" 1 8827055269646172] by simp
  have s3w: "fsub (fl (98 / 100)) (fl (70 / 100)) = 1261007895663739 / 4503599627370496"
    unfolding fsub_def s3lo s3hi using fl_small[of "2206763817411543 / 2251799813685248 - 3152519739159347 / 4503599627370496" 2 5044031582654956] by simp
  have s3m: "fmul (fsub (fl (98 / 100)) (fl (70 / 100))) (1763756363075145 / 2251799813685248) = 3950814253288325 / 18014398509481984"
    unfolding fmul_def s3w using fl_small[of "1261007895663739 / 4503599627370496 * (1763756363075145 / 2251799813685248)" 3 7901628506576650] by simp
  have s3a: "fadd (fl (70 / 100)) (fmul (fsub (fl (98 / 100)) (fl (70 / 100))) (1763756363075145 / 2251799813685248)) = 1035055825620357 / 1125899906842624"
    unfolding fadd_def s3m unfolding s3lo using fl_small_tie[of "3152519739159347 / 4503599627370496 + 3950814253288325 / 18014398509481984" 1 8280446604962856 8280446604962856] by simp
  have s3r: "rne ((1035055825620357 / 1125899906842624) * 10 ^ 3) = 919" by (rule rne_eqI) simp_all
  have s3: "py_round (fadd (fl (70 / 100)) (fmul (fsub (fl (98 / 100)) (fl (70 / 100))) (1763756363075145 / 2251799813685248))) 3 = fl (919 / 1000)"
    unfolding s3a py_round_def s3r
  proof -
    have "fl (919 / 1000) = 2069404028776743 / 2251799813685248" using fl_small[of "919 / 1000" 1 8277616115106972] by simp
    then show "fl (rat_of_int 919 / 10 ^ 3) = fl (919 / 1000)" by simp
  qed
  have cap: "capitalize ''english'' @ '' phonetic patterns analyzed'' = ''English phonetic patterns analyzed''"
    by code_simp
  show ?thesis
    using mock_main_eval[OF h r1 r2 smp u1 u2 u3, of "''english''"]
    unfolding lt if_True conf s1 s2 s3 cap .
qed

lemma reference_run_m:
  "mock_ai_detection_m reference_lib reference_payload ''english'' [] =
     Inr ((AI_GENERATED, fl (9415 / 10000),
           \<lparr>primary_indicators =
              [''Unnatural pitch consistency detected'',
               ''Phase coherence artifacts present'',
               ''Prosody smoothness exceeds human baseline''],
            language_specific_analysis = ''English phonetic patterns analyzed'',
            confidence_factors =
              \<lparr>spectral_analysis = fl (746 / 1000),
               prosodic_features = fl (783 / 1000),
               artifact_detection = fl (893 / 1000)\<rparr>\<rparr>),
          [3165581411, 2996104880, 3557755241])"
proof -
  have h: "hash_value reference_lib reference_payload = Inr 426107664488648074"
    by (simp add: hash_value_def reference_lib_def cpython_lib_def is_hexdigit_def py_int16_def hex_val_def)
  have r1: "random_random reference_lib (random_seed reference_lib 426107664488648074 []) = (1940852696492801 / 4503599627370496, [3575175973, 441653490, 1498251348, 396195960, 4005594672, 3193296369, 3118524387, 2082235112, 809889000, 790078486, 3364098284, 2110671109, 2384623792, 2953864923, 105315422, 3165581411, 2996104880, 3557755241])"
    by (simp add: reference_lib_def cpython_lib_def cpy_random_def genrand_uint32_def)
  have r2: "random_random reference_lib [3575175973, 441653490, 1498251348, 396195960, 4005594672, 3193296369, 3118524387, 2082235112, 809889000, 790078486, 3364098284, 2110671109, 2384623792, 2953864923, 105315422, 3165581411, 2996104880, 3557755241] = (7497687438543971 / 9007199254740992, [1498251348, 396195960, 4005594672, 3193296369, 3118524387, 2082235112, 809889000, 790078486, 3364098284, 2110671109, 2384623792, 2953864923, 105315422, 3165581411, 2996104880, 3557755241])"
    by (simp add: reference_lib_def cpython_lib_def cpy_random_def genrand_uint32_def)
  have c06: "fl (6 / 10) = 5404319552844595 / 9007199254740992" using fl_small[of "6 / 10" 1 5404319552844595] by simp
  have lt: "(1940852696492801 / 4503599627370496 < fl (6 / 10)) = True" unfolding c06 by simp
  have bl: "bitlen 2 = 2" "bitlen 3 = 2" "bitlen 4 = 3" "bitlen 5 = 3" by code_simp+
  have ri: "random_randint reference_lib 2 3 [1498251348, 396195960, 4005594672, 3193296369, 3118524387, 2082235112, 809889000, 790078486, 3364098284, 2110671109, 2384623792, 2953864923, 105315422, 3165581411, 2996104880, 3557755241] = Inr (3, [396195960, 4005594672, 3193296369, 3118524387, 2082235112, 809889000, 790078486, 3364098284, 2110671109, 2384623792, 2953864923, 105315422, 3165581411, 2996104880, 3557755241])"
    by (simp add: reference_lib_def cpython_lib_def cpy_randint_def bl)
  have smp: "random_sample reference_lib (if 1940852696492801 / 4503599627370496 < fl (6 / 10) then ai_indicators else human_indicators) 3 [396195960, 4005594672, 3193296369, 3118524387, 2082235112, 809889000, 790078486, 3364098284, 2110671109, 2384623792, 2953864923, 105315422, 3165581411, 2996104880, 3557755241] =
      Inr ([''Unnatural pitch consistency detected'', ''Phase coherence artifacts present'', ''Prosody smoothness exceeds human baseline''], [790078486, 3364098284, 2110671109, 2384623792, 2953864923, 105315422, 3165581411, 2996104880, 3557755241])"
    unfolding lt if_True
    by (simp add: reference_lib_def cpython_lib_def cpy_sample_def ai_indicators_def bl eval_nat_numeral)
  have u1: "random_random reference_lib [790078486, 3364098284, 2110671109, 2384623792, 2953864923, 105315422, 3165581411, 2996104880, 3557755241] = (1656914683498563 / 9007199254740992, [2110671109, 2384623792, 2953864923, 105315422, 3165581411, 2996104880, 3557755241])"
    by (simp add: reference_lib_def cpython_lib_def cpy_random_def genrand_uint32_def)
  have u2: "random_random reference_lib [2110671109, 2384623792, 2953864923, 105315422, 3165581411, 2996104880, 3557755241] = (2213199082177777 / 4503599627370496, [2953864923, 105315422, 3165581411, 2996104880, 3557755241])"
    by (simp add: reference_lib_def cpython_lib_def cpy_random_def genrand_uint32_def)
  have u3: "random_random reference_lib [2953864923, 105315422, 3165581411, 2996104880, 3557755241] = (6194703676021745 / 9007199254740992, [3165581411, 2996104880, 3557755241])"
    by (simp add: reference_lib_def cpython_lib_def cpy_random_def genrand_uint32_def)
  have cb: "fl (75 / 100) = 3 / 4" using fl_small[of "75 / 100" 1 6755399441055744] by simp
  have cs: "fl (23 / 100) = 8286623314361713 / 36028797018963968" using fl_small[of "23 / 100" 3 8286623314361713] by simp
  have cm: "fmul (7497687438543971 / 9007199254740992) (fl (23 / 100)) = 3448936221730227 / 18014398509481984"
    unfolding fmul_def cs using fl_small[of "7497687438543971 / 9007199254740992 * (8286623314361713 / 36028797018963968)" 3 6897872443460454] by simp
  have ca: "fadd (fl (75 / 100)) (fmul (7497687438543971 / 9007199254740992) (fl (23 / 100))) = 4239933775960429 / 4503599627370496"
    unfolding fadd_def cm cb using fl_small_tie[of "3 / 4 + 3448936221730227 / 18014398509481984" 1 8479867551920857 8479867551920858] by simp
  have cr: "rne ((4239933775960429 / 4503599627370496) * 10 ^ 4) = 9415" by (rule rne_eqI) simp_all
  have ct: "fl (9415 / 10000) = 2120069524584661 / 2251799813685248" using fl_small[of "9415 / 10000" 1 8480278098338644] by simp
  have conf: "py_round (fadd (fl (75 / 100)) (fmul (7497687438543971 / 9007199254740992) (fl (23 / 100)))) 4 = fl (9415 / 10000)"
    unfolding ca py_round_def cr ct using fl_small[of "9415 / 10000" 1 8480278098338644] by simp
  have s1lo: "fl (7 / 10) = 3152519739159347 / 4503599627370496" using fl_small[of "7 / 10" 1 6305039478318694] by simp
  have s1hi: "fl (95 / 100) = 4278419646001971 / 4503599627370496" using fl_small[of "95 / 100" 1 8556839292003942] by simp
  have s1w: "fsub (fl (95 / 100)) (fl (7 / 10)) = 1 / 4"
    unfolding fsub_def s1lo s1hi using fl_small[of "4278419646001971 / 4503599627370496 - 3152519739159347 / 4503599627370496" 2 4503599627370496] by simp
  have s1m: "fmul (fsub (fl (95 / 100)) (fl (7 / 10))) (1656914683498563 / 9007199254740992) = 1656914683498563 / 36028797018963968"
    unfolding fmul_def s1w using fl_small[of "1 / 4 * (1656914683498563 / 9007199254740992)" 5 6627658733994252] by simp
  have s1a: "fadd (fl (7 / 10)) (fmul (fsub (fl (95 / 100)) (fl (7 / 10))) (1656914683498563 / 9007199254740992)) = 6719268149193335 / 9007199254740992"
    unfolding fadd_def s1m unfolding s1lo using fl_small[of "3152519739159347 / 4503599627370496 + 1656914683498563 / 36028797018963968" 1 6719268149193335] by simp
  have s1r: "rne ((6719268149193335 / 9007199254740992) * 10 ^ 3) = 746" by (rule rne_eqI) simp_all
  have s1: "py_round (fadd (fl (7 / 10)) (fmul (fsub (fl (95 / 100)) (fl (7 / 10))) (1656914683498563 / 9007199254740992))) 3 = fl (746 / 1000)"
    unfolding s1a py_round_def s1r
  proof -
    have "fl (746 / 1000) = 1679842661009195 / 2251799813685248" using fl_small[of "746 / 1000" 1 6719370644036780] by simp
    then show "fl (rat_of_int 746 / 10 ^ 3) = fl (746 / 1000)" by simp
  qed
  have s2lo: "fl (65 / 100) = 5854679515581645 / 9007199254740992" using fl_small[of "65 / 100" 1 5854679515581645] by simp
  have s2hi: "fl (92 / 100) = 8286623314361713 / 9007199254740992" using fl_small[of "92 / 100" 1 8286623314361713] by simp
  have s2w: "fsub (fl (92 / 100)) (fl (65 / 100)) = 607985949695017 / 2251799813685248"
    unfolding fsub_def s2lo s2hi using fl_small[of "8286623314361713 / 9007199254740992 - 5854679515581645 / 9007199254740992" 2 4863887597560136] by simp
  have s2m: "fmul (fsub (fl (92 / 100)) (fl (65 / 100))) (2213199082177777 / 4503599627370496) = 4780510017503999 / 36028797018963968"
    unfolding fmul_def s2w using fl_small[of "607985949695017 / 2251799813685248 * (2213199082177777 / 4503599627370496)" 3 4780510017503999] by simp
  have s2a: "fadd (fl (65 / 100)) (fmul (fsub (fl (92 / 100)) (fl (65 / 100))) (2213199082177777 / 4503599627370496)) = 7049807019957645 / 9007199254740992"
    unfolding fadd_def s2m unfolding s2lo using fl_small[of "5854679515581645 / 9007199254740992 + 4780510017503999 / 36028797018963968" 1 7049807019957645] by simp
  have s2r: "rne ((7049807019957645 / 9007199254740992) * 10 ^ 3) = 783" by (rule rne_eqI) simp_all
  have s2: "py_round (fadd (fl (65 / 100)) (fmul (fsub (fl (92 / 100)) (fl (65 / 100))) (2213199082177777 / 4503599627370496))) 3 = fl (783 / 1000)"
    unfolding s2a py_round_def s2r
  proof -
    have "fl (783 / 1000) = 7052637016462197 / 9007199254740992" using fl_small[of "783 / 1000" 1 7052637016462197] by simp
    then show "fl (rat_of_int 783 / 10 ^ 3) = fl (783 / 1000)" by simp
  qed
  have s3lo: "fl (70 / 100) = 3152519739159347 / 4503599627370496" using fl_small[of "70 / 100" 1 6305039478318694] by simp
  have s3hi: "fl (98 / 100) = 2206763817411543 / 2251799813685248" using fl_small[of "98 / 100" 1 8827055269646172] by simp
  have s3w: "fsub (fl (98 / 100)) (fl (70 / 100)) = 1261007895663739 / 4503599627370496"
    unfolding fsub_def s3lo s3hi using fl_small[of "2206763817411543 / 2251799813685248 - 3152519739159347 / 4503599627370496" 2 5044031582654956] by simp
  have s3m: "fmul (fsub (fl (98 / 100)) (fl (70 / 100))) (6194703676021745 / 9007199254740992) = 6938068117144355 / 36028797018963968"
    unfolding fmul_def s3w using fl_small[of "1261007895663739 / 4503599627370496 * (6194703676021745 / 9007199254740992)" 3 6938068117144355] by simp
  have s3a: "fadd (fl (70 / 100)) (fmul (fsub (fl (98 / 100)) (fl (70 / 100))) (6194703676021745 / 9007199254740992)) = 8039556507604783 / 9007199254740992"
    unfolding fadd_def s3m unfolding s3lo using fl_small[of "3152519739159347 / 4503599627370496 + 6938068117144355 / 36028797018963968" 1 8039556507604783] by simp
  have s3r: "rne ((8039556507604783 / 9007199254740992) * 10 ^ 3) = 893" by (rule rne_eqI) simp_all
  have s3: "py_round (fadd (fl (70 / 100)) (fmul (fsub (fl (98 / 100)) (fl (70 / 100))) (6194703676021745 / 9007199254740992))) 3 = fl (893 / 1000)"
    unfolding s3a py_round_def s3r
  proof -
    have "fl (893 / 1000) = 4021714467241853 / 4503599627370496" using fl_small[of "893 / 1000" 1 8043428934483706] by simp
    then show "fl (rat_of_int 893 / 10 ^ 3) = fl (893 / 1000)" by simp
  qed
  have cap: "capitalize ''english'' @ '' phonetic patterns analyzed'' = ''English phonetic patterns analyzed''"
    by code_simp
  show ?thesis
    using mock_m_eval[OF h r1 r2 ri smp u1 u2 u3, of "''english''"]
    unfolding lt if_True conf s1 s2 s3 cap .
qed

lemma band_top_run_m:
  "mock_ai_detection_m band_top_lib band_top_payload ''english'' [] =
     Inr ((AI_GENERATED, fl (9800 / 10000),
           \<lparr>primary_indicators =
              [''Spectral anomalies in high-frequency range'',
               ''Unnatural pitch consistency detected'',
               ''Prosody smoothness exceeds human baseline''],
            language_specific_analysis = ''English phonetic patterns analyzed'',
            confidence_factors =
              \<lparr>spectral_analysis = fl (905 / 1000),
               prosodic_features = fl (817 / 1000),
               artifact_detection = fl (949 / 1000)\<rparr>\<rparr>),
          [706520583, 3430881086, 3168104331, 2789857145])"
proof -
  have h: "hash_value band_top_lib band_top_payload = Inr 4630512759520108927"
    by (simp add: hash_value_def band_top_lib_def cpython_lib_def is_hexdigit_def py_int16_def hex_val_def)
  have r1: "random_random band_top_lib (random_seed band_top_lib 4630512759520108927 []) = (4161453727636081 / 9007199254740992, [4294387018, 4896564, 1415647901, 3044868860, 1041775742, 220082970, 3921222558, 1096243377, 3515223108, 2876989069, 2661704133, 1316030055, 3822865342, 3947522711, 706520583, 3430881086, 3168104331, 2789857145])"
    by (simp add: band_top_lib_def cpython_lib_def cpy_random_def genrand_uint32_def)
  have r2: "random_random band_top_lib [4294387018, 4896564, 1415647901, 3044868860, 1041775742, 220082970, 3921222558, 1096243377, 3515223108, 2876989069, 2661704133, 1316030055, 3822865342, 3947522711, 706520583, 3430881086, 3168104331, 2789857145] = (2251495575669431 / 2251799813685248, [1415647901, 3044868860, 1041775742, 220082970, 3921222558, 1096243377, 3515223108, 2876989069, 2661704133, 1316030055, 3822865342, 3947522711, 706520583, 3430881086, 3168104331, 2789857145])"
    by (simp add: band_top_lib_def cpython_lib_def cpy_random_def genrand_uint32_def)
  have c06: "fl (6 / 10) = 5404319552844595 / 9007199254740992" using fl_small[of "6 / 10" 1 5404319552844595] by simp
  have lt: "(4161453727636081 / 9007199254740992 < fl (6 / 10)) = True" unfolding c06 by simp
  have bl: "bitlen 2 = 2" "bitlen 3 = 2" "bitlen 4 = 3" "bitlen 5 = 3" by code_simp+
  have ri: "random_randint band_top_lib 2 3 [1415647901, 3044868860, 1041775742, 220082970, 3921222558, 1096243377, 3515223108, 2876989069, 2661704133, 1316030055, 3822865342, 3947522711, 706520583, 3430881086, 3168104331, 2789857145] = Inr (3, [3044868860, 1041775742, 220082970, 3921222558, 1096243377, 3515223108, 2876989069, 2661704133, 1316030055, 3822865342, 3947522711, 706520583, 3430881086, 3168104331, 2789857145])"
    by (simp add: band_top_lib_def cpython_lib_def cpy_randint_def bl)
  have smp: "random_sample band_top_lib (if 4161453727636081 / 9007199254740992 < fl (6 / 10) then ai_indicators else human_indicators) 3 [3044868860, 1041775742, 220082970, 3921222558, 1096243377, 3515223108, 2876989069, 2661704133, 1316030055, 3822865342, 3947522711, 706520583, 3430881086, 3168104331, 2789857145] =
      Inr ([''Spectral anomalies in high-frequency range'', ''Unnatural pitch consistency detected'', ''Prosody smoothness exceeds human baseline''], [3515223108, 2876989069, 2661704133, 1316030055, 3822865342, 3947522711, 706520583, 3430881086, 3168104331, 2789857145])"
    unfolding lt if_True
    by (simp add: band_top_lib_def cpython_lib_def cpy_sample_def ai_indicators_def bl eval_nat_numeral)
  have u1: "random_random band_top_lib [3515223108, 2876989069, 2661704133, 1316030055, 3822865342, 3947522711, 706520583, 3430881086, 3168104331, 2789857145] = (3685978603976381 / 4503599627370496, [2661704133, 1316030055, 3822865342, 3947522711, 706520583, 3430881086, 3168104331, 2789857145])"
    by (simp add: band_top_lib_def cpython_lib_def cpy_random_def genrand_uint32_def)
  have u2: "random_random band_top_lib [2661704133, 1316030055, 3822865342, 3947522711, 706520583, 3430881086, 3168104331, 2789857145] = (5581998156006425 / 9007199254740992, [3822865342, 3947522711, 706520583, 3430881086, 3168104331, 2789857145])"
    by (simp add: band_top_lib_def cpython_lib_def cpy_random_def genrand_uint32_def)
  have u3: "random_random band_top_lib [3822865342, 3947522711, 706520583, 3430881086, 3168104331, 2789857145] = (4008564848235733 / 4503599627370496, [706520583, 3430881086, 3168104331, 2789857145])"
    by (simp add: band_top_lib_def cpython_lib_def cpy_random_def genrand_uint32_def)
  have cb: "fl (75 / 100) = 3 / 4" using fl_small[of "75 / 100" 1 6755399441055744] by simp
  have cs: "fl (23 / 100) = 8286623314361713 / 36028797018963968" using fl_small[of "23 / 100" 3 8286623314361713] by simp
  have cm: "fmul (2251495575669431 / 2251799813685248) (fl (23 / 100)) = 4142751859231753 / 18014398509481984"
    unfolding fmul_def cs using fl_small[of "2251495575669431 / 2251799813685248 * (8286623314361713 / 36028797018963968)" 3 8285503718463506] by simp
  have ca: "fadd (fl (75 / 100)) (fmul (2251495575669431 / 2251799813685248) (fl (23 / 100))) = 2206693842667905 / 2251799813685248"
    unfolding fadd_def cm cb using fl_small_tie[of "3 / 4 + 4142751859231753 / 18014398509481984" 1 8826775370671620 8826775370671620] by simp
  have cr: "rne ((2206693842667905 / 2251799813685248) * 10 ^ 4) = 9800" by (rule rne_eqI) simp_all
  have ct: "fl (9800 / 10000) = 2206763817411543 / 2251799813685248" using fl_small[of "9800 / 10000" 1 8827055269646172] by simp
  have conf: "py_round (fadd (fl (75 / 100)) (fmul (2251495575669431 / 2251799813685248) (fl (23 / 100)))) 4 = fl (9800 / 10000)"
    unfolding ca py_round_def cr ct using fl_small[of "9800 / 10000" 1 8827055269646172] by simp
  have s1lo: "fl (7 / 10) = 3152519739159347 / 4503599627370496" using fl_small[of "7 / 10" 1 6305039478318694] by simp
  have s1hi: "fl (95 / 100) = 4278419646001971 / 4503599627370496" using fl_small[of "95 / 100" 1 8556839292003942] by simp
  have s1w: "fsub (fl (95 / 100)) (fl (7 / 10)) = 1 / 4"
    unfolding fsub_def s1lo s1hi using fl_small[of "4278419646001971 / 4503599627370496 - 3152519739159347 / 4503599627370496" 2 4503599627370496] by simp
  have s1m: "fmul (fsub (fl (95 / 100)) (fl (7 / 10))) (3685978603976381 / 4503599627370496) = 3685978603976381 / 18014398509481984"
    unfolding fmul_def s1w using fl_small[of "1 / 4 * (3685978603976381 / 4503599627370496)" 3 7371957207952762] by simp
  have s1a: "fadd (fl (7 / 10)) (fmul (fsub (fl (95 / 100)) (fl (7 / 10))) (3685978603976381 / 4503599627370496)) = 2037007195076721 / 2251799813685248"
    unfolding fadd_def s1m unfolding s1lo using fl_small_tie[of "3152519739159347 / 4503599627370496 + 3685978603976381 / 18014398509481984" 1 8148028780306884 8148028780306884] by simp
  have s1r: "rne ((2037007195076721 / 2251799813685248) * 10 ^ 3) = 905" by (rule rne_eqI) simp_all
  have s1: "py_round (fadd (fl (7 / 10)) (fmul (fsub (fl (95 / 100)) (fl (7 / 10))) (3685978603976381 / 4503599627370496))) 3 = fl (905 / 1000)"
    unfolding s1a py_round_def s1r
  proof -
    have "fl (905 / 1000) = 4075757662770299 / 4503599627370496" using fl_small[of "905 / 1000" 1 8151515325540598] by simp
    then show "fl (rat_of_int 905 / 10 ^ 3) = fl (905 / 1000)" by simp
  qed
  have s2lo: "fl (65 / 100) = 5854679515581645 / 9007199254740992" using fl_small[of "65 / 100" 1 5854679515581645] by simp
  have s2hi: "fl (92 / 100) = 8286623314361713 / 9007199254740992" using fl_small[of "92 / 100" 1 8286623314361713] by simp
  have s2w: "fsub (fl (92 / 100)) (fl (65 / 100)) = 607985949695017 / 2251799813685248"
    unfolding fsub_def s2lo s2hi using fl_small[of "8286623314361713 / 9007199254740992 - 5854679515581645 / 9007199254740992" 2 4863887597560136] by simp
  have s2m: "fmul (fsub (fl (92 / 100)) (fl (65 / 100))) (5581998156006425 / 9007199254740992) = 6028558008486939 / 36028797018963968"
    unfolding fmul_def s2w using fl_small[of "607985949695017 / 2251799813685248 * (5581998156006425 / 9007199254740992)" 3 6028558008486939] by simp
  have s2a: "fadd (fl (65 / 100)) (fmul (fsub (fl (92 / 100)) (fl (65 / 100))) (5581998156006425 / 9007199254740992)) = 1840454754425845 / 2251799813685248"
    unfolding fadd_def s2m unfolding s2lo using fl_small[of "5854679515581645 / 9007199254740992 + 6028558008486939 / 36028797018963968" 1 7361819017703380] by simp
  have s2r: "rne ((1840454754425845 / 2251799813685248) * 10 ^ 3) = 817" by (rule rne_eqI) simp_all
  have s2: "py_round (fadd (fl (65 / 100)) (fmul (fsub (fl (92 / 100)) (fl (65 / 100))) (5581998156006425 / 9007199254740992))) 3 = fl (817 / 1000)"
    unfolding s2a py_round_def s2r
  proof -
    have "fl (817 / 1000) = 3679440895561695 / 4503599627370496" using fl_small[of "817 / 1000" 1 7358881791123390] by simp
    then show "fl (rat_of_int 817 / 10 ^ 3) = fl (817 / 1000)" by simp
  qed
  have s3lo: "fl (70 / 100) = 3152519739159347 / 4503599627370496" using fl_small[of "70 / 100" 1 6305039478318694] by simp
  have s3hi: "fl (98 / 100) = 2206763817411543 / 2251799813685248" using fl_small[of "98 / 100" 1 8827055269646172] by simp
  have s3w: "fsub (fl (98 / 100)) (fl (70 / 100)) = 1261007895663739 / 4503599627370496"
    unfolding fsub_def s3lo s3hi using fl_small[of "2206763817411543 / 2251799813685248 - 3152519739159347 / 4503599627370496" 2 5044031582654956] by simp
  have s3m: "fmul (fsub (fl (98 / 100)) (fl (70 / 100))) (4008564848235733 / 4503599627370496) = 8979185260048043 / 36028797018963968"
    unfolding fmul_def s3w using fl_small[of "1261007895663739 / 4503599627370496 * (4008564848235733 / 4503599627370496)" 3 8979185260048043] by simp
  have s3a: "fadd (fl (70 / 100)) (fmul (fsub (fl (98 / 100)) (fl (70 / 100))) (4008564848235733 / 4503599627370496)) = 8549835793330705 / 9007199254740992"
    unfolding fadd_def s3m unfolding s3lo using fl_small[of "3152519739159347 / 4503599627370496 + 8979185260048043 / 36028797018963968" 1 8549835793330705] by simp
  have s3r: "rne ((8549835793330705 / 9007199254740992) * 10 ^ 3) = 949" by (rule rne_eqI) simp_all
  have s3: "py_round (fadd (fl (70 / 100)) (fmul (fsub (fl (98 / 100)) (fl (70 / 100))) (4008564848235733 / 4503599627370496))) 3 = fl (949 / 1000)"
    unfolding s3a py_round_def s3r
  proof -
    have "fl (949 / 1000) = 8547832092749201 / 9007199254740992" using fl_small[of "949 / 1000" 1 8547832092749201] by simp
    then show "fl (rat_of_int 949 / 10 ^ 3) = fl (949 / 1000)" by simp
  qed
  have cap: "capitalize ''english'' @ '' phonetic patterns analyzed'' = ''English phonetic patterns analyzed''"
    by code_simp
  show ?thesis
    using mock_m_eval[OF h r1 r2 ri smp u1 u2 u3, of "''english''"]
    unfolding lt if_True conf s1 s2 s3 cap .
qed

lemma band_top_run_main:
  "mock_ai_detection_main band_top_lib band_top_payload_human ''hindi'' [] =
     Inr ((HUMAN, fl (9500 / 10000),
           \<lparr>primary_indicators =
              [''Natural voice tremor patterns detected'',
               ''Organic breathing sounds present'',
               ''Formant transitions show natural articulatory movement''],
            language_specific_analysis = ''Hindi phonetic patterns analyzed'',
            confidence_factors =
              \<lparr>spectral_analysis = fl (874 / 1000),
               prosodic_features = fl (665 / 1000),
               artifact_detection = fl (909 / 1000)\<rparr>\<rparr>),
          [1818404940, 628128989, 3192520297, 3097523428, 669050745, 2770238030, 386351645])"
proof -
  have h: "hash_value band_top_lib band_top_payload_human = Inr 12216190855946548124"
    by (simp add: hash_value_def band_top_lib_def band_top_payload_def band_top_payload_human_def cpython_lib_def is_hexdigit_def py_int16_def hex_val_def)
  have r1: "random_random band_top_lib (random_seed band_top_lib 12216190855946548124 []) = (6163483721155875 / 9007199254740992, [4294204478, 1842858164, 326808717, 922737972, 1309473334, 2993786365, 3306852385, 243153540, 4206768866, 3211635339, 415185824, 1818404940, 628128989, 3192520297, 3097523428, 669050745, 2770238030, 386351645])"
    by (simp add: band_top_lib_def band_top_payload_def band_top_payload_human_def cpython_lib_def cpy_random_def genrand_uint32_def)
  have r2: "random_random band_top_lib [4294204478, 1842858164, 326808717, 922737972, 1309473334, 2993786365, 3306852385, 243153540, 4206768866, 3211635339, 415185824, 1818404940, 628128989, 3192520297, 3097523428, 669050745, 2770238030, 386351645] = (4502799737663377 / 4503599627370496, [326808717, 922737972, 1309473334, 2993786365, 3306852385, 243153540, 4206768866, 3211635339, 415185824, 1818404940, 628128989, 3192520297, 3097523428, 669050745, 2770238030, 386351645])"
    by (simp add: band_top_lib_def band_top_payload_def band_top_payload_human_def cpython_lib_def cpy_random_def genrand_uint32_def)
  have c06: "fl (6 / 10) = 5404319552844595 / 9007199254740992" using fl_small[of "6 / 10" 1 5404319552844595] by simp
  have lt: "(6163483721155875 / 9007199254740992 < fl (6 / 10)) = False" unfolding c06 by simp
  have bl: "bitlen 2 = 2" "bitlen 3 = 2" "bitlen 4 = 3" "bitlen 5 = 3" by code_simp+
  have smp: "random_sample band_top_lib (if 6163483721155875 / 9007199254740992 < fl (6 / 10) then ai_indicators else human_indicators) 3 [326808717, 922737972, 1309473334, 2993786365, 3306852385, 243153540, 4206768866, 3211635339, 415185824, 1818404940, 628128989, 3192520297, 3097523428, 669050745, 2770238030, 386351645] =
      Inr ([''Natural voice tremor patterns detected'', ''Organic breathing sounds present'', ''Formant transitions show natural articulatory movement''], [2993786365, 3306852385, 243153540, 4206768866, 3211635339, 415185824, 1818404940, 628128989, 3192520297, 3097523428, 669050745, 2770238030, 386351645])"
    unfolding lt if_False
    by (simp add: band_top_lib_def band_top_payload_def band_top_payload_human_def cpython_lib_def cpy_sample_def human_indicators_def bl eval_nat_numeral)
  have u1: "random_random band_top_lib [2993786365, 3306852385, 243153540, 4206768866, 3211635339, 415185824, 1818404940, 628128989, 3192520297, 3097523428, 669050745, 2770238030, 386351645] = (98100391465385 / 140737488355328, [243153540, 4206768866, 3211635339, 415185824, 1818404940, 628128989, 3192520297, 3097523428, 669050745, 2770238030, 386351645])"
    by (simp add: band_top_lib_def band_top_payload_def band_top_payload_human_def cpython_lib_def cpy_random_def genrand_uint32_def)
  have u2: "random_random band_top_lib [243153540, 4206768866, 3211635339, 415185824, 1818404940, 628128989, 3192520297, 3097523428, 669050745, 2770238030, 386351645] = (509929990060235 / 9007199254740992, [3211635339, 415185824, 1818404940, 628128989, 3192520297, 3097523428, 669050745, 2770238030, 386351645])"
    by (simp add: band_top_lib_def band_top_payload_def band_top_payload_human_def cpython_lib_def cpy_random_def genrand_uint32_def)
  have u3: "random_random band_top_lib [3211635339, 415185824, 1818404940, 628128989, 3192520297, 3097523428, 669050745, 2770238030, 386351645] = (3367643728936567 / 4503599627370496, [1818404940, 628128989, 3192520297, 3097523428, 669050745, 2770238030, 386351645])"
    by (simp add: band_top_lib_def band_top_payload_def band_top_payload_human_def cpython_lib_def cpy_random_def genrand_uint32_def)
  have cb: "fl (70 / 100) = 3152519739159347 / 4503599627370496" using fl_small[of "70 / 100" 1 6305039478318694] by simp
  have cs: "fl (25 / 100) = 1 / 4" using fl_small[of "25 / 100" 2 4503599627370496] by simp
  have cm: "fmul (4502799737663377 / 4503599627370496) (fl (25 / 100)) = 4502799737663377 / 18014398509481984"
    unfolding fmul_def cs using fl_small[of "4502799737663377 / 4503599627370496 * (1 / 4)" 3 9005599475326754] by simp
  have ca: "fadd (fl (70 / 100)) (fmul (4502799737663377 / 4503599627370496) (fl (25 / 100))) = 4278219673575191 / 4503599627370496"
    unfolding fadd_def cm cb using fl_small_tie[of "3152519739159347 / 4503599627370496 + 4502799737663377 / 18014398509481984" 1 8556439347150382 8556439347150382] by simp
  have cr: "rne ((4278219673575191 / 4503599627370496) * 10 ^ 4) = 9500" by (rule rne_eqI) simp_all
  have ct: "fl (9500 / 10000) = 4278419646001971 / 4503599627370496" using fl_small[of "9500 / 10000" 1 8556839292003942] by simp
  have conf: "py_round (fadd (fl (70 / 100)) (fmul (4502799737663377 / 4503599627370496) (fl (25 / 100)))) 4 = fl (9500 / 10000)"
    unfolding ca py_round_def cr ct using fl_small[of "9500 / 10000" 1 8556839292003942] by simp
  have s1lo: "fl (7 / 10) = 3152519739159347 / 4503599627370496" using fl_small[of "7 / 10" 1 6305039478318694] by simp
  have s1hi: "fl (95 / 100) = 4278419646001971 / 4503599627370496" using fl_small[of "95 / 100" 1 8556839292003942] by simp
  have s1w: "fsub (fl (95 / 100)) (fl (7 / 10)) = 1 / 4"
    unfolding fsub_def s1lo s1hi using fl_small[of "4278419646001971 / 4503599627370496 - 3152519739159347 / 4503599627370496" 2 4503599627370496] by simp
  have s1m: "fmul (fsub (fl (95 / 100)) (fl (7 / 10))) (98100391465385 / 140737488355328) = 98100391465385 / 562949953421312"
    unfolding fmul_def s1w using fl_small[of "1 / 4 * (98100391465385 / 140737488355328)" 3 6278425053784640] by simp
  have s1a: "fadd (fl (7 / 10)) (fmul (fsub (fl (95 / 100)) (fl (7 / 10))) (98100391465385 / 140737488355328)) = 3937322870882427 / 4503599627370496"
    unfolding fadd_def s1m unfolding s1lo using fl_small[of "3152519739159347 / 4503599627370496 + 98100391465385 / 562949953421312" 1 7874645741764854] by simp
  have s1r: "rne ((3937322870882427 / 4503599627370496) * 10 ^ 3) = 874" by (rule rne_eqI) simp_all
  have s1: "py_round (fadd (fl (7 / 10)) (fmul (fsub (fl (95 / 100)) (fl (7 / 10))) (98100391465385 / 140737488355328))) 3 = fl (874 / 1000)"
    unfolding s1a py_round_def s1r
  proof -
    have "fl (874 / 1000) = 7872292148643627 / 9007199254740992" using fl_small[of "874 / 1000" 1 7872292148643627] by simp
    then show "fl (rat_of_int 874 / 10 ^ 3) = fl (874 / 1000)" by simp
  qed
  have s2lo: "fl (65 / 100) = 5854679515581645 / 9007199254740992" using fl_small[of "65 / 100" 1 5854679515581645] by simp
  have s2hi: "fl (92 / 100) = 8286623314361713 / 9007199254740992" using fl_small[of "92 / 100" 1 8286623314361713] by simp
  have s2w: "fsub (fl (92 / 100)) (fl (65 / 100)) = 607985949695017 / 2251799813685248"
    unfolding fsub_def s2lo s2hi using fl_small[of "8286623314361713 / 9007199254740992 - 5854679515581645 / 9007199254740992" 2 4863887597560136] by simp
  have s2m: "fmul (fsub (fl (92 / 100)) (fl (65 / 100))) (509929990060235 / 9007199254740992) = 8811590228240861 / 576460752303423488"
    unfolding fmul_def s2w using fl_small[of "607985949695017 / 2251799813685248 * (509929990060235 / 9007199254740992)" 7 8811590228240861] by simp
  have s2a: "fadd (fl (65 / 100)) (fmul (fsub (fl (92 / 100)) (fl (65 / 100))) (509929990060235 / 9007199254740992)) = 1498090153224477 / 2251799813685248"
    unfolding fadd_def s2m unfolding s2lo using fl_small[of "5854679515581645 / 9007199254740992 + 8811590228240861 / 576460752303423488" 1 5992360612897908] by simp
  have s2r: "rne ((1498090153224477 / 2251799813685248) * 10 ^ 3) = 665" by (rule rne_eqI) simp_all
  have s2: "py_round (fadd (fl (65 / 100)) (fmul (fsub (fl (92 / 100)) (fl (65 / 100))) (509929990060235 / 9007199254740992))) 3 = fl (665 / 1000)"
    unfolding s2a py_round_def s2r
  proof -
    have "fl (665 / 1000) = 748723438050345 / 1125899906842624" using fl_small[of "665 / 1000" 1 5989787504402760] by simp
    then show "fl (rat_of_int 665 / 10 ^ 3) = fl (665 / 1000)" by simp
  qed
  have s3lo: "fl (70 / 100) = 3152519739159347 / 4503599627370496" using fl_small[of "70 / 100" 1 6305039478318694] by simp
  have s3hi: "fl (98 / 100) = 2206763817411543 / 2251799813685248" using fl_small[of "98 / 100" 1 8827055269646172] by simp
  have s3w: "fsub (fl (98 / 100)) (fl (70 / 100)) = 1261007895663739 / 4503599627370496"
    unfolding fsub_def s3lo s3hi using fl_small[of "2206763817411543 / 2251799813685248 - 3152519739159347 / 4503599627370496" 2 5044031582654956] by simp
  have s3m: "fmul (fsub (fl (98 / 100)) (fl (70 / 100))) (3367643728936567 / 4503599627370496) = 7543521952817911 / 36028797018963968"
    unfolding fmul_def s3w using fl_small[of "1261007895663739 / 4503599627370496 * (3367643728936567 / 4503599627370496)" 3 7543521952817911] by simp
  have s3a: "fadd (fl (70 / 100)) (fmul (fsub (fl (98 / 100)) (fl (70 / 100))) (3367643728936567 / 4503599627370496)) = 2047729991630793 / 2251799813685248"
    unfolding fadd_def s3m unfolding s3lo using fl_small[of "3152519739159347 / 4503599627370496 + 7543521952817911 / 36028797018963968" 1 8190919966523172] by simp
  have s3r: "rne ((2047729991630793 / 2251799813685248) * 10 ^ 3) = 909" by (rule rne_eqI) simp_all
  have s3: "py_round (fadd (fl (70 / 100)) (fmul (fsub (fl (98 / 100)) (fl (70 / 100))) (3367643728936567 / 4503599627370496))) 3 = fl (909 / 1000)"
    unfolding s3a py_round_def s3r
  proof -
    have "fl (909 / 1000) = 4093772061279781 / 4503599627370496" using fl_small[of "909 / 1000" 1 8187544122559562] by simp
    then show "fl (rat_of_int 909 / 10 ^ 3) = fl (909 / 1000)" by simp
  qed
  have cap: "capitalize ''hindi'' @ '' phonetic patterns analyzed'' = ''Hindi phonetic patterns analyzed''"
    by code_simp
  show ?thesis
    using mock_main_eval[OF h r1 r2 smp u1 u2 u3, of "''hindi''"]
    unfolding lt if_False conf s1 s2 s3 cap .
qed

section \<open>Ranges of the rounded scores\<close>

text \<open>
  With a draw in \<open>[0, 1]\<close>, every score the pipeline rounds lies between the rounded ends
  of its range; both ends are floats that \<open>round\<close> leaves unchanged.
\<close>

lemma fl_zero: "fl 0 = 0"
  by (simp add: fl_def)

lemma round_bounds:
  assumes "0 \<le> d" "d \<le> 1" "fl w = w" "fl lo = lo" "0 \<le> w"
  shows "py_round lo n \<le> py_round (fl (lo + fl (d * w))) n \<and>
         py_round (fl (lo + fl (d * w))) n \<le> py_round (fl (lo + w)) n"
proof -
  have "0 \<le> d * w" using assms by simp
  then have a: "0 \<le> fl (d * w)" using fl_mono[of 0 "d * w"] by (simp add: fl_zero)
  have "d * w \<le> w" using assms by (simp add: mult_left_le_one_le)
  then have b: "fl (d * w) \<le> w" using fl_mono[of "d * w" w] assms(3) by simp
  have "fl lo \<le> fl (lo + fl (d * w))" using a by (intro fl_mono) simp
  then have c: "lo \<le> fl (lo + fl (d * w))" using assms(4) by simp
  have e: "fl (lo + fl (d * w)) \<le> fl (lo + w)" using b by (intro fl_mono) simp
  have "py_round lo n \<le> py_round (fl (lo + fl (d * w))) n" using c by (rule py_round_mono)
  moreover have "py_round (fl (lo + fl (d * w))) n \<le> py_round (fl (lo + w)) n"
    using e by (rule py_round_mono)
  ultimately show ?thesis by simp
qed

lemma round_bounds_left:
  assumes "0 \<le> d" "d \<le> 1" "fl w = w" "fl lo = lo" "0 \<le> w"
  shows "py_round lo n \<le> py_round (fl (lo + fl (w * d))) n \<and>
         py_round (fl (lo + fl (w * d))) n \<le> py_round (fl (lo + w)) n"
  using round_bounds[OF assms, of n] by (simp add: mult.commute)

lemma confidence_range_ai:
  assumes "0 \<le> d" "d \<le> 1"
  shows "fl (75 / 100) \<le> py_round (fadd (fl (75 / 100)) (fmul d (fl (23 / 100)))) 4 \<and>
         py_round (fadd (fl (75 / 100)) (fmul d (fl (23 / 100)))) 4 \<le> fl (98 / 100)"
proof -
  have lo: "fl (75 / 100) = 3 / 4" using fl_small[of "75 / 100" 1 6755399441055744] by simp
  have w: "fl (23 / 100) = 8286623314361713 / 36028797018963968" using fl_small[of "23 / 100" 3 8286623314361713] by simp
  have wfix: "fl (8286623314361713 / 36028797018963968) = 8286623314361713 / 36028797018963968" using fl_small[of "8286623314361713 / 36028797018963968" 3 8286623314361713] by simp
  have lofix: "fl (3 / 4) = 3 / 4" using fl_small[of "3 / 4" 1 6755399441055744] by simp
  have top: "fl (98 / 100) = 2206763817411543 / 2251799813685248" using fl_small[of "98 / 100" 1 8827055269646172] by simp
  have v: "fl (3 / 4 + 8286623314361713 / 36028797018963968) = 2206763817411543 / 2251799813685248" using fl_small[of "3 / 4 + 8286623314361713 / 36028797018963968" 1 8827055269646172] by simp
  have rlo: "rne ((3 / 4) * 10 ^ 4) = 7500" by (rule rne_eqI) simp_all
  have plo: "py_round (3 / 4) 4 = 3 / 4" unfolding py_round_def rlo using fl_small[of "7500 / 10000" 1 6755399441055744] by simp
  have rv: "rne ((2206763817411543 / 2251799813685248) * 10 ^ 4) = 9800" by (rule rne_eqI) simp_all
  have pv: "py_round (2206763817411543 / 2251799813685248) 4 = 2206763817411543 / 2251799813685248" unfolding py_round_def rv using fl_small[of "9800 / 10000" 1 8827055269646172] by simp
  have b: "py_round (3 / 4) 4 \<le> py_round (fl (3 / 4 + fl (d * (8286623314361713 / 36028797018963968)))) 4 \<and>
           py_round (fl (3 / 4 + fl (d * (8286623314361713 / 36028797018963968)))) 4 \<le> py_round (fl (3 / 4 + 8286623314361713 / 36028797018963968)) 4"
    using assms wfix lofix by (intro round_bounds) simp_all
  show ?thesis
    using b unfolding fadd_def fmul_def w unfolding lo top v plo pv .
qed

lemma confidence_range_human:
  assumes "0 \<le> d" "d \<le> 1"
  shows "fl (70 / 100) \<le> py_round (fadd (fl (70 / 100)) (fmul d (fl (25 / 100)))) 4 \<and>
         py_round (fadd (fl (70 / 100)) (fmul d (fl (25 / 100)))) 4 \<le> fl (95 / 100)"
proof -
  have lo: "fl (70 / 100) = 3152519739159347 / 4503599627370496" using fl_small[of "70 / 100" 1 6305039478318694] by simp
  have w: "fl (25 / 100) = 1 / 4" using fl_small[of "25 / 100" 2 4503599627370496] by simp
  have wfix: "fl (1 / 4) = 1 / 4" using fl_small[of "1 / 4" 2 4503599627370496] by simp
  have lofix: "fl (3152519739159347 / 4503599627370496) = 3152519739159347 / 4503599627370496" using fl_small[of "3152519739159347 / 4503599627370496" 1 6305039478318694] by simp
  have top: "fl (95 / 100) = 4278419646001971 / 4503599627370496" using fl_small[of "95 / 100" 1 8556839292003942] by simp
  have v: "fl (3152519739159347 / 4503599627370496 + 1 / 4) = 4278419646001971 / 4503599627370496" using fl_small[of "3152519739159347 / 4503599627370496 + 1 / 4" 1 8556839292003942] by simp
  have rlo: "rne ((3152519739159347 / 4503599627370496) * 10 ^ 4) = 7000" by (rule rne_eqI) simp_all
  have plo: "py_round (3152519739159347 / 4503599627370496) 4 = 3152519739159347 / 4503599627370496" unfolding py_round_def rlo using fl_small[of "7000 / 10000" 1 6305039478318694] by simp
  have rv: "rne ((4278419646001971 / 4503599627370496) * 10 ^ 4) = 9500" by (rule rne_eqI) simp_all
  have pv: "py_round (4278419646001971 / 4503599627370496) 4 = 4278419646001971 / 4503599627370496" unfolding py_round_def rv using fl_small[of "9500 / 10000" 1 8556839292003942] by simp
  have b: "py_round (3152519739159347 / 4503599627370496) 4 \<le> py_round (fl (3152519739159347 / 4503599627370496 + fl (d * (1 / 4)))) 4 \<and>
           py_round (fl (3152519739159347 / 4503599627370496 + fl (d * (1 / 4)))) 4 \<le> py_round (fl (3152519739159347 / 4503599627370496 + 1 / 4)) 4"
    using assms wfix lofix by (intro round_bounds) simp_all
  show ?thesis
    using b unfolding fadd_def fmul_def w unfolding lo top v plo pv .
qed

lemma spectral_analysis_range:
  assumes "0 \<le> d" "d \<le> 1"
  shows "fl (7 / 10) \<le> py_round (fadd (fl (7 / 10)) (fmul (fsub (fl (95 / 100)) (fl (7 / 10))) d)) 3 \<and>
         py_round (fadd (fl (7 / 10)) (fmul (fsub (fl (95 / 100)) (fl (7 / 10))) d)) 3 \<le> fl (95 / 100)"
proof -
  have lo: "fl (7 / 10) = 3152519739159347 / 4503599627370496" using fl_small[of "7 / 10" 1 6305039478318694] by simp
  have hi: "fl (95 / 100) = 4278419646001971 / 4503599627370496" using fl_small[of "95 / 100" 1 8556839292003942] by simp
  have w: "fsub (fl (95 / 100)) (fl (7 / 10)) = 1 / 4" unfolding fsub_def hi lo using fl_small[of "4278419646001971 / 4503599627370496 - 3152519739159347 / 4503599627370496" 2 4503599627370496] by simp
  have wfix: "fl (1 / 4) = 1 / 4" using fl_small[of "1 / 4" 2 4503599627370496] by simp
  have lofix: "fl (3152519739159347 / 4503599627370496) = 3152519739159347 / 4503599627370496" using fl_small[of "3152519739159347 / 4503599627370496" 1 6305039478318694] by simp
  have top: "fl (95 / 100) = 4278419646001971 / 4503599627370496" using fl_small[of "95 / 100" 1 8556839292003942] by simp
  have v: "fl (3152519739159347 / 4503599627370496 + 1 / 4) = 4278419646001971 / 4503599627370496" using fl_small[of "3152519739159347 / 4503599627370496 + 1 / 4" 1 8556839292003942] by simp
  have rlo: "rne ((3152519739159347 / 4503599627370496) * 10 ^ 3) = 700" by (rule rne_eqI) simp_all
  have plo: "py_round (3152519739159347 / 4503599627370496) 3 = 3152519739159347 / 4503599627370496" unfolding py_round_def rlo using fl_small[of "700 / 1000" 1 6305039478318694] by simp
  have rv: "rne ((4278419646001971 / 4503599627370496) * 10 ^ 3) = 950" by (rule rne_eqI) simp_all
  have pv: "py_round (4278419646001971 / 4503599627370496) 3 = 4278419646001971 / 4503599627370496" unfolding py_round_def rv using fl_small[of "950 / 1000" 1 8556839292003942] by simp
  have b: "py_round (3152519739159347 / 4503599627370496) 3 \<le> py_round (fl (3152519739159347 / 4503599627370496 + fl ((1 / 4) * d))) 3 \<and>
           py_round (fl (3152519739159347 / 4503599627370496 + fl ((1 / 4) * d))) 3 \<le> py_round (fl (3152519739159347 / 4503599627370496 + 1 / 4)) 3"
    using assms wfix lofix by (intro round_bounds_left) simp_all
  show ?thesis
    using b unfolding fadd_def fmul_def w unfolding lo top v plo pv .
qed

lemma prosodic_features_range:
  assumes "0 \<le> d" "d \<le> 1"
  shows "fl (65 / 100) \<le> py_round (fadd (fl (65 / 100)) (fmul (fsub (fl (92 / 100)) (fl (65 / 100))) d)) 3 \<and>
         py_round (fadd (fl (65 / 100)) (fmul (fsub (fl (92 / 100)) (fl (65 / 100))) d)) 3 \<le> fl (92 / 100)"
proof -
  have lo: "fl (65 / 100) = 5854679515581645 / 9007199254740992" using fl_small[of "65 / 100" 1 5854679515581645] by simp
  have hi: "fl (92 / 100) = 8286623314361713 / 9007199254740992" using fl_small[of "92 / 100" 1 8286623314361713] by simp
  have w: "fsub (fl (92 / 100)) (fl (65 / 100)) = 607985949695017 / 2251799813685248" unfolding fsub_def hi lo using fl_small[of "8286623314361713 / 9007199254740992 - 5854679515581645 / 9007199254740992" 2 4863887597560136] by simp
  have wfix: "fl (607985949695017 / 2251799813685248) = 607985949695017 / 2251799813685248" using fl_small[of "607985949695017 / 2251799813685248" 2 4863887597560136] by simp
  have lofix: "fl (5854679515581645 / 9007199254740992) = 5854679515581645 / 9007199254740992" using fl_small[of "5854679515581645 / 9007199254740992" 1 5854679515581645] by simp
  have top: "fl (92 / 100) = 8286623314361713 / 9007199254740992" using fl_small[of "92 / 100" 1 8286623314361713] by simp
  have v: "fl (5854679515581645 / 9007199254740992 + 607985949695017 / 2251799813685248) = 8286623314361713 / 9007199254740992" using fl_small[of "5854679515581645 / 9007199254740992 + 607985949695017 / 2251799813685248" 1 8286623314361713] by simp
  have rlo: "rne ((5854679515581645 / 9007199254740992) * 10 ^ 3) = 650" by (rule rne_eqI) simp_all
  have plo: "py_round (5854679515581645 / 9007199254740992) 3 = 5854679515581645 / 9007199254740992" unfolding py_round_def rlo using fl_small[of "650 / 1000" 1 5854679515581645] by simp
  have rv: "rne ((8286623314361713 / 9007199254740992) * 10 ^ 3) = 920" by (rule rne_eqI) simp_all
  have pv: "py_round (8286623314361713 / 9007199254740992) 3 = 8286623314361713 / 9007199254740992" unfolding py_round_def rv using fl_small[of "920 / 1000" 1 8286623314361713] by simp
  have b: "py_round (5854679515581645 / 9007199254740992) 3 \<le> py_round (fl (5854679515581645 / 9007199254740992 + fl ((607985949695017 / 2251799813685248) * d))) 3 \<and>
           py_round (fl (5854679515581645 / 9007199254740992 + fl ((607985949695017 / 2251799813685248) * d))) 3 \<le> py_round (fl (5854679515581645 / 9007199254740992 + 607985949695017 / 2251799813685248)) 3"
    using assms wfix lofix by (intro round_bounds_left) simp_all
  show ?thesis
    using b unfolding fadd_def fmul_def w unfolding lo top v plo pv .
qed

lemma artifact_detection_range:
  assumes "0 \<le> d" "d \<le> 1"
  shows "fl (70 / 100) \<le> py_round (fadd (fl (70 / 100)) (fmul (fsub (fl (98 / 100)) (fl (70 / 100))) d)) 3 \<and>
         py_round (fadd (fl (70 / 100)) (fmul (fsub (fl (98 / 100)) (fl (70 / 100))) d)) 3 \<le> fl (98 / 100)"
proof -
  have lo: "fl (70 / 100) = 3152519739159347 / 4503599627370496" using fl_small[of "70 / 100" 1 6305039478318694] by simp
  have hi: "fl (98 / 100) = 2206763817411543 / 2251799813685248" using fl_small[of "98 / 100" 1 8827055269646172] by simp
  have w: "fsub (fl (98 / 100)) (fl (70 / 100)) = 1261007895663739 / 4503599627370496" unfolding fsub_def hi lo using fl_small[of "2206763817411543 / 2251799813685248 - 3152519739159347 / 4503599627370496" 2 5044031582654956] by simp
  have wfix: "fl (1261007895663739 / 4503599627370496) = 1261007895663739 / 4503599627370496" using fl_small[of "1261007895663739 / 4503599627370496" 2 5044031582654956] by simp
  have lofix: "fl (3152519739159347 / 4503599627370496) = 3152519739159347 / 4503599627370496" using fl_small[of "3152519739159347 / 4503599627370496" 1 6305039478318694] by simp
  have top: "fl (98 / 100) = 2206763817411543 / 2251799813685248" using fl_small[of "98 / 100" 1 8827055269646172] by simp
  have v: "fl (3152519739159347 / 4503599627370496 + 1261007895663739 / 4503599627370496) = 2206763817411543 / 2251799813685248" using fl_small[of "3152519739159347 / 4503599627370496 + 1261007895663739 / 4503599627370496" 1 8827055269646172] by simp
  have rlo: "rne ((3152519739159347 / 4503599627370496) * 10 ^ 3) = 700" by (rule rne_eqI) simp_all
  have plo: "py_round (3152519739159347 / 4503599627370496) 3 = 3152519739159347 / 4503599627370496" unfolding py_round_def rlo using fl_small[of "700 / 1000" 1 6305039478318694] by simp
  have rv: "rne ((2206763817411543 / 2251799813685248) * 10 ^ 3) = 980" by (rule rne_eqI) simp_all
  have pv: "py_round (2206763817411543 / 2251799813685248) 3 = 2206763817411543 / 2251799813685248" unfolding py_round_def rv using fl_small[of "980 / 1000" 1 8827055269646172] by simp
  have b: "py_round (3152519739159347 / 4503599627370496) 3 \<le> py_round (fl (3152519739159347 / 4503599627370496 + fl ((1261007895663739 / 4503599627370496) * d))) 3 \<and>
           py_round (fl (3152519739159347 / 4503599627370496 + fl ((1261007895663739 / 4503599627370496) * d))) 3 \<le> py_round (fl (3152519739159347 / 4503599627370496 + 1261007895663739 / 4503599627370496)) 3"
    using assms wfix lofix by (intro round_bounds_left) simp_all
  show ?thesis
    using b unfolding fadd_def fmul_def w unfolding lo top v plo pv .
qed

lemma random_range:
  assumes "lib_ok L" "random_random L g = (d, g')"
  shows "0 \<le> d \<and> d \<le> 1"
  using assms unfolding lib_ok_def by (metis fst_conv less_imp_le)

lemma uniform_fst:
  "fst (random_uniform L a b g) = fadd a (fmul (fsub b a) (fst (random_random L g)))"
  by (simp add: random_uniform_def split: prod.splits)

lemma uniform_draw_range:
  assumes "lib_ok L"
  shows "0 \<le> fst (random_random L g) \<and> fst (random_random L g) \<le> 1"
  using assms unfolding lib_ok_def by (metis less_imp_le)

lemma catalogs:
  "distinct ai_indicators" "distinct human_indicators"
  "length ai_indicators = 5" "length human_indicators = 5"
  "set ai_indicators \<inter> set human_indicators = {}"
  by (simp_all add: ai_indicators_def human_indicators_def)

lemma sample_valid:
  assumes ok: "lib_ok L" and k: "0 \<le> k" "k \<le> int (length pop)" and d: "distinct pop"
    and s: "random_sample L pop k g = Inr (picked, g')"
  shows "int (length picked) = k \<and> distinct picked \<and> set picked \<subseteq> set pop"
proof -
  obtain ps g'' where c: "random_sample L pop k g = Inr (map (\<lambda>i. pop ! i) ps, g'')"
      "int (length ps) = k" "distinct ps" "\<forall>i \<in> set ps. i < length pop"
    using ok k unfolding lib_ok_def by meson
  have p: "picked = map (\<lambda>i. pop ! i) ps" using s c(1) by simp
  have "inj_on (\<lambda>i. pop ! i) (set ps)"
    using d c(4) by (auto simp: inj_on_def nth_eq_iff_index_eq)
  then have "distinct picked" using c(3) by (simp add: p distinct_map)
  moreover have "set picked \<subseteq> set pop" using c(4) by (auto simp: p)
  ultimately show ?thesis using c(2) by (simp add: p)
qed

lemma duration_run_main:
  "mock_ai_detection_main transport_lib duration_payload ''english'' g =
     Inr ((HUMAN, fl (7900 / 10000),
           \<lparr>primary_indicators =
              [''Micro-variations in pitch consistent with human speech'',
               ''Organic breathing sounds present'',
               ''Natural voice tremor patterns detected''],
            language_specific_analysis = ''English phonetic patterns analyzed'',
            confidence_factors =
              \<lparr>spectral_analysis = fl (824 / 1000),
               prosodic_features = fl (823 / 1000),
               artifact_detection = fl (920 / 1000)\<rparr>\<rparr>),
          [3659579758, 3196861582, 3941385850, 1751246910, 3398167085, 1952272353, 1034156406])"
proof -
  have h: "hash_value transport_lib duration_payload = Inr 75299892359624154"
    by (simp add: hash_value_def transport_lib_def cpython_lib_def is_hexdigit_def py_int16_def hex_val_def)
  have r1: "random_random transport_lib (random_seed transport_lib 75299892359624154 g) = (7203018900689225 / 9007199254740992, [1545634273, 3408592978, 1357717029, 848626157, 606006897, 2133803530, 2685796035, 2757863398, 2559082400, 3375205786, 822537860, 3659579758, 3196861582, 3941385850, 1751246910, 3398167085, 1952272353, 1034156406])"
    by (simp add: transport_lib_def cpython_lib_def cpy_random_def genrand_uint32_def)
  have r2: "random_random transport_lib [1545634273, 3408592978, 1357717029, 848626157, 606006897, 2133803530, 2685796035, 2757863398, 2559082400, 3375205786, 822537860, 3659579758, 3196861582, 3941385850, 1751246910, 3398167085, 1952272353, 1034156406] = (3241430058052609 / 9007199254740992, [1357717029, 848626157, 606006897, 2133803530, 2685796035, 2757863398, 2559082400, 3375205786, 822537860, 3659579758, 3196861582, 3941385850, 1751246910, 3398167085, 1952272353, 1034156406])"
    by (simp add: transport_lib_def cpython_lib_def cpy_random_def genrand_uint32_def)
  have c06: "fl (6 / 10) = 5404319552844595 / 9007199254740992" using fl_small[of "6 / 10" 1 5404319552844595] by simp
  have lt: "(7203018900689225 / 9007199254740992 < fl (6 / 10)) = False" unfolding c06 by simp
  have bl: "bitlen 2 = 2" "bitlen 3 = 2" "bitlen 4 = 3" "bitlen 5 = 3" by code_simp+
  have smp: "random_sample transport_lib (if 7203018900689225 / 9007199254740992 < fl (6 / 10) then ai_indicators else human_indicators) 3 [1357717029, 848626157, 606006897, 2133803530, 2685796035, 2757863398, 2559082400, 3375205786, 822537860, 3659579758, 3196861582, 3941385850, 1751246910, 3398167085, 1952272353, 1034156406] =
      Inr ([''Micro-variations in pitch consistent with human speech'', ''Organic breathing sounds present'', ''Natural voice tremor patterns detected''], [2133803530, 2685796035, 2757863398, 2559082400, 3375205786, 822537860, 3659579758, 3196861582, 3941385850, 1751246910, 3398167085, 1952272353, 1034156406])"
    unfolding lt if_False
    by (simp add: transport_lib_def cpython_lib_def cpy_sample_def human_indicators_def bl eval_nat_numeral)
  have u1: "random_random transport_lib [2133803530, 2685796035, 2757863398, 2559082400, 3375205786, 822537860, 3659579758, 3196861582, 3941385850, 1751246910, 3398167085, 1952272353, 1034156406] = (4474910361540603 / 9007199254740992, [2757863398, 2559082400, 3375205786, 822537860, 3659579758, 3196861582, 3941385850, 1751246910, 3398167085, 1952272353, 1034156406])"
    by (simp add: transport_lib_def cpython_lib_def cpy_random_def genrand_uint32_def)
  have u2: "random_random transport_lib [2757863398, 2559082400, 3375205786, 822537860, 3659579758, 3196861582, 3941385850, 1751246910, 3398167085, 1952272353, 1034156406] = (2891829384122623 / 4503599627370496, [3375205786, 822537860, 3659579758, 3196861582, 3941385850, 1751246910, 3398167085, 1952272353, 1034156406])"
    by (simp add: transport_lib_def cpython_lib_def cpy_random_def genrand_uint32_def)
  have u3: "random_random transport_lib [3375205786, 822537860, 3659579758, 3196861582, 3941385850, 1751246910, 3398167085, 1952272353, 1034156406] = (3539159761423837 / 4503599627370496, [3659579758, 3196861582, 3941385850, 1751246910, 3398167085, 1952272353, 1034156406])"
    by (simp add: transport_lib_def cpython_lib_def cpy_random_def genrand_uint32_def)
  have cb: "fl (70 / 100) = 3152519739159347 / 4503599627370496" using fl_small[of "70 / 100" 1 6305039478318694] by simp
  have cs: "fl (25 / 100) = 1 / 4" using fl_small[of "25 / 100" 2 4503599627370496] by simp
  have cm: "fmul (3241430058052609 / 9007199254740992) (fl (25 / 100)) = 3241430058052609 / 36028797018963968"
    unfolding fmul_def cs using fl_small[of "3241430058052609 / 9007199254740992 * (1 / 4)" 4 6482860116105218] by simp
  have ca: "fadd (fl (70 / 100)) (fmul (3241430058052609 / 9007199254740992) (fl (25 / 100))) = 3557698496415923 / 4503599627370496"
    unfolding fadd_def cm cb using fl_small[of "3152519739159347 / 4503599627370496 + 3241430058052609 / 36028797018963968" 1 7115396992831846] by simp
  have cr: "rne ((3557698496415923 / 4503599627370496) * 10 ^ 4) = 7900" by (rule rne_eqI) simp_all
  have ct: "fl (7900 / 10000) = 889460926405673 / 1125899906842624" using fl_small[of "7900 / 10000" 1 7115687411245384] by simp
  have conf: "py_round (fadd (fl (70 / 100)) (fmul (3241430058052609 / 9007199254740992) (fl (25 / 100)))) 4 = fl (7900 / 10000)"
    unfolding ca py_round_def cr ct using fl_small[of "7900 / 10000" 1 7115687411245384] by simp
  have s1lo: "fl (7 / 10) = 3152519739159347 / 4503599627370496" using fl_small[of "7 / 10" 1 6305039478318694] by simp
  have s1hi: "fl (95 / 100) = 4278419646001971 / 4503599627370496" using fl_small[of "95 / 100" 1 8556839292003942] by simp
  have s1w: "fsub (fl (95 / 100)) (fl (7 / 10)) = 1 / 4"
    unfolding fsub_def s1lo s1hi using fl_small[of "4278419646001971 / 4503599627370496 - 3152519739159347 / 4503599627370496" 2 4503599627370496] by simp
  have s1m: "fmul (fsub (fl (95 / 100)) (fl (7 / 10))) (4474910361540603 / 9007199254740992) = 4474910361540603 / 36028797018963968"
    unfolding fmul_def s1w using fl_small[of "1 / 4 * (4474910361540603 / 9007199254740992)" 4 8949820723081206] by simp
  have s1a: "fadd (fl (7 / 10)) (fmul (fsub (fl (95 / 100)) (fl (7 / 10))) (4474910361540603 / 9007199254740992)) = 7423767068703845 / 9007199254740992"
    unfolding fadd_def s1m unfolding s1lo using fl_small[of "3152519739159347 / 4503599627370496 + 4474910361540603 / 36028797018963968" 1 7423767068703845] by simp
  have s1r: "rne ((7423767068703845 / 9007199254740992) * 10 ^ 3) = 824" by (rule rne_eqI) simp_all
  have s1: "py_round (fadd (fl (7 / 10)) (fmul (fsub (fl (95 / 100)) (fl (7 / 10))) (4474910361540603 / 9007199254740992))) 3 = fl (824 / 1000)"
    unfolding s1a py_round_def s1r
  proof -
    have "fl (824 / 1000) = 7421932185906577 / 9007199254740992" using fl_small[of "824 / 1000" 1 7421932185906577] by simp
    then show "fl (rat_of_int 824 / 10 ^ 3) = fl (824 / 1000)" by simp
  qed
  have s2lo: "fl (65 / 100) = 5854679515581645 / 9007199254740992" using fl_small[of "65 / 100" 1 5854679515581645] by simp
  have s2hi: "fl (92 / 100) = 8286623314361713 / 9007199254740992" using fl_small[of "92 / 100" 1 8286623314361713] by simp
  have s2w: "fsub (fl (92 / 100)) (fl (65 / 100)) = 607985949695017 / 2251799813685248"
    unfolding fsub_def s2lo s2hi using fl_small[of "8286623314361713 / 9007199254740992 - 5854679515581645 / 9007199254740992" 2 4863887597560136] by simp
  have s2m: "fmul (fsub (fl (92 / 100)) (fl (65 / 100))) (2891829384122623 / 4503599627370496) = 3123175734852433 / 18014398509481984"
    unfolding fmul_def s2w using fl_small[of "607985949695017 / 2251799813685248 * (2891829384122623 / 4503599627370496)" 3 6246351469704866] by simp
  have s2a: "fadd (fl (65 / 100)) (fmul (fsub (fl (92 / 100)) (fl (65 / 100))) (2891829384122623 / 4503599627370496)) = 3708133691503931 / 4503599627370496"
    unfolding fadd_def s2m unfolding s2lo using fl_small_tie[of "5854679515581645 / 9007199254740992 + 3123175734852433 / 18014398509481984" 1 7416267383007861 7416267383007862] by simp
  have s2r: "rne ((3708133691503931 / 4503599627370496) * 10 ^ 3) = 823" by (rule rne_eqI) simp_all
  have s2: "py_round (fadd (fl (65 / 100)) (fmul (fsub (fl (92 / 100)) (fl (65 / 100))) (2891829384122623 / 4503599627370496))) 3 = fl (823 / 1000)"
    unfolding s2a py_round_def s2r
  proof -
    have "fl (823 / 1000) = 1853231246662959 / 2251799813685248" using fl_small[of "823 / 1000" 1 7412924986651836] by simp
    then show "fl (rat_of_int 823 / 10 ^ 3) = fl (823 / 1000)" by simp
  qed
  have s3lo: "fl (70 / 100) = 3152519739159347 / 4503599627370496" using fl_small[of "70 / 100" 1 6305039478318694] by simp
  have s3hi: "fl (98 / 100) = 2206763817411543 / 2251799813685248" using fl_small[of "98 / 100" 1 8827055269646172] by simp
  have s3w: "fsub (fl (98 / 100)) (fl (70 / 100)) = 1261007895663739 / 4503599627370496"
    unfolding fsub_def s3lo s3hi using fl_small[of "2206763817411543 / 2251799813685248 - 3152519739159347 / 4503599627370496" 2 5044031582654956] by simp
  have s3m: "fmul (fsub (fl (98 / 100)) (fl (70 / 100))) (3539159761423837 / 4503599627370496) = 1981929466397349 / 9007199254740992"
    unfolding fmul_def s3w using fl_small[of "1261007895663739 / 4503599627370496 * (3539159761423837 / 4503599627370496)" 3 7927717865589396] by simp
  have s3a: "fadd (fl (70 / 100)) (fmul (fsub (fl (98 / 100)) (fl (70 / 100))) (3539159761423837 / 4503599627370496)) = 8286968944716043 / 9007199254740992"
    unfolding fadd_def s3m unfolding s3lo using fl_small[of "3152519739159347 / 4503599627370496 + 1981929466397349 / 9007199254740992" 1 8286968944716043] by simp
  have s3r: "rne ((8286968944716043 / 9007199254740992) * 10 ^ 3) = 920" by (rule rne_eqI) simp_all
  have s3: "py_round (fadd (fl (70 / 100)) (fmul (fsub (fl (98 / 100)) (fl (70 / 100))) (3539159761423837 / 4503599627370496))) 3 = fl (920 / 1000)"
    unfolding s3a py_round_def s3r
  proof -
    have "fl (920 / 1000) = 8286623314361713 / 9007199254740992" using fl_small[of "920 / 1000" 1 8286623314361713] by simp
    then show "fl (rat_of_int 920 / 10 ^ 3) = fl (920 / 1000)" by simp
  qed
  have cap: "capitalize ''english'' @ '' phonetic patterns analyzed'' = ''English phonetic patterns analyzed''"
    by code_simp
  show ?thesis
    using mock_main_eval[OF h r1 r2 smp u1 u2 u3, of "''english''"]
    unfolding lt if_False conf s1 s2 s3 cap .
qed

lemma duration_decode:
  "b64decode transport_lib duration_base64 = Inr duration_payload"
  by (simp add: transport_lib_def cpython_lib_def)

lemma duration_signature: "startswith duration_payload [0xFF, 0xFB]"
  by (simp add: startswith_def duration_payload_def)

lemma duration_length: "length duration_payload = 16384"
  by (simp add: duration_payload_def)

lemma rejected_decode:
  "b64decode transport_lib rejected_base64 = Inr rejected_payload"
  by (simp add: transport_lib_def cpython_lib_def rejected_base64_def duration_base64_def)

lemma rejected_signature:
  "\<not> startswith rejected_payload [0xFF, 0xFB]" "\<not> startswith rejected_payload [0x49, 0x44, 0x33]"
  by (simp_all add: startswith_def rejected_payload_def)

lemma transport_lib_ok: "lib_ok transport_lib"
  unfolding transport_lib_def by (rule cpython_lib_ok)

lemma english_supported: "''english'' \<in> set SUPPORTED_LANGUAGES"
  by (simp add: SUPPORTED_LANGUAGES_def)

section \<open>Totality and the request handler\<close>

text \<open>
  Under the contract of the library no call of the pipeline can raise: the digest parses,
  the sample size is at most the catalog size, and the confidence passes the validation of
  the response model.
\<close>

lemma sub_scores_in_range:
  assumes ok: "lib_ok L"
  shows "fl (7 / 10) \<le> py_round (fst (random_uniform L (fl (7 / 10)) (fl (95 / 100)) g)) 3 \<and>
         py_round (fst (random_uniform L (fl (7 / 10)) (fl (95 / 100)) g)) 3 \<le> fl (95 / 100)"
    and "fl (65 / 100) \<le> py_round (fst (random_uniform L (fl (65 / 100)) (fl (92 / 100)) g)) 3 \<and>
         py_round (fst (random_uniform L (fl (65 / 100)) (fl (92 / 100)) g)) 3 \<le> fl (92 / 100)"
    and "fl (70 / 100) \<le> py_round (fst (random_uniform L (fl (70 / 100)) (fl (98 / 100)) g)) 3 \<and>
         py_round (fst (random_uniform L (fl (70 / 100)) (fl (98 / 100)) g)) 3 \<le> fl (98 / 100)"
proof -
  have d: "0 \<le> fst (random_random L g)" "fst (random_random L g) \<le> 1"
    using uniform_draw_range[OF ok, of g] by simp_all
  show "fl (7 / 10) \<le> py_round (fst (random_uniform L (fl (7 / 10)) (fl (95 / 100)) g)) 3 \<and>
         py_round (fst (random_uniform L (fl (7 / 10)) (fl (95 / 100)) g)) 3 \<le> fl (95 / 100)"
    unfolding uniform_fst using d by (rule spectral_analysis_range)
  show "fl (65 / 100) \<le> py_round (fst (random_uniform L (fl (65 / 100)) (fl (92 / 100)) g)) 3 \<and>
         py_round (fst (random_uniform L (fl (65 / 100)) (fl (92 / 100)) g)) 3 \<le> fl (92 / 100)"
    unfolding uniform_fst using d by (rule prosodic_features_range)
  show "fl (70 / 100) \<le> py_round (fst (random_uniform L (fl (70 / 100)) (fl (98 / 100)) g)) 3 \<and>
         py_round (fst (random_uniform L (fl (70 / 100)) (fl (98 / 100)) g)) 3 \<le> fl (98 / 100)"
    unfolding uniform_fst using d by (rule artifact_detection_range)
qed

lemma fl_one: "fl 1 = 1"
  using fl_small[of 1 0 4503599627370496] by simp

lemma confidence_band:
  assumes "lib_ok L"
    and "mock_ai_detection_main L bs lang g = Inr ((lab, conf, ex), g') \<or>
         mock_ai_detection_m L bs lang g = Inr ((lab, conf, ex), g')"
  shows "if lab = AI_GENERATED then fl (75 / 100) \<le> conf \<and> conf \<le> fl (98 / 100)
         else fl (70 / 100) \<le> conf \<and> conf \<le> fl (95 / 100)"
proof -
  from assms(2) obtain hv d1 g2 d2 g3 where
      r: "random_random L g2 = (d2, g3)"
      and l: "lab = (if d1 < fl (6/10) then AI_GENERATED else HUMAN)"
      and c: "conf = py_round (if d1 < fl (6/10) then fadd (fl (75/100)) (fmul d2 (fl (23/100)))
                      else fadd (fl (70/100)) (fmul d2 (fl (25/100)))) 4"
    by (auto elim: mock_main_run mock_m_run)
  have d: "0 \<le> d2" "d2 \<le> 1" using random_range[OF assms(1) r] by simp_all
  show ?thesis
    using confidence_range_ai[OF d] confidence_range_human[OF d] l c by simp
qed

lemma confidence_unit:
  assumes "lib_ok L"
    and "mock_ai_detection_main L bs lang g = Inr ((lab, conf, ex), g') \<or>
         mock_ai_detection_m L bs lang g = Inr ((lab, conf, ex), g')"
  shows "0 \<le> conf \<and> conf \<le> 1"
proof -
  have lo: "0 \<le> fl (75 / 100)" "0 \<le> fl (70 / 100)"
    using fl_mono[of 0 "75 / 100"] fl_mono[of 0 "70 / 100"] by (simp_all add: fl_zero)
  have hi: "fl (98 / 100) \<le> 1" "fl (95 / 100) \<le> 1"
    using fl_mono[of "98 / 100" 1] fl_mono[of "95 / 100" 1] by (simp_all add: fl_one)
  show ?thesis
    using confidence_band[OF assms] lo hi by (cases "lab = AI_GENERATED") auto
qed

lemma mock_main_total:
  assumes ok: "lib_ok L"
  shows "\<exists>r g'. mock_ai_detection_main L bs lang g = Inr (r, g')"
proof -
  obtain hv where h: "hash_value L bs = Inr hv" using hash_value_total[OF ok] by blast
  obtain d1 g2 where r1: "random_random L (random_seed L hv g) = (d1, g2)"
    by (cases "random_random L (random_seed L hv g)")
  obtain d2 g3 where r2: "random_random L g2 = (d2, g3)" by (cases "random_random L g2")
  let ?cat = "if d1 < fl (6 / 10) then ai_indicators else human_indicators"
  have "(0::int) \<le> 3 \<and> 3 \<le> int (length ?cat)" using catalogs by simp
  then obtain ps g4 where s: "random_sample L ?cat 3 g3 = Inr (map (\<lambda>i. ?cat ! i) ps, g4)"
    using ok unfolding lib_ok_def by meson
  obtain u1 g5 where a: "random_random L g4 = (u1, g5)" by (cases "random_random L g4")
  obtain u2 g6 where b: "random_random L g5 = (u2, g6)" by (cases "random_random L g5")
  obtain u3 g7 where c: "random_random L g6 = (u3, g7)" by (cases "random_random L g6")
  show ?thesis using mock_main_eval[OF h r1 r2 s a b c, of lang] by blast
qed

lemma mock_m_total:
  assumes ok: "lib_ok L"
  shows "\<exists>r g'. mock_ai_detection_m L bs lang g = Inr (r, g')"
proof -
  obtain hv where h: "hash_value L bs = Inr hv" using hash_value_total[OF ok] by blast
  obtain d1 g2 where r1: "random_random L (random_seed L hv g) = (d1, g2)"
    by (cases "random_random L (random_seed L hv g)")
  obtain d2 g3 where r2: "random_random L g2 = (d2, g3)" by (cases "random_random L g2")
  let ?cat = "if d1 < fl (6 / 10) then ai_indicators else human_indicators"
  have "\<exists>n g'. random_randint L 2 3 g3 = Inr (n, g') \<and> 2 \<le> n \<and> n \<le> 3"
    using ok unfolding lib_ok_def by simp
  then obtain k g4 where ri: "random_randint L 2 3 g3 = Inr (k, g4)" and k: "2 \<le> k" "k \<le> 3"
    by blast
  have "0 \<le> k \<and> k \<le> int (length ?cat)" using catalogs k by simp
  then obtain ps g5 where s: "random_sample L ?cat k g4 = Inr (map (\<lambda>i. ?cat ! i) ps, g5)"
    using ok unfolding lib_ok_def by meson
  obtain u1 g6 where a: "random_random L g5 = (u1, g6)" by (cases "random_random L g5")
  obtain u2 g7 where b: "random_random L g6 = (u2, g7)" by (cases "random_random L g6")
  obtain u3 g8 where c: "random_random L g7 = (u3, g8)" by (cases "random_random L g7")
  show ?thesis using mock_m_eval[OF h r1 r2 ri s a b c, of lang] by blast
qed

lemma decode_audio_ok:
  assumes "b64decode L s = Inr bs"
    and "startswith bs [0xFF, 0xFB] \<or> startswith bs [0x49, 0x44, 0x33]"
  shows "decode_audio L s = Inr (bs, fdiv (fdiv (of_nat (length bs)) 1024) 16)"
  using assms by (auto simp: decode_audio_def Let_def)

lemma decode_audio_rejects:
  assumes "b64decode L s = Inr bs"
    and "\<not> startswith bs [0xFF, 0xFB]" "\<not> startswith bs [0x49, 0x44, 0x33]"
  shows "decode_audio L s = Inl (HTTPException 400 ''Invalid audio data: Invalid MP3 format'')"
  using assms by (simp add: decode_audio_def)

lemma detect_voice_ok:
  assumes ok: "lib_ok L" and key: "api_key = K"
    and lang: "audio_request.language req \<in> set SUPPORTED_LANGUAGES"
    and dec: "decode_audio L (audio_base64 req) = Inr (bs, dur)"
  shows "\<exists>lab conf ex g'.
           mock_ai_detection_main L bs (audio_request.language req) g = Inr ((lab, conf, ex), g') \<and>
           detect_voice L K req api_key elapsed g =
             Inr (\<lparr>classification = lab, confidence = conf,
                   language = audio_request.language req,
                   processing_time_ms = py_round (fmul elapsed 1000) 2,
                   audio_duration_seconds = py_round dur 2, explanation = ex\<rparr>, g')"
proof -
  obtain lab conf ex g' where
    m: "mock_ai_detection_main L bs (audio_request.language req) g = Inr ((lab, conf, ex), g')"
    using mock_main_total[OF ok, of bs "audio_request.language req" g] by auto
  have c: "0 \<le> conf \<and> conf \<le> 1" using confidence_unit[OF ok disjI1[OF m]] .
  have "detect_voice L K req api_key elapsed g =
             Inr (\<lparr>classification = lab, confidence = conf,
                   language = audio_request.language req,
                   processing_time_ms = py_round (fmul elapsed 1000) 2,
                   audio_duration_seconds = py_round dur 2, explanation = ex\<rparr>, g')"
    using key lang dec m c
    by (simp add: detect_voice_def verify_api_key_def DetectionResponse_def Let_def)
  with m show ?thesis by blast
qed

lemma one_second: "py_round (fdiv (fdiv 16384 1024) 16) 2 = 1"
proof -
  have a: "fdiv 16384 1024 = 16" unfolding fdiv_def using fl_big[of 16 4 4503599627370496] by simp
  have b: "fdiv 16 16 = 1" unfolding fdiv_def using fl_one by simp
  have r: "rne (1 * 10 ^ 2) = 100" by (rule rne_eqI) simp_all
  show ?thesis unfolding a b py_round_def r using fl_one by simp
qed

text \<open>
  Divisions by 1024 and by 16 are exact on floats: a byte count below \<open>2^53\<close> is a float,
  and so is its quotient by a power of two.
\<close>

lemma fl_dyadic:
  assumes n: "0 < n" "n < 2 ^ 53" and j: "j \<le> 1000"
  shows "fl (of_int n / 2 ^ j) = of_int n / 2 ^ j"
proof -
  let ?x = "of_int n / 2 ^ j :: rat"
  define k where "k = ilog2 ?x"
  have pos: "0 < ?x" using n by simp
  have pj: "(2::rat) powi (- int j) = 1 / 2 ^ j" by (simp add: power_int_minus_divide)
  have lo: "2 powi k \<le> ?x" unfolding k_def using pos by (rule ilog2_lower)
  have hi: "?x < 2 powi (k + 1)" unfolding k_def using pos by (rule ilog2_upper)
  have "(1::rat) \<le> of_int n" using n by simp
  then have "(2::rat) powi (- int j) \<le> ?x" unfolding pj by (simp add: divide_right_mono)
  then have "(2::rat) powi (- int j) < 2 powi (k + 1)" using hi by linarith
  then have k1: "- int j < k + 1"
  proof (rule contrapos_pp)
    assume "\<not> - int j < k + 1"
    then have "(2::rat) powi (k + 1) \<le> 2 powi (- int j)"
      by (intro power_int_increasing) simp_all
    then show "\<not> (2::rat) powi (- int j) < 2 powi (k + 1)" by simp
  qed
  have "(of_int n :: rat) < of_int (2 ^ 53)" using n by (simp only: of_int_less_iff)
  then have "(of_int n :: rat) < 2 ^ 53" by simp
  then have "?x < 2 ^ 53 / 2 ^ j" by (simp add: divide_strict_right_mono)
  also have "\<dots> = 2 powi (53 - int j)" by (simp add: power_int_diff)
  finally have "(2::rat) powi k < 2 powi (53 - int j)" using lo by linarith
  then have k2: "k < 53 - int j"
  proof (rule contrapos_pp)
    assume "\<not> k < 53 - int j"
    then have "(2::rat) powi (53 - int j) \<le> 2 powi k"
      by (intro power_int_increasing) simp_all
    then show "\<not> (2::rat) powi k < 2 powi (53 - int j)" by simp
  qed
  define e where "e = nat (52 - k - int j)"
  have e: "int e = 52 - k - int j" unfolding e_def using k2 by simp
  have "max k (- 1022) = k" using k1 j by simp
  then have q: "quantum ?x = 2 powi (k - 52)" unfolding quantum_def k_def[symmetric] by simp
  have "k - 52 = - int (e + j)" using e by simp
  then have q': "quantum ?x = 1 / 2 ^ (e + j)"
    unfolding q by (simp only: power_int_minus_divide power_int_of_nat)
  have "?x / quantum ?x = of_int (n * 2 ^ e)" unfolding q' by (simp add: power_add)
  then have "rne (?x / quantum ?x) = n * 2 ^ e" by (simp only: rne_of_int)
  then have "flp ?x = ?x" unfolding flp_def by (simp add: q' power_add)
  then show ?thesis using pos unfolding fl_def by simp
qed

lemma duration_exact:
  assumes "n < 2 ^ 53"
  shows "fdiv (fdiv (of_nat n) 1024) 16 = of_nat n / 16384"
proof (cases "n = 0")
  case True
  then show ?thesis by (simp add: fdiv_def fl_zero)
next
  case False
  then have a: "0 < int n" by simp
  have "int n < int (2 ^ 53)" using assms by (simp only: of_nat_less_iff)
  then have b: "int n < 2 ^ 53" by simp
  have c: "fl (of_int (int n) / 2 ^ 10) = of_int (int n) / 2 ^ 10"
    using a b by (rule fl_dyadic) simp
  have d: "fl (of_int (int n) / 2 ^ 14) = of_int (int n) / 2 ^ 14"
    using a b by (rule fl_dyadic) simp
  have e1: "fdiv (of_nat n) 1024 = of_nat n / 1024" unfolding fdiv_def using c by simp
  have e2: "(of_nat n / 1024 / 16 :: rat) = of_nat n / 16384" by simp
  have e3: "fl (of_nat n / 16384) = of_nat n / 16384" using d by simp
  have "fdiv (fdiv (of_nat n) 1024) 16 = fl (of_nat n / 1024 / 16)"
    unfolding e1 by (simp only: fdiv_def)
  also have "\<dots> = fl (of_nat n / 16384)" by (simp only: e2)
  also have "\<dots> = of_nat n / 16384" by (rule e3)
  finally show ?thesis .
qed

section \<open>The order of the generator calls\<close>

text \<open>
  A run on the traced library returns what the run on the library returns and appends one
  entry to the log for each call of the generator. The log of main.py has six draws after
  the seeding; the log of m.py has seven, the third being \<open>randint(2, 3)\<close>.
\<close>

lemma traced_hash: "hash_value (traced L) bs = hash_value L bs"
  by (simp add: hash_value_def traced_def)

lemma traced_seed: "random_seed (traced L) a (g, t) = (random_seed L a g, t @ [Seed a])"
  by (simp add: traced_def)

lemma traced_random:
  "random_random L g = (d, g') \<Longrightarrow> random_random (traced L) (g, t) = (d, (g', t @ [Random]))"
  by (simp add: traced_def)

lemma traced_randint:
  "random_randint L a b g = Inr (n, g') \<Longrightarrow>
   random_randint (traced L) a b (g, t) = Inr (n, (g', t @ [Randint a b]))"
  by (simp add: traced_def)

lemma traced_sample:
  "random_sample L pop k g = Inr (xs, g') \<Longrightarrow>
   random_sample (traced L) pop k (g, t) = Inr (xs, (g', t @ [Sample pop k]))"
  by (simp add: traced_def)

lemma main_py_draw_order:
  assumes run: "mock_ai_detection_main L bs lang g = Inr ((lab, conf, ex), g')"
  shows "\<exists>hv. hash_value L bs = Inr hv \<and>
           mock_ai_detection_main (traced L) bs lang (g, t) =
             Inr ((lab, conf, ex),
                  (g', t @ [Seed hv, Random, Random,
                            Sample (if lab = AI_GENERATED then ai_indicators else human_indicators) 3,
                            Random, Random, Random]))"
proof (rule mock_main_run[OF run])
  fix hv d1 g2 d2 g3 picked g4
  assume h: "hash_value L bs = Inr hv"
    and r1: "random_random L (random_seed L hv g) = (d1, g2)"
    and r2: "random_random L g2 = (d2, g3)"
    and s: "random_sample L (if d1 < fl (6 / 10) then ai_indicators else human_indicators) 3 g3 =
              Inr (picked, g4)"
    and l: "lab = (if d1 < fl (6 / 10) then AI_GENERATED else HUMAN)"
  let ?cat = "if d1 < fl (6 / 10) then ai_indicators else human_indicators"
  obtain u1 g5 where a: "random_random L g4 = (u1, g5)" by (cases "random_random L g4")
  obtain u2 g6 where b: "random_random L g5 = (u2, g6)" by (cases "random_random L g5")
  obtain u3 g7 where c: "random_random L g6 = (u3, g7)" by (cases "random_random L g6")
  have plain: "mock_ai_detection_main L bs lang g = Inr
       ((if d1 < fl (6 / 10) then AI_GENERATED else HUMAN,
         py_round (if d1 < fl (6 / 10) then fadd (fl (75 / 100)) (fmul d2 (fl (23 / 100)))
                   else fadd (fl (70 / 100)) (fmul d2 (fl (25 / 100)))) 4,
         \<lparr>primary_indicators = picked,
          language_specific_analysis = capitalize lang @ '' phonetic patterns analyzed'',
          confidence_factors =
            \<lparr>spectral_analysis =
               py_round (fadd (fl (7 / 10)) (fmul (fsub (fl (95 / 100)) (fl (7 / 10))) u1)) 3,
             prosodic_features =
               py_round (fadd (fl (65 / 100)) (fmul (fsub (fl (92 / 100)) (fl (65 / 100))) u2)) 3,
             artifact_detection =
               py_round (fadd (fl (70 / 100)) (fmul (fsub (fl (98 / 100)) (fl (70 / 100))) u3)) 3\<rparr>\<rparr>),
        g7)"
    by (rule mock_main_eval[OF h r1 r2 s a b c])
  have th: "hash_value (traced L) bs = Inr hv" using h by (simp add: traced_hash)
  have t1: "random_random (traced L) (random_seed (traced L) hv (g, t)) =
              (d1, (g2, (t @ [Seed hv]) @ [Random]))"
    unfolding traced_seed using r1 by (rule traced_random)
  have t2: "random_random (traced L) (g2, (t @ [Seed hv]) @ [Random]) =
              (d2, (g3, ((t @ [Seed hv]) @ [Random]) @ [Random]))"
    using r2 by (rule traced_random)
  have ts: "random_sample (traced L) ?cat 3 (g3, ((t @ [Seed hv]) @ [Random]) @ [Random]) =
              Inr (picked, (g4, (((t @ [Seed hv]) @ [Random]) @ [Random]) @ [Sample ?cat 3]))"
    using s by (rule traced_sample)
  have ta: "random_random (traced L) (g4, (((t @ [Seed hv]) @ [Random]) @ [Random]) @ [Sample ?cat 3]) =
              (u1, (g5, ((((t @ [Seed hv]) @ [Random]) @ [Random]) @ [Sample ?cat 3]) @ [Random]))"
    using a by (rule traced_random)
  have tb: "random_random (traced L) (g5, ((((t @ [Seed hv]) @ [Random]) @ [Random]) @ [Sample ?cat 3]) @ [Random]) =
              (u2, (g6, (((((t @ [Seed hv]) @ [Random]) @ [Random]) @ [Sample ?cat 3]) @ [Random]) @ [Random]))"
    using b by (rule traced_random)
  have tc: "random_random (traced L) (g6, (((((t @ [Seed hv]) @ [Random]) @ [Random]) @ [Sample ?cat 3]) @ [Random]) @ [Random]) =
              (u3, (g7, ((((((t @ [Seed hv]) @ [Random]) @ [Random]) @ [Sample ?cat 3]) @ [Random]) @ [Random]) @ [Random]))"
    using c by (rule traced_random)
  have traced: "mock_ai_detection_main (traced L) bs lang (g, t) = Inr
       ((if d1 < fl (6 / 10) then AI_GENERATED else HUMAN,
         py_round (if d1 < fl (6 / 10) then fadd (fl (75 / 100)) (fmul d2 (fl (23 / 100)))
                   else fadd (fl (70 / 100)) (fmul d2 (fl (25 / 100)))) 4,
         \<lparr>primary_indicators = picked,
          language_specific_analysis = capitalize lang @ '' phonetic patterns analyzed'',
          confidence_factors =
            \<lparr>spectral_analysis =
               py_round (fadd (fl (7 / 10)) (fmul (fsub (fl (95 / 100)) (fl (7 / 10))) u1)) 3,
             prosodic_features =
               py_round (fadd (fl (65 / 100)) (fmul (fsub (fl (92 / 100)) (fl (65 / 100))) u2)) 3,
             artifact_detection =
               py_round (fadd (fl (70 / 100)) (fmul (fsub (fl (98 / 100)) (fl (70 / 100))) u3)) 3\<rparr>\<rparr>),
        (g7, ((((((t @ [Seed hv]) @ [Random]) @ [Random]) @ [Sample ?cat 3]) @ [Random]) @ [Random]) @ [Random]))"
    by (rule mock_main_eval[OF th t1 t2 ts ta tb tc])
  have cat: "?cat = (if lab = AI_GENERATED then ai_indicators else human_indicators)"
    using l by simp
  show ?thesis
    using h run plain traced cat by (intro exI[of _ hv]) simp
qed

lemma m_py_draw_order:
  assumes ok: "lib_ok L"
    and run: "mock_ai_detection_m L bs lang g = Inr ((lab, conf, ex), g')"
  shows "\<exists>hv. hash_value L bs = Inr hv \<and>
           mock_ai_detection_m (traced L) bs lang (g, t) =
             Inr ((lab, conf, ex),
                  (g', t @ [Seed hv, Random, Random, Randint 2 3,
                            Sample (if lab = AI_GENERATED then ai_indicators else human_indicators)
                                   (int (length (primary_indicators ex))),
                            Random, Random, Random]))"
proof (rule mock_m_run[OF run])
  fix hv d1 g2 d2 g3 k g4 picked g5
  assume h: "hash_value L bs = Inr hv"
    and r1: "random_random L (random_seed L hv g) = (d1, g2)"
    and r2: "random_random L g2 = (d2, g3)"
    and ri: "random_randint L 2 3 g3 = Inr (k, g4)"
    and s: "random_sample L (if d1 < fl (6 / 10) then ai_indicators else human_indicators) k g4 =
              Inr (picked, g5)"
    and l: "lab = (if d1 < fl (6 / 10) then AI_GENERATED else HUMAN)"
    and p: "primary_indicators ex = picked"
  let ?cat = "if d1 < fl (6 / 10) then ai_indicators else human_indicators"
  have "\<exists>n g'. random_randint L 2 3 g3 = Inr (n, g') \<and> 2 \<le> n \<and> n \<le> 3"
    using ok unfolding lib_ok_def by simp
  then have k: "2 \<le> k" "k \<le> 3" using ri by auto
  have "int (length picked) = k"
    using sample_valid[OF ok _ _ _ s] catalogs k by (simp split: if_splits)
  then have len: "k = int (length (primary_indicators ex))" using p by simp
  obtain u1 g6 where a: "random_random L g5 = (u1, g6)" by (cases "random_random L g5")
  obtain u2 g7 where b: "random_random L g6 = (u2, g7)" by (cases "random_random L g6")
  obtain u3 g8 where c: "random_random L g7 = (u3, g8)" by (cases "random_random L g7")
  note plain = mock_m_eval[OF h r1 r2 ri s a b c, of lang]
  have th: "hash_value (traced L) bs = Inr hv" using h by (simp add: traced_hash)
  have t1: "random_random (traced L) (random_seed (traced L) hv (g, t)) =
              (d1, (g2, (t @ [Seed hv]) @ [Random]))"
    unfolding traced_seed using r1 by (rule traced_random)
  note t2 = traced_random[OF r2, of "(t @ [Seed hv]) @ [Random]"]
  note ti = traced_randint[OF ri, of "((t @ [Seed hv]) @ [Random]) @ [Random]"]
  note ts = traced_sample[OF s, of "(((t @ [Seed hv]) @ [Random]) @ [Random]) @ [Randint 2 3]"]
  note ta = traced_random[OF a,
      of "((((t @ [Seed hv]) @ [Random]) @ [Random]) @ [Randint 2 3]) @ [Sample ?cat k]"]
  note tb = traced_random[OF b,
      of "(((((t @ [Seed hv]) @ [Random]) @ [Random]) @ [Randint 2 3]) @ [Sample ?cat k]) @ [Random]"]
  note tc = traced_random[OF c,
      of "((((((t @ [Seed hv]) @ [Random]) @ [Random]) @ [Randint 2 3]) @ [Sample ?cat k]) @ [Random]) @ [Random]"]
  note traced = mock_m_eval[OF th t1 t2 ti ts ta tb tc, of lang]
  have cat: "?cat = (if lab = AI_GENERATED then ai_indicators else human_indicators)"
    using l by simp
  show ?thesis
    using h run plain traced cat len by (intro exI[of _ hv]) simp
qed

lemma reference_hash: "hash_value reference_lib reference_payload = Inr 426107664488648074"
  by (simp add: hash_value_def reference_lib_def cpython_lib_def is_hexdigit_def py_int16_def hex_val_def)

lemma m_py_draws_in_order:
  "trace_of (mock_ai_detection_m (traced reference_lib) reference_payload ''english'' ([], [])) =
     Some [Seed 426107664488648074, Random, Random, Randint 2 3, Sample ai_indicators 3,
           Random, Random, Random]"
  using m_py_draw_order[OF reference_lib_ok reference_run_m, of "[]"]
  by (auto simp: reference_hash trace_of_def)

text \<open>
  The two pipelines agree on the label and the confidence, which come from the first two
  draws; main.py always returns three indicators.
\<close>

lemma entry_points_agree_on_label_and_confidence:
  assumes "mock_ai_detection_main L bs lang g = Inr ((lab, conf, ex), g1)"
    and "mock_ai_detection_m L bs lang g = Inr ((lab', conf', ex'), g2)"
  shows "lab' = lab \<and> conf' = conf"
proof (rule mock_main_run[OF assms(1)], rule mock_m_run[OF assms(2)])
  fix hv d1 g2 d2 g3 hv' d1' g2' d2' g3'
  assume "hash_value L bs = Inr hv" "hash_value L bs = Inr hv'"
    "random_random L (random_seed L hv g) = (d1, g2)"
    "random_random L (random_seed L hv' g) = (d1', g2')"
    "random_random L g2 = (d2, g3)" "random_random L g2' = (d2', g3')"
    "lab = (if d1 < fl (6 / 10) then AI_GENERATED else HUMAN)"
    "lab' = (if d1' < fl (6 / 10) then AI_GENERATED else HUMAN)"
    "conf = py_round (if d1 < fl (6/10) then fadd (fl (75/100)) (fmul d2 (fl (23/100)))
                      else fadd (fl (70/100)) (fmul d2 (fl (25/100)))) 4"
    "conf' = py_round (if d1' < fl (6/10) then fadd (fl (75/100)) (fmul d2' (fl (23/100)))
                      else fadd (fl (70/100)) (fmul d2' (fl (25/100)))) 4"
  then show ?thesis by simp
qed

lemma main_py_always_three_indicators:
  assumes ok: "lib_ok L"
    and run: "mock_ai_detection_main L bs lang g = Inr ((lab, conf, ex), g')"
  shows "length (primary_indicators ex) = 3"
proof (rule mock_main_run[OF run])
  fix d1 :: rat and g3 picked g4
  assume s: "random_sample L (if d1 < fl (6 / 10) then ai_indicators else human_indicators) 3 g3 =
              Inr (picked, g4)"
    and p: "primary_indicators ex = picked"
  have "int (length picked) = 3"
    using sample_valid[OF ok _ _ _ s] catalogs by (simp split: if_splits)
  then show ?thesis using p by simp
qed


section \<open>Claims\<close>

text \<open>
  C10. The language tag does not influence detection: for the same bytes and the same
  generator state, two runs with different language tags agree on the label, the
  confidence, the indicator list, the three sub-scores and the final generator state (or
  fail with the same error); only the caption is built from the tag. This holds for the
  pipeline of main.py and for the pipeline of m.py.
\<close>

theorem language_does_not_influence_detection:
  "map_sum id (map_prod detection_of id) (mock_ai_detection_main L bs l1 g) =
   map_sum id (map_prod detection_of id) (mock_ai_detection_main L bs l2 g) \<and>
   map_sum id (map_prod detection_of id) (mock_ai_detection_m L bs l1 g) =
   map_sum id (map_prod detection_of id) (mock_ai_detection_m L bs l2 g)"
  unfolding mock_ai_detection_main_def mock_ai_detection_m_def detection_of_def
  by (auto simp: Let_def split: sum.splits prod.splits if_splits)

text \<open>
  C1. Determinism: the result of a run (label, confidence, explanation, or the error) and
  the generator state it leaves are a function of the bytes and the language alone. The
  only state outside the request that the pipeline touches is the module-level generator,
  and \<open>random.seed\<close> replaces it before the first draw: two runs on the same input from
  any two generator states agree, for main.py and for m.py.
\<close>

theorem detection_is_deterministic:
  assumes "seed_resets L"
  shows "mock_ai_detection_main L bs lang g = mock_ai_detection_main L bs lang g' \<and>
         mock_ai_detection_m L bs lang g = mock_ai_detection_m L bs lang g'"
proof -
  have "random_seed L hv g = random_seed L hv g'" for hv
    using assms by (simp add: seed_resets_def)
  then show ?thesis
    unfolding mock_ai_detection_main_def mock_ai_detection_m_def
    by (simp split: sum.splits)
qed

theorem detection_is_deterministic_witness:
  "seed_resets reference_lib \<and>
   mock_ai_detection_main reference_lib reference_payload ''english'' [] =
   mock_ai_detection_main reference_lib reference_payload ''english'' [7, 11] \<and>
   mock_ai_detection_m reference_lib reference_payload ''english'' [] =
   mock_ai_detection_m reference_lib reference_payload ''english'' [7, 11]"
  using detection_is_deterministic[OF reference_lib_seed_resets, of reference_payload "''english''" "[]" "[7, 11]"]
    reference_lib_seed_resets
  by simp

text \<open>
  C3 (as stated). The returned confidence of an AI_GENERATED result is claimed to stay
  strictly below 0.98. On the payload \<open>FF FB 00 3C FA\<close> the pipeline of m.py returns
  AI_GENERATED with confidence \<open>round(0.75 + d * 0.23, 4) = 0.98\<close>: the rounding to four
  decimals reaches the upper end of the band.
\<close>

theorem confidence_reaches_upper_bound:
  "map_option fst (result_of (mock_ai_detection_m band_top_lib band_top_payload ''english'' [])) =
     Some AI_GENERATED \<and>
   \<not> the (map_option (fst \<circ> snd)
           (result_of (mock_ai_detection_m band_top_lib band_top_payload ''english'' [])))
       < fl (98 / 100)"
  unfolding band_top_run_m result_of_def by simp

text \<open>
  The same happens at the upper end of the HUMAN band: on the payload \<open>FF FB 00 9C 89\<close>
  the pipeline of main.py returns HUMAN with confidence 0.95.
\<close>

lemma confidence_reaches_upper_bound_human:
  "map_option fst (result_of (mock_ai_detection_main band_top_lib band_top_payload_human ''hindi'' [])) =
     Some HUMAN \<and>
   \<not> the (map_option (fst \<circ> snd)
           (result_of (mock_ai_detection_main band_top_lib band_top_payload_human ''hindi'' [])))
       < fl (95 / 100)"
  unfolding band_top_run_main result_of_def by simp

text \<open>
  C3 (amended). For every library that meets its contract and every payload, the returned
  confidence lies in the closed band of its label: between 0.75 and 0.98 inclusive for
  AI_GENERATED, between 0.70 and 0.95 inclusive for HUMAN, for main.py and for m.py.
\<close>

theorem confidence_within_closed_band:
  assumes "lib_ok L"
    and "mock_ai_detection_main L bs lang g = Inr ((lab, conf, ex), g') \<or>
         mock_ai_detection_m L bs lang g = Inr ((lab, conf, ex), g')"
  shows "if lab = AI_GENERATED then fl (75 / 100) \<le> conf \<and> conf \<le> fl (98 / 100)
         else fl (70 / 100) \<le> conf \<and> conf \<le> fl (95 / 100)"
  using assms by (rule confidence_band)

theorem confidence_within_closed_band_witness:
  "lib_ok reference_lib \<and>
   (if AI_GENERATED = AI_GENERATED then fl (75 / 100) \<le> fl (9415 / 10000) \<and> fl (9415 / 10000) \<le> fl (98 / 100)
    else fl (70 / 100) \<le> fl (9415 / 10000) \<and> fl (9415 / 10000) \<le> fl (95 / 100))"
  using confidence_within_closed_band[OF reference_lib_ok disjI1[OF reference_run_main]]
    reference_lib_ok
  by (simp only: simp_thms if_True)

text \<open>
  C5. For every library that meets its contract, every payload and every generator state,
  the pipeline of main.py and the pipeline of m.py both return a result; its label is
  AI_GENERATED exactly when the first draw \<open>d1\<close> from the generator seeded with the
  fingerprint is below 0.6, otherwise HUMAN, and its confidence is \<open>0.75 + d2 * 0.23\<close> for
  AI_GENERATED and \<open>0.70 + d2 * 0.25\<close> for HUMAN, with \<open>d2\<close> the second draw, rounded to
  four decimals. Both draws lie in \<open>[0, 1)\<close>. All arithmetic is that of Python floats.
\<close>

theorem label_and_confidence_from_two_draws:
  assumes ok: "lib_ok L"
  shows "\<exists>hv d1 g2 d2 g3.
           hash_value L bs = Inr hv \<and>
           random_random L (random_seed L hv g) = (d1, g2) \<and>
           random_random L g2 = (d2, g3) \<and>
           0 \<le> d1 \<and> d1 < 1 \<and> 0 \<le> d2 \<and> d2 < 1 \<and>
           (\<exists>ex g'. mock_ai_detection_main L bs lang g =
              Inr ((if d1 < fl (6 / 10) then AI_GENERATED else HUMAN,
                    py_round (if d1 < fl (6 / 10)
                              then fadd (fl (75 / 100)) (fmul d2 (fl (23 / 100)))
                              else fadd (fl (70 / 100)) (fmul d2 (fl (25 / 100)))) 4,
                    ex), g')) \<and>
           (\<exists>ex g'. mock_ai_detection_m L bs lang g =
              Inr ((if d1 < fl (6 / 10) then AI_GENERATED else HUMAN,
                    py_round (if d1 < fl (6 / 10)
                              then fadd (fl (75 / 100)) (fmul d2 (fl (23 / 100)))
                              else fadd (fl (70 / 100)) (fmul d2 (fl (25 / 100)))) 4,
                    ex), g'))"
proof -
  obtain lab conf ex g' where
    m: "mock_ai_detection_main L bs lang g = Inr ((lab, conf, ex), g')"
    using mock_main_total[OF ok, of bs lang g] by auto
  obtain lab' conf' ex' g'' where
    m': "mock_ai_detection_m L bs lang g = Inr ((lab', conf', ex'), g'')"
    using mock_m_total[OF ok, of bs lang g] by auto
  from m obtain hv d1 g2 d2 g3 where
      h: "hash_value L bs = Inr hv"
      and r1: "random_random L (random_seed L hv g) = (d1, g2)"
      and r2: "random_random L g2 = (d2, g3)"
      and l: "lab = (if d1 < fl (6/10) then AI_GENERATED else HUMAN)"
      and c: "conf = py_round (if d1 < fl (6/10) then fadd (fl (75/100)) (fmul d2 (fl (23/100)))
                      else fadd (fl (70/100)) (fmul d2 (fl (25/100)))) 4"
    by (rule mock_main_run)
  from m' obtain hv' d1' g2' d2' g3' where
      h': "hash_value L bs = Inr hv'"
      and r1': "random_random L (random_seed L hv' g) = (d1', g2')"
      and r2': "random_random L g2' = (d2', g3')"
      and l': "lab' = (if d1' < fl (6/10) then AI_GENERATED else HUMAN)"
      and c': "conf' = py_round (if d1' < fl (6/10) then fadd (fl (75/100)) (fmul d2' (fl (23/100)))
                      else fadd (fl (70/100)) (fmul d2' (fl (25/100)))) 4"
    by (rule mock_m_run)
  have "hv' = hv" using h h' by simp
  then have "d1' = d1" "g2' = g2" using r1 r1' by simp_all
  then have "d2' = d2" using r2 r2' by simp
  then have same: "lab' = lab" "conf' = conf" using l l' c c' \<open>d1' = d1\<close> by simp_all
  have range: "\<And>s. 0 \<le> fst (random_random L s) \<and> fst (random_random L s) < 1"
    using ok unfolding lib_ok_def by blast
  have d1: "0 \<le> d1" "d1 < 1" using range[of "random_seed L hv g"] r1 by simp_all
  have d2: "0 \<le> d2" "d2 < 1" using range[of g2] r2 by simp_all
  have a: "\<exists>ex g'. mock_ai_detection_main L bs lang g =
              Inr ((if d1 < fl (6 / 10) then AI_GENERATED else HUMAN,
                    py_round (if d1 < fl (6 / 10)
                              then fadd (fl (75 / 100)) (fmul d2 (fl (23 / 100)))
                              else fadd (fl (70 / 100)) (fmul d2 (fl (25 / 100)))) 4,
                    ex), g')"
    using m l c by blast
  have b: "\<exists>ex g'. mock_ai_detection_m L bs lang g =
              Inr ((if d1 < fl (6 / 10) then AI_GENERATED else HUMAN,
                    py_round (if d1 < fl (6 / 10)
                              then fadd (fl (75 / 100)) (fmul d2 (fl (23 / 100)))
                              else fadd (fl (70 / 100)) (fmul d2 (fl (25 / 100)))) 4,
                    ex), g')"
    using m' same l c by blast
  show ?thesis
    using h r1 r2 d1 d2 a b
    by (intro exI[of _ hv] exI[of _ d1] exI[of _ g2] exI[of _ d2] exI[of _ g3] conjI)
qed

theorem label_and_confidence_from_two_draws_witness:
  "lib_ok reference_lib \<and>
   (\<exists>hv d1 g2 d2 g3.
      hash_value reference_lib reference_payload = Inr hv \<and>
      random_random reference_lib (random_seed reference_lib hv []) = (d1, g2) \<and>
      random_random reference_lib g2 = (d2, g3) \<and>
      0 \<le> d1 \<and> d1 < 1 \<and> 0 \<le> d2 \<and> d2 < 1 \<and>
      (if d1 < fl (6 / 10) then AI_GENERATED else HUMAN) = AI_GENERATED \<and>
      py_round (if d1 < fl (6 / 10)
                then fadd (fl (75 / 100)) (fmul d2 (fl (23 / 100)))
                else fadd (fl (70 / 100)) (fmul d2 (fl (25 / 100)))) 4 = fl (9415 / 10000) \<and>
      (\<exists>ex g'. mock_ai_detection_main reference_lib reference_payload ''english'' [] =
         Inr ((AI_GENERATED, fl (9415 / 10000), ex), g')) \<and>
      (\<exists>ex g'. mock_ai_detection_m reference_lib reference_payload ''english'' [] =
         Inr ((AI_GENERATED, fl (9415 / 10000), ex), g')))"
proof -
  from label_and_confidence_from_two_draws[OF reference_lib_ok,
      of reference_payload "[]" "''english''"]
  obtain hv d1 g2 d2 g3 ex g' where
    f: "hash_value reference_lib reference_payload = Inr hv"
      "random_random reference_lib (random_seed reference_lib hv []) = (d1, g2)"
      "random_random reference_lib g2 = (d2, g3)"
      "0 \<le> d1" "d1 < 1" "0 \<le> d2" "d2 < 1"
    and m: "mock_ai_detection_main reference_lib reference_payload ''english'' [] =
         Inr ((if d1 < fl (6 / 10) then AI_GENERATED else HUMAN,
               py_round (if d1 < fl (6 / 10)
                         then fadd (fl (75 / 100)) (fmul d2 (fl (23 / 100)))
                         else fadd (fl (70 / 100)) (fmul d2 (fl (25 / 100)))) 4,
               ex), g')"
    by blast
  from m have v: "(if d1 < fl (6 / 10) then AI_GENERATED else HUMAN) = AI_GENERATED"
      "py_round (if d1 < fl (6 / 10)
                then fadd (fl (75 / 100)) (fmul d2 (fl (23 / 100)))
                else fadd (fl (70 / 100)) (fmul d2 (fl (25 / 100)))) 4 = fl (9415 / 10000)"
    unfolding reference_run_main by simp_all
  have a: "\<exists>ex g'. mock_ai_detection_main reference_lib reference_payload ''english'' [] =
         Inr ((AI_GENERATED, fl (9415 / 10000), ex), g')"
    unfolding reference_run_main by simp
  have b: "\<exists>ex g'. mock_ai_detection_m reference_lib reference_payload ''english'' [] =
         Inr ((AI_GENERATED, fl (9415 / 10000), ex), g')"
    unfolding reference_run_m by simp
  show ?thesis
    using reference_lib_ok f v a b
    by (intro conjI exI[of _ hv] exI[of _ d1] exI[of _ g2] exI[of _ d2] exI[of _ g3])
qed

text \<open>
  C4. For every library that meets its contract and every payload, the indicator list of a
  result has length 2 or 3 (always 3 in main.py), every entry belongs to the catalog of the
  returned label, no entry repeats, and the three sub-scores are values rounded to 3
  decimals inside their ranges: spectral_analysis in [0.70, 0.95], prosodic_features in
  [0.65, 0.92], artifact_detection in [0.70, 0.98].
\<close>

theorem explanation_is_valid:
  assumes ok: "lib_ok L"
    and run: "mock_ai_detection_main L bs lang g = Inr ((lab, conf, ex), g') \<or>
              mock_ai_detection_m L bs lang g = Inr ((lab, conf, ex), g')"
  shows "(length (primary_indicators ex) = 2 \<or> length (primary_indicators ex) = 3) \<and>
         set (primary_indicators ex) \<subseteq>
           set (if lab = AI_GENERATED then ai_indicators else human_indicators) \<and>
         distinct (primary_indicators ex) \<and>
         fl (7 / 10) \<le> spectral_analysis (confidence_factors ex) \<and>
         spectral_analysis (confidence_factors ex) \<le> fl (95 / 100) \<and>
         fl (65 / 100) \<le> prosodic_features (confidence_factors ex) \<and>
         prosodic_features (confidence_factors ex) \<le> fl (92 / 100) \<and>
         fl (70 / 100) \<le> artifact_detection (confidence_factors ex) \<and>
         artifact_detection (confidence_factors ex) \<le> fl (98 / 100) \<and>
         (\<exists>x1 x2 x3. spectral_analysis (confidence_factors ex) = py_round x1 3 \<and>
                     prosodic_features (confidence_factors ex) = py_round x2 3 \<and>
                     artifact_detection (confidence_factors ex) = py_round x3 3)"
proof -
  let ?cat = "if lab = AI_GENERATED then ai_indicators else human_indicators"
  have cat: "distinct ?cat" "length ?cat = 5" using catalogs by simp_all
  from run obtain k gs gs' where
      k: "2 \<le> k" "k \<le> 3"
      and s: "random_sample L ?cat k gs = Inr (primary_indicators ex, gs')"
      and f: "spectral_analysis (confidence_factors ex) =
                py_round (fst (random_uniform L (fl (7/10)) (fl (95/100)) gs')) 3"
             "prosodic_features (confidence_factors ex) =
                py_round (fst (random_uniform L (fl (65/100)) (fl (92/100))
                  (snd (random_uniform L (fl (7/10)) (fl (95/100)) gs')))) 3"
             "artifact_detection (confidence_factors ex) =
                py_round (fst (random_uniform L (fl (70/100)) (fl (98/100))
                  (snd (random_uniform L (fl (65/100)) (fl (92/100))
                    (snd (random_uniform L (fl (7/10)) (fl (95/100)) gs')))))) 3"
  proof
    assume m: "mock_ai_detection_main L bs lang g = Inr ((lab, conf, ex), g')"
    assume r: "\<And>k gs gs'. \<lbrakk>2 \<le> k; k \<le> 3;
        random_sample L ?cat k gs = Inr (primary_indicators ex, gs');
        spectral_analysis (confidence_factors ex) =
                py_round (fst (random_uniform L (fl (7/10)) (fl (95/100)) gs')) 3;
        prosodic_features (confidence_factors ex) =
                py_round (fst (random_uniform L (fl (65/100)) (fl (92/100))
                  (snd (random_uniform L (fl (7/10)) (fl (95/100)) gs')))) 3;
        artifact_detection (confidence_factors ex) =
                py_round (fst (random_uniform L (fl (70/100)) (fl (98/100))
                  (snd (random_uniform L (fl (65/100)) (fl (92/100))
                    (snd (random_uniform L (fl (7/10)) (fl (95/100)) gs')))))) 3\<rbrakk> \<Longrightarrow> thesis"
    show thesis
      by (rule mock_main_run[OF m], rule r[of 3]) auto
  next
    assume m: "mock_ai_detection_m L bs lang g = Inr ((lab, conf, ex), g')"
    assume r: "\<And>k gs gs'. \<lbrakk>2 \<le> k; k \<le> 3;
        random_sample L ?cat k gs = Inr (primary_indicators ex, gs');
        spectral_analysis (confidence_factors ex) =
                py_round (fst (random_uniform L (fl (7/10)) (fl (95/100)) gs')) 3;
        prosodic_features (confidence_factors ex) =
                py_round (fst (random_uniform L (fl (65/100)) (fl (92/100))
                  (snd (random_uniform L (fl (7/10)) (fl (95/100)) gs')))) 3;
        artifact_detection (confidence_factors ex) =
                py_round (fst (random_uniform L (fl (70/100)) (fl (98/100))
                  (snd (random_uniform L (fl (65/100)) (fl (92/100))
                    (snd (random_uniform L (fl (7/10)) (fl (95/100)) gs')))))) 3\<rbrakk> \<Longrightarrow> thesis"
    show thesis
    proof (rule mock_m_run[OF m])
      fix hv d1 g2 d2 g3 k g4 picked g5
      assume ri: "random_randint L 2 3 g3 = Inr (k, g4)"
      have "\<exists>n g''. random_randint L 2 3 g3 = Inr (n, g'') \<and> 2 \<le> n \<and> n \<le> 3"
        using ok unfolding lib_ok_def by simp
      then have kr: "2 \<le> k" "k \<le> 3" using ri by auto
      assume "random_sample L (if d1 < fl (6/10) then ai_indicators else human_indicators) k g4 = Inr (picked, g5)"
        "lab = (if d1 < fl (6/10) then AI_GENERATED else HUMAN)"
        "primary_indicators ex = picked"
        "spectral_analysis (confidence_factors ex) =
                py_round (fst (random_uniform L (fl (7/10)) (fl (95/100)) g5)) 3"
        "prosodic_features (confidence_factors ex) =
                py_round (fst (random_uniform L (fl (65/100)) (fl (92/100))
                  (snd (random_uniform L (fl (7/10)) (fl (95/100)) g5)))) 3"
        "artifact_detection (confidence_factors ex) =
                py_round (fst (random_uniform L (fl (70/100)) (fl (98/100))
                  (snd (random_uniform L (fl (65/100)) (fl (92/100))
                    (snd (random_uniform L (fl (7/10)) (fl (95/100)) g5)))))) 3"
      then show thesis using kr by (intro r[of k g4 g5]) auto
    qed
  qed
  have v: "int (length (primary_indicators ex)) = k \<and> distinct (primary_indicators ex) \<and>
           set (primary_indicators ex) \<subseteq> set ?cat"
    using k cat by (intro sample_valid[OF ok _ _ _ s]) simp_all
  then have len: "length (primary_indicators ex) = 2 \<or> length (primary_indicators ex) = 3"
    using k by auto
  show ?thesis
    using v len f sub_scores_in_range[OF ok] by (simp only: simp_thms) blast
qed

theorem explanation_is_valid_witness:
  "lib_ok reference_lib \<and>
   (length [''Irregular breathing pattern intervals'', ''Unnatural pitch consistency detected'',
            ''Prosody smoothness exceeds human baseline''] = 2 \<or>
    length [''Irregular breathing pattern intervals'', ''Unnatural pitch consistency detected'',
            ''Prosody smoothness exceeds human baseline''] = 3) \<and>
   set [''Irregular breathing pattern intervals'', ''Unnatural pitch consistency detected'',
        ''Prosody smoothness exceeds human baseline''] \<subseteq> set ai_indicators \<and>
   distinct [''Irregular breathing pattern intervals'', ''Unnatural pitch consistency detected'',
             ''Prosody smoothness exceeds human baseline''] \<and>
   fl (7 / 10) \<le> fl (882 / 1000) \<and> fl (882 / 1000) \<le> fl (95 / 100) \<and>
   fl (65 / 100) \<le> fl (701 / 1000) \<and> fl (701 / 1000) \<le> fl (92 / 100) \<and>
   fl (70 / 100) \<le> fl (919 / 1000) \<and> fl (919 / 1000) \<le> fl (98 / 100)"
  using explanation_is_valid[OF reference_lib_ok disjI1[OF reference_run_main]] reference_lib_ok
  by simp

text \<open>
  C7. A decoded payload that begins neither with \<open>FF FB\<close> nor with \<open>ID3\<close> fails
  validation: \<open>decode_audio\<close> raises the HTTP error 400 "Invalid audio data: Invalid MP3
  format", and the handler returns no response for that request whatever the key and the
  language are; with a valid key and a supported language its error is that same error.
\<close>

theorem unrecognized_signature_is_rejected:
  assumes "b64decode L (audio_base64 req) = Inr bs"
    and "\<not> startswith bs [0xFF, 0xFB]" and "\<not> startswith bs [0x49, 0x44, 0x33]"
  shows "decode_audio L (audio_base64 req) =
           Inl (HTTPException 400 ''Invalid audio data: Invalid MP3 format'') \<and>
         result_of (detect_voice L K req api_key elapsed g) = None \<and>
         (api_key = K \<and> audio_request.language req \<in> set SUPPORTED_LANGUAGES \<longrightarrow>
            detect_voice L K req api_key elapsed g =
              Inl (HTTPException 400 ''Invalid audio data: Invalid MP3 format''))"
  using decode_audio_rejects[OF assms]
  by (simp add: detect_voice_def verify_api_key_def result_of_def)

theorem unrecognized_signature_is_rejected_witness:
  "b64decode transport_lib rejected_base64 = Inr rejected_payload \<and>
   \<not> startswith rejected_payload [0xFF, 0xFB] \<and> \<not> startswith rejected_payload [0x49, 0x44, 0x33] \<and>
   ''key'' = ''key'' \<and> ''english'' \<in> set SUPPORTED_LANGUAGES \<and>
   decode_audio transport_lib rejected_base64 =
     Inl (HTTPException 400 ''Invalid audio data: Invalid MP3 format'') \<and>
   detect_voice transport_lib ''key'' \<lparr>audio_base64 = rejected_base64, language = ''english''\<rparr>
       ''key'' (1 / 1000) [] =
     Inl (HTTPException 400 ''Invalid audio data: Invalid MP3 format'')"
  using unrecognized_signature_is_rejected[of transport_lib
      "\<lparr>audio_base64 = rejected_base64, language = ''english''\<rparr>" rejected_payload
      "''key''" "''key''" "1 / 1000" "[]"]
    rejected_decode rejected_signature english_supported
  by simp

text \<open>
  C8 (as stated). The estimated duration is claimed to be \<open>(len / 1024) / 16\<close> for every
  payload, 0 for the empty one. The signature check of \<open>decode_audio\<close> comes before the
  computation of the duration: the empty payload has no valid signature, so it is rejected
  with status 400 and no duration is returned.
\<close>

theorem empty_payload_has_no_duration:
  "b64decode empty_payload_lib [] = Inr [] \<and>
   decode_audio empty_payload_lib [] \<noteq> Inr ([], 0) \<and>
   decode_audio empty_payload_lib [] =
     Inl (HTTPException 400 ''Invalid audio data: Invalid MP3 format'') \<and>
   detect_voice empty_payload_lib ''key'' \<lparr>audio_base64 = [], language = ''english''\<rparr>
       ''key'' (1 / 1000) [] =
     Inl (HTTPException 400 ''Invalid audio data: Invalid MP3 format'')"
proof -
  have d: "b64decode empty_payload_lib [] = Inr []"
    by (simp add: empty_payload_lib_def cpython_lib_def)
  have r: "decode_audio empty_payload_lib [] =
     Inl (HTTPException 400 ''Invalid audio data: Invalid MP3 format'')"
    using d by (rule decode_audio_rejects) (simp_all add: startswith_def)
  show ?thesis
    using d r english_supported by (simp add: detect_voice_def verify_api_key_def)
qed

text \<open>
  C8 (amended). For every payload with a valid signature \<open>decode_audio\<close> returns the
  estimated duration \<open>(len / 1024) / 16\<close> in float arithmetic; for a payload of fewer than
  \<open>2^53\<close> bytes both divisions are exact and the duration is the rational
  \<open>len / 16384\<close>. A payload of exactly 16384 bytes yields a response whose
  \<open>audio_duration_seconds\<close> is exactly 1.
\<close>

theorem estimated_duration:
  assumes "b64decode L (audio_base64 req) = Inr bs"
    and "startswith bs [0xFF, 0xFB] \<or> startswith bs [0x49, 0x44, 0x33]"
  shows "decode_audio L (audio_base64 req) =
           Inr (bs, fdiv (fdiv (of_nat (length bs)) 1024) 16) \<and>
         (length bs < 2 ^ 53 \<longrightarrow>
            decode_audio L (audio_base64 req) = Inr (bs, of_nat (length bs) / 16384)) \<and>
         (length bs = 16384 \<and> lib_ok L \<and> api_key = K \<and>
          audio_request.language req \<in> set SUPPORTED_LANGUAGES \<longrightarrow>
            (\<exists>resp g'. detect_voice L K req api_key elapsed g = Inr (resp, g') \<and>
                       audio_duration_seconds resp = 1))"
proof (intro conjI impI)
  show d: "decode_audio L (audio_base64 req) = Inr (bs, fdiv (fdiv (of_nat (length bs)) 1024) 16)"
    using assms by (rule decode_audio_ok)
  show "decode_audio L (audio_base64 req) = Inr (bs, of_nat (length bs) / 16384)"
    if "length bs < 2 ^ 53"
    using d duration_exact[OF that] by simp
  assume a: "length bs = 16384 \<and> lib_ok L \<and> api_key = K \<and>
          audio_request.language req \<in> set SUPPORTED_LANGUAGES"
  then have len: "(of_nat (length bs) :: rat) = 16384" by simp
  from a obtain lab conf ex g' where
    "detect_voice L K req api_key elapsed g =
       Inr (\<lparr>classification = lab, confidence = conf,
             language = audio_request.language req,
             processing_time_ms = py_round (fmul elapsed 1000) 2,
             audio_duration_seconds = py_round (fdiv (fdiv (of_nat (length bs)) 1024) 16) 2,
             explanation = ex\<rparr>, g')"
    using detect_voice_ok[of L api_key K req bs _ g elapsed, OF _ _ _ d] by blast
  then show "\<exists>resp g'. detect_voice L K req api_key elapsed g = Inr (resp, g') \<and>
                       audio_duration_seconds resp = 1"
    unfolding len one_second by simp
qed

theorem estimated_duration_witness:
  "b64decode transport_lib duration_base64 = Inr duration_payload \<and>
   (startswith duration_payload [0xFF, 0xFB] \<or> startswith duration_payload [0x49, 0x44, 0x33]) \<and>
   length duration_payload = 16384 \<and> length duration_payload < 2 ^ 53 \<and>
   lib_ok transport_lib \<and> ''key'' = ''key'' \<and>
   ''english'' \<in> set SUPPORTED_LANGUAGES \<and>
   decode_audio transport_lib duration_base64 = Inr (duration_payload, 1) \<and>
   (\<exists>resp g'. detect_voice transport_lib ''key''
       \<lparr>audio_base64 = duration_base64, language = ''english''\<rparr> ''key'' (1 / 1000) [] =
       Inr (resp, g') \<and> audio_duration_seconds resp = 1)"
proof -
  have s: "startswith duration_payload [0xFF, 0xFB] \<or> startswith duration_payload [0x49, 0x44, 0x33]"
    using duration_signature by simp
  have b: "b64decode transport_lib
             (audio_base64 \<lparr>audio_base64 = duration_base64, language = ''english''\<rparr>) =
           Inr duration_payload"
    using duration_decode by simp
  note t = estimated_duration[OF b s, of "''key''" "''key''" "1 / 1000" "[]"]
  have l: "length duration_payload < 2 ^ 53" unfolding duration_length by simp
  have one: "(of_nat (length duration_payload) / 16384 :: rat) = 1"
    unfolding duration_length by simp
  have d: "decode_audio transport_lib duration_base64 = Inr (duration_payload, 1)"
    using t[THEN conjunct2, THEN conjunct1, rule_format, OF l] unfolding one by simp
  have r: "\<exists>resp g'. detect_voice transport_lib ''key''
       \<lparr>audio_base64 = duration_base64, language = ''english''\<rparr> ''key'' (1 / 1000) [] =
       Inr (resp, g') \<and> audio_duration_seconds resp = 1"
    using t[THEN conjunct2, THEN conjunct2] duration_length transport_lib_ok english_supported
    by simp
  show ?thesis
    using duration_decode s duration_length l transport_lib_ok english_supported d r
    by (intro conjI) simp_all
qed

text \<open>
  C9. Once the library meets its contract, both pipelines return a result for every
  payload, every language and every generator state, and the handler returns a response for
  every request that passed the key check, the language check and format validation: no
  error branch is reachable after validation.
\<close>

theorem pipeline_is_total:
  assumes "lib_ok L"
  shows "(\<exists>r g'. mock_ai_detection_main L bs lang g = Inr (r, g')) \<and>
         (\<exists>r g'. mock_ai_detection_m L bs lang g = Inr (r, g')) \<and>
         (api_key = K \<and> audio_request.language req \<in> set SUPPORTED_LANGUAGES \<and>
          decode_audio L (audio_base64 req) = Inr (bs', dur) \<longrightarrow>
            (\<exists>resp g'. detect_voice L K req api_key elapsed g = Inr (resp, g')))"
proof (intro conjI impI)
  show "\<exists>r g'. mock_ai_detection_main L bs lang g = Inr (r, g')"
    using assms by (rule mock_main_total)
  show "\<exists>r g'. mock_ai_detection_m L bs lang g = Inr (r, g')"
    using assms by (rule mock_m_total)
  assume a: "api_key = K \<and> audio_request.language req \<in> set SUPPORTED_LANGUAGES \<and>
          decode_audio L (audio_base64 req) = Inr (bs', dur)"
  then show "\<exists>resp g'. detect_voice L K req api_key elapsed g = Inr (resp, g')"
    using detect_voice_ok[OF assms, of api_key K req bs' dur g elapsed] by blast
qed

theorem pipeline_is_total_witness:
  "lib_ok transport_lib \<and> ''key'' = ''key'' \<and> ''english'' \<in> set SUPPORTED_LANGUAGES \<and>
   decode_audio transport_lib duration_base64 =
     Inr (duration_payload, fdiv (fdiv (of_nat (length duration_payload)) 1024) 16) \<and>
   (\<exists>r g'. mock_ai_detection_main transport_lib duration_payload ''english'' [] = Inr (r, g')) \<and>
   (\<exists>r g'. mock_ai_detection_m transport_lib duration_payload ''english'' [] = Inr (r, g')) \<and>
   (\<exists>resp g'. detect_voice transport_lib ''key''
       \<lparr>audio_base64 = duration_base64, language = ''english''\<rparr> ''key'' (1 / 1000) [] =
       Inr (resp, g'))"
  using pipeline_is_total[OF transport_lib_ok, of duration_payload "''english''" "[]" "''key''" "''key''"
      "\<lparr>audio_base64 = duration_base64, language = ''english''\<rparr>" duration_payload
      "fdiv (fdiv (of_nat (length duration_payload)) 1024) 16" "1 / 1000"]
    transport_lib_ok english_supported
    decode_audio_ok[OF duration_decode disjI1[OF duration_signature]]
  by simp

text \<open>
  C2. The documented draw order is: label discriminator, confidence offset, indicator
  count, indicator sample, then the three sub-score offsets, with no draw skipped. The
  pipeline of m.py draws in this order (lemmas \<open>m_py_draw_order\<close> and
  \<open>m_py_draws_in_order\<close>). The pipeline of main.py does not: on the reference payload
  (\<open>FF FB\<close> followed by 1600 zero bytes) its calls after the seeding are two draws, the
  sample of three indicators and three draws; the indicator count is never drawn.
\<close>

theorem main_py_skips_the_count_draw:
  "trace_of (mock_ai_detection_main (traced reference_lib) reference_payload ''english'' ([], [])) =
     Some [Seed 426107664488648074, Random, Random, Sample ai_indicators 3, Random, Random, Random]"
  using main_py_draw_order[OF reference_run_main, of "[]"]
  by (auto simp: reference_hash trace_of_def)

text \<open>
  C6. The pipelines of main.py and m.py are claimed to return the same label, confidence
  and indicator set on every payload, in particular on the reference payload. On the
  reference payload both return AI_GENERATED with the same confidence, but the indicators
  differ: main.py samples right after the second draw, m.py after the draw of the count,
  so that the samples come from different generator states. The indicator
  \<open>Irregular breathing pattern intervals\<close> is returned by main.py and not by m.py.
\<close>

theorem entry_points_disagree_on_reference_payload:
  "map_option (\<lambda>r. primary_indicators (snd (snd r)))
      (result_of (mock_ai_detection_main reference_lib reference_payload ''english'' [])) =
     Some [''Irregular breathing pattern intervals'',
           ''Unnatural pitch consistency detected'',
           ''Prosody smoothness exceeds human baseline''] \<and>
   map_option (\<lambda>r. primary_indicators (snd (snd r)))
      (result_of (mock_ai_detection_m reference_lib reference_payload ''english'' [])) =
     Some [''Unnatural pitch consistency detected'',
           ''Phase coherence artifacts present'',
           ''Prosody smoothness exceeds human baseline''] \<and>
   map_option (\<lambda>r. ''Irregular breathing pattern intervals'' \<in> set (primary_indicators (snd (snd r))))
      (result_of (mock_ai_detection_main reference_lib reference_payload ''english'' [])) = Some True \<and>
   map_option (\<lambda>r. ''Irregular breathing pattern intervals'' \<in> set (primary_indicators (snd (snd r))))
      (result_of (mock_ai_detection_m reference_lib reference_payload ''english'' [])) = Some False \<and>
   map_option (\<lambda>r. (fst r, fst (snd r)))
      (result_of (mock_ai_detection_main reference_lib reference_payload ''english'' [])) =
   map_option (\<lambda>r. (fst r, fst (snd r)))
      (result_of (mock_ai_detection_m reference_lib reference_payload ''english'' []))"
  unfolding reference_run_main reference_run_m result_of_def
  by simp

end
